theory Spec2Isabelle
  imports Complex_Main "HOL-Library.List_Lexorder" "HOL-Library.Char_ord"
begin

section \<open>CONTROL: budget valuation core of \<^verbatim>\<open>app.js\<close>\<close>

text \<open>
  A shallow embedding of the valuation core of the CONTROL web application: numeric
  parsing and rounding, the revision overlay, contract and executed values, the finance
  accumulation, the budget and planned-curve importers and the suspension shift.

  Conventions of the embedding.
  \<^item> A JavaScript number is a \<open>jsnum\<close>: a finite value (a rational), \<open>Infinity\<close>,
    \<open>-Infinity\<close> or \<open>NaN\<close>. Products and quotients, and the sums and differences of the
    valuation, are rounded to binary64 (53 significant binary digits, ties to even) as
    IEEE-754 prescribes; the exponent range is unbounded, so overflow to infinity and
    gradual underflow are not modelled, nor is the sign of zero. The sums of the planned
    curve and the value of a numeric literal read by \<open>Number\<close> are kept exact.
  \<^item> A property that is \<open>null\<close> or \<open>undefined\<close> is \<open>None\<close>; the source treats the two
    alike wherever it reads one (\<open>??\<close>, \<open>||\<close>, \<open>typeof x === "number"\<close>).
  \<^item> A string is a list of code units below 256 (\<open>char\<close>); \<open><\<close> and \<open>\<le>\<close> on strings
    are the lexicographic order on code units, as in JavaScript.
  \<^item> The global \<open>settings\<close> object is passed to every function that reads it.
\<close>

subsection \<open>Numbers\<close>

datatype jsnum = Fin rat | PInf | NInf | NaN

fun isFinite :: "jsnum \<Rightarrow> bool" where
  "isFinite (Fin _) = True"
| "isFinite _ = False"

text \<open>
  Rounding to binary64. \<open>bitLength n\<close> is the number of binary digits of a positive
  integer, \<open>pow2 k\<close> the power \<open>2\<^sup>k\<close> for an integer \<open>k\<close>, and \<open>binaryExponent q\<close> the
  exponent \<open>e\<close> with \<open>2\<^sup>e \<le> |q| < 2\<^sup>e\<^sup>+\<^sup>1\<close>. \<open>binary64 q\<close> is the multiple of
  \<open>2\<^sup>e\<^sup>-\<^sup>5\<^sup>2\<close> nearest to \<open>q\<close>, a tie going to the even multiple: the value of \<open>q\<close> rounded
  to a significand of 53 binary digits.
\<close>

function bitLength :: "int \<Rightarrow> int" where
  "bitLength n = (if n \<le> 0 then 0 else 1 + bitLength (n div 2))"
  by auto
termination
  by (relation "measure nat") auto

declare bitLength.simps [simp del]

definition pow2 :: "int \<Rightarrow> rat" where
  "pow2 k = (if 0 \<le> k then 2 ^ nat k else 1 / 2 ^ nat (- k))"

definition binaryExponent :: "rat \<Rightarrow> int" where
  "binaryExponent q =
     (let (n, d) = quotient_of \<bar>q\<bar>;
          k = bitLength n - bitLength d
      in if pow2 k \<le> \<bar>q\<bar> then k else k - 1)"

definition roundHalfEven :: "rat \<Rightarrow> int" where
  "roundHalfEven m =
     (let f = \<lfloor>m\<rfloor>; r = m - of_int f
      in if r < 1 / 2 then f else if 1 / 2 < r then f + 1 else if even f then f else f + 1)"

definition binary64 :: "rat \<Rightarrow> rat" where
  "binary64 q =
     (if q = 0 then 0
      else let ulp = pow2 (binaryExponent q - 52)
           in of_int (roundHalfEven (q / ulp)) * ulp)"

text \<open>The number that a decimal literal of the source or of a data file denotes.\<close>

definition num :: "rat \<Rightarrow> jsnum" where
  "num q = Fin (binary64 q)"

definition round64 :: "jsnum \<Rightarrow> jsnum" where
  "round64 x = (case x of Fin q \<Rightarrow> Fin (binary64 q) | _ \<Rightarrow> x)"

text \<open>The exact sum of two numbers, with the infinities and \<open>NaN\<close> of IEEE-754.\<close>

fun js_add :: "jsnum \<Rightarrow> jsnum \<Rightarrow> jsnum" where
  "js_add (Fin a) (Fin b) = Fin (a + b)"
| "js_add NaN _ = NaN"
| "js_add _ NaN = NaN"
| "js_add PInf NInf = NaN"
| "js_add NInf PInf = NaN"
| "js_add PInf _ = PInf"
| "js_add _ PInf = PInf"
| "js_add NInf _ = NInf"
| "js_add _ NInf = NInf"

fun js_neg :: "jsnum \<Rightarrow> jsnum" where
  "js_neg (Fin a) = Fin (- a)"
| "js_neg PInf = NInf"
| "js_neg NInf = PInf"
| "js_neg NaN = NaN"

definition js_sub :: "jsnum \<Rightarrow> jsnum \<Rightarrow> jsnum" where
  "js_sub a b = js_add a (js_neg b)"

text \<open>The exact sum of a list of numbers.\<close>

fun js_sum :: "jsnum list \<Rightarrow> jsnum" where
  "js_sum [] = Fin 0"
| "js_sum (x # xs) = js_add x (js_sum xs)"

text \<open>
  \<open>a + b\<close> and \<open>a - b\<close> on doubles: the exact result rounded to binary64. The valuation
  (\<open>contractValue\<close>, \<open>computeExecutedValues\<close>, \<open>financeAccumUpTo\<close>) adds and subtracts
  with these.
\<close>

definition js_add64 :: "jsnum \<Rightarrow> jsnum \<Rightarrow> jsnum" where
  "js_add64 a b = round64 (js_add a b)"

definition js_sub64 :: "jsnum \<Rightarrow> jsnum \<Rightarrow> jsnum" where
  "js_sub64 a b = round64 (js_sub a b)"

definition signed_inf :: "bool \<Rightarrow> jsnum" where
  "signed_inf positive = (if positive then PInf else NInf)"

text \<open>\<open>a * b\<close> on doubles: the exact product rounded to binary64.\<close>

fun js_mul :: "jsnum \<Rightarrow> jsnum \<Rightarrow> jsnum" where
  "js_mul (Fin a) (Fin b) = Fin (binary64 (a * b))"
| "js_mul NaN _ = NaN"
| "js_mul _ NaN = NaN"
| "js_mul (Fin a) PInf = (if a = 0 then NaN else signed_inf (0 < a))"
| "js_mul (Fin a) NInf = (if a = 0 then NaN else signed_inf (a < 0))"
| "js_mul PInf (Fin b) = (if b = 0 then NaN else signed_inf (0 < b))"
| "js_mul NInf (Fin b) = (if b = 0 then NaN else signed_inf (b < 0))"
| "js_mul PInf PInf = PInf"
| "js_mul NInf NInf = PInf"
| "js_mul PInf NInf = NInf"
| "js_mul NInf PInf = NInf"

text \<open>
  \<open>a / b\<close> on doubles: the exact quotient rounded to binary64. A finite non-zero value
  over zero is an infinity whose sign is that of the dividend (the zero is taken as \<open>+0\<close>).
\<close>

fun js_div :: "jsnum \<Rightarrow> jsnum \<Rightarrow> jsnum" where
  "js_div (Fin a) (Fin b) =
     (if b = 0 then (if a = 0 then NaN else signed_inf (0 < a)) else Fin (binary64 (a / b)))"
| "js_div NaN _ = NaN"
| "js_div _ NaN = NaN"
| "js_div (Fin a) _ = Fin 0"
| "js_div PInf (Fin b) = signed_inf (0 \<le> b)"
| "js_div NInf (Fin b) = signed_inf (b < 0)"
| "js_div _ _ = NaN"

text \<open>The comparison \<open>a <= b\<close>: false whenever an operand is \<open>NaN\<close>.\<close>

fun js_le :: "jsnum \<Rightarrow> jsnum \<Rightarrow> bool" where
  "js_le NaN _ = False"
| "js_le _ NaN = False"
| "js_le (Fin a) (Fin b) = (a \<le> b)"
| "js_le NInf _ = True"
| "js_le _ PInf = True"
| "js_le _ _ = False"

text \<open>\<open>Math.round\<close>: the nearest integer, a half rounding up.\<close>

fun math_round :: "jsnum \<Rightarrow> jsnum" where
  "math_round (Fin a) = Fin (of_int \<lfloor>a + 1 / 2\<rfloor>)"
| "math_round x = x"

text \<open>
  The power \<open>10\<^sup>d\<close> for an integer \<open>d\<close>. \<open>Math.pow(10, d)\<close> is taken as the double nearest
  to it, \<open>binary64 (pow10 d)\<close>, which is the power itself for \<open>0 \<le> d \<le> 22\<close>.
\<close>

definition pow10 :: "int \<Rightarrow> rat" where
  "pow10 d = (if 0 \<le> d then 10 ^ nat d else 1 / 10 ^ nat (- d))"

text \<open>\<open>x || 0\<close> on a number that may be absent: \<open>null\<close>, \<open>NaN\<close> and \<open>0\<close> give \<open>0\<close>.\<close>

fun or_zero :: "jsnum option \<Rightarrow> jsnum" where
  "or_zero None = Fin 0"
| "or_zero (Some NaN) = Fin 0"
| "or_zero (Some x) = x"

text \<open>\<open>ToNumber\<close> of a number that may be \<open>null\<close>, as an arithmetic operand: \<open>null\<close> is \<open>0\<close>.\<close>

fun null_to_number :: "jsnum option \<Rightarrow> jsnum" where
  "null_to_number None = Fin 0"
| "null_to_number (Some x) = x"

subsection \<open>Settings\<close>

record settings =
  moneyDecimals :: int
  qtyDecimals :: int
  highlightExtraQty :: bool
  shiftPlannedBySuspensions :: bool

definition defaultSettings :: settings where
  "defaultSettings =
     \<lparr>moneyDecimals = 0, qtyDecimals = 2, highlightExtraQty = True,
      shiftPlannedBySuspensions = True\<rparr>"

subsection \<open>Rounding\<close>

text \<open>
  \<^verbatim>\<open>
  function roundByDecimals(value, decimals){
    if(value === null || value === undefined) return null;
    const x = Number(value);
    if(!Number.isFinite(x)) return null;
    if(decimals === -3){ return Math.round(x / 1000) * 1000; }
    const p = Math.pow(10, decimals);
    return Math.round(x * p) / p;
  }
  \<close>
\<close>

fun roundByDecimals :: "jsnum option \<Rightarrow> int \<Rightarrow> jsnum option" where
  "roundByDecimals None decimals = None"
| "roundByDecimals (Some x) decimals =
     (if \<not> isFinite x then None
      else if decimals = - 3 then Some (js_mul (math_round (js_div x (Fin 1000))) (Fin 1000))
      else let p = Fin (binary64 (pow10 decimals)) in Some (js_div (math_round (js_mul x p)) p))"

declare roundByDecimals.simps [simp del]

subsection \<open>Money rounding in words\<close>

text \<open>
  What \<open>roundByDecimals\<close> computes, in words. The value is scaled to money units by a
  double operation (divided by 1000 for the precision \<open>-3\<close>, multiplied by the power of ten
  otherwise); \<open>nearestTiesUp\<close> takes the whole number nearest to the scaled value, a half
  going up (\<open>Math.round\<close>); the whole number is scaled back by the inverse double
  operation.
\<close>

definition nearestTiesUp :: "rat \<Rightarrow> int" where
  "nearestTiesUp y = (if y - of_int \<lfloor>y\<rfloor> < 1 / 2 then \<lfloor>y\<rfloor> else \<lfloor>y\<rfloor> + 1)"

definition scaledMoney :: "int \<Rightarrow> rat \<Rightarrow> rat" where
  "scaledMoney d x =
     (if d = - 3 then binary64 (x / 1000) else binary64 (x * binary64 (pow10 d)))"

definition moneyUnits :: "int \<Rightarrow> rat \<Rightarrow> int" where
  "moneyUnits d x = nearestTiesUp (scaledMoney d x)"

definition unitsValue :: "int \<Rightarrow> int \<Rightarrow> rat" where
  "unitsValue d k =
     (if d = - 3 then binary64 (of_int k * 1000) else binary64 (of_int k / binary64 (pow10 d)))"

definition roundedMoney :: "int \<Rightarrow> jsnum \<Rightarrow> jsnum option" where
  "roundedMoney d x =
     (case x of Fin q \<Rightarrow> Some (Fin (unitsValue d (moneyUnits d q))) | _ \<Rightarrow> None)"

text \<open>
  The rounding policy of the specification: to the money unit \<open>10\<^sup>-\<^sup>d\<close> (a thousand for
  \<open>d = -3\<close>) in exact arithmetic, a half going away from zero.
\<close>

definition roundHalfAway :: "int \<Rightarrow> rat \<Rightarrow> rat" where
  "roundHalfAway d x = sgn x * of_int \<lfloor>\<bar>x\<bar> * pow10 d + 1 / 2\<rfloor> / pow10 d"

subsection \<open>Strings\<close>

text \<open>\<open>String.prototype.toLowerCase\<close> on code units below 256 (ASCII and Latin-1 capitals).\<close>

definition lowerChar :: "char \<Rightarrow> char" where
  "lowerChar c =
     (let n = (of_char c :: nat)
      in if (65 \<le> n \<and> n \<le> 90) \<or> (192 \<le> n \<and> n \<le> 222 \<and> n \<noteq> 215)
         then char_of (n + 32) else c)"

definition toLowerCase :: "string \<Rightarrow> string" where
  "toLowerCase s = map lowerChar s"

definition startsWith :: "string \<Rightarrow> string \<Rightarrow> bool" where
  "startsWith s p = (take (length p) s = p)"

definition endsWith :: "string \<Rightarrow> string \<Rightarrow> bool" where
  "endsWith s p = (length p \<le> length s \<and> drop (length s - length p) s = p)"

fun str_includes :: "string \<Rightarrow> string \<Rightarrow> bool" where
  "str_includes [] p = (p = [])"
| "str_includes (c # t) p = (startsWith (c # t) p \<or> str_includes t p)"

subsection \<open>Data model\<close>

datatype itemType = CAP | SUB | ITEM | TEXT | LUMP | SUBTOTAL | AIU | TOTAL | OTHER

text \<open>
  A budget item as \<open>parseBudgetFromSheet\<close> builds it. The random \<open>id\<close> is left out: nothing
  in the valuation reads it. The numeric fields may be absent (\<open>None\<close>) in a project that
  was restored from a backup file.
\<close>

record budgetItem =
  code :: string
  codeNorm :: string
  desc :: string
  unit :: string
  qtyContract :: "jsnum option"
  vuContract :: "jsnum option"
  vtContract :: "jsnum option"
  parentCodeNorm :: string
  type :: itemType

text \<open>A change of a revision: a field is \<open>Some\<close> exactly when \<open>typeof\<close> of it is \<open>"number"\<close>.\<close>

record change =
  itemCodeNorm :: string
  qtyNew :: "jsnum option"
  vuNew :: "jsnum option"

record revision =
  rev_name :: string
  changes :: "change list"

record report =
  rep_id :: string
  cutoffDate :: string
  label :: string
  qtyAccumByItem :: "string \<rightharpoonup> jsnum"

record suspension =
  sus_from :: string
  sus_to :: string
  reason :: string

datatype financeType = ADVANCE | PAYMENT

record financeEvent =
  ev_date :: "string option"
  ev_type :: financeType
  amount :: "jsnum option"

record plannedPoint =
  pt_date :: string
  plannedCostAccum :: jsnum

record contract =
  currency :: string

record budget =
  items :: "budgetItem list"
  revisions :: "revision list"

record finance =
  events :: "financeEvent list"

record planned =
  curve :: "plannedPoint list"

record project =
  proj_name :: string
  contract :: contract
  suspensions :: "suspension list"
  budget :: budget
  reports :: "report list"
  finance :: finance
  planned :: planned

subsection \<open>Revision overlay\<close>

text \<open>
  \<^verbatim>\<open>
  function budgetEffectiveItem(item, project, asOfDate=null){
    let qty = item.qtyContract ?? 0;
    let vu = item.vuContract ?? 0;
    for(const rev of (project.budget.revisions || [])){
      const ch = (rev.changes || []).find(c => c.itemCodeNorm === item.codeNorm);
      if(ch){
        if(typeof ch.qtyNew === "number") qty = ch.qtyNew;
        if(typeof ch.vuNew === "number") vu = ch.vuNew;
      }
    }
    return {qty, vu, vt: qty*vu};
  }
  \<close>
  The loop is \<open>revisionLoop\<close>, with the two running variables as arguments.
\<close>

record effective =
  qty :: jsnum
  vu :: jsnum
  vt :: jsnum

fun revisionLoop :: "budgetItem \<Rightarrow> jsnum \<Rightarrow> jsnum \<Rightarrow> revision list \<Rightarrow> jsnum \<times> jsnum" where
  "revisionLoop item q v [] = (q, v)"
| "revisionLoop item q v (r # revs) =
     (case find (\<lambda>c. itemCodeNorm c = codeNorm item) (changes r) of
        None \<Rightarrow> revisionLoop item q v revs
      | Some ch \<Rightarrow>
          revisionLoop item
            (case qtyNew ch of Some n \<Rightarrow> n | None \<Rightarrow> q)
            (case vuNew ch of Some n \<Rightarrow> n | None \<Rightarrow> v) revs)"

definition budgetEffectiveItem :: "budgetItem \<Rightarrow> project \<Rightarrow> effective" where
  "budgetEffectiveItem item p =
     (let q0 = (case qtyContract item of Some n \<Rightarrow> n | None \<Rightarrow> Fin 0);
          v0 = (case vuContract item of Some n \<Rightarrow> n | None \<Rightarrow> Fin 0);
          (q, v) = revisionLoop item q0 v0 (revisions (budget p))
      in \<lparr>qty = q, vu = v, vt = js_mul q v\<rparr>)"

subsection \<open>Contract value\<close>

text \<open>
  \<^verbatim>\<open>
  function contractValue(project, settings){
    const cur = project.contract.currency || "COP";
    const totalRow = (project.budget.items || []).find(it =>
      (it.type === "TOTAL") &&
      ((it.desc || "").toString().toLowerCase().includes("valor total")) &&
      (typeof it.vtContract === "number") && Number.isFinite(it.vtContract)
    );
    if(totalRow){
      return {value: roundByDecimals(totalRow.vtContract, settings.moneyDecimals), currency: cur};
    }
    let sum = 0;
    for(const it of (project.budget.items || [])){
      if(it.type === "ITEM"){
        const eff = budgetEffectiveItem(it, project);
        sum += eff.qty * eff.vu;
        continue;
      }
      if(it.type === "AIU" || it.type === "LUMP"){
        const vt = (typeof it.vtContract === "number" && Number.isFinite(it.vtContract)) ? it.vtContract : 0;
        sum += vt;
        continue;
      }
    }
    return {value: roundByDecimals(sum, settings.moneyDecimals), currency: cur};
  }
  \<close>
\<close>

record contractValueResult =
  cv_value :: "jsnum option"
  cv_currency :: string

definition currencyOf :: "project \<Rightarrow> string" where
  "currencyOf p = (if currency (contract p) = [] then ''COP'' else currency (contract p))"

definition isTotalRow :: "budgetItem \<Rightarrow> bool" where
  "isTotalRow it =
     (type it = TOTAL \<and> str_includes (toLowerCase (desc it)) ''valor total'' \<and>
      (case vtContract it of Some n \<Rightarrow> isFinite n | None \<Rightarrow> False))"

definition finiteOrZero :: "jsnum option \<Rightarrow> jsnum" where
  "finiteOrZero v = (case v of Some n \<Rightarrow> (if isFinite n then n else Fin 0) | None \<Rightarrow> Fin 0)"

fun contractSumLoop :: "project \<Rightarrow> jsnum \<Rightarrow> budgetItem list \<Rightarrow> jsnum" where
  "contractSumLoop p acc [] = acc"
| "contractSumLoop p acc (it # its) =
     (if type it = ITEM then
        (let eff = budgetEffectiveItem it p
         in contractSumLoop p (js_add64 acc (js_mul (qty eff) (vu eff))) its)
      else if type it = AIU \<or> type it = LUMP then
        contractSumLoop p (js_add64 acc (finiteOrZero (vtContract it))) its
      else contractSumLoop p acc its)"

definition contractValue :: "project \<Rightarrow> settings \<Rightarrow> contractValueResult" where
  "contractValue p st =
     (case find isTotalRow (items (budget p)) of
        Some totalRow \<Rightarrow>
          \<lparr>cv_value = roundByDecimals (vtContract totalRow) (moneyDecimals st),
           cv_currency = currencyOf p\<rparr>
      | None \<Rightarrow>
          \<lparr>cv_value =
             roundByDecimals (Some (contractSumLoop p (Fin 0) (items (budget p)))) (moneyDecimals st),
           cv_currency = currencyOf p\<rparr>)"

subsection \<open>The overlay as the specification words it\<close>

text \<open>
  The specification describes the overlay as a fold: the state is the pair of running
  quantity and unit price, a change overwrites the fields it sets (\<open>applyChange\<close>), a
  revision applies the change that \<open>find\<close> returns for the item's code
  (\<open>applyRevision\<close>). \<open>matchingChanges\<close> lists every change of every revision that
  targets the item, in stored order; \<open>oneChangePerCode\<close> is the data model's invariant
  that a revision holds at most one change per code.
\<close>

definition applyChange :: "jsnum \<times> jsnum \<Rightarrow> change \<Rightarrow> jsnum \<times> jsnum" where
  "applyChange st ch =
     ((case qtyNew ch of Some n \<Rightarrow> n | None \<Rightarrow> fst st),
      (case vuNew ch of Some n \<Rightarrow> n | None \<Rightarrow> snd st))"

definition matchingChange :: "budgetItem \<Rightarrow> revision \<Rightarrow> change option" where
  "matchingChange item r = find (\<lambda>c. itemCodeNorm c = codeNorm item) (changes r)"

definition applyRevision :: "budgetItem \<Rightarrow> jsnum \<times> jsnum \<Rightarrow> revision \<Rightarrow> jsnum \<times> jsnum" where
  "applyRevision item st r =
     (case matchingChange item r of None \<Rightarrow> st | Some ch \<Rightarrow> applyChange st ch)"

definition matchingChanges :: "budgetItem \<Rightarrow> revision list \<Rightarrow> change list" where
  "matchingChanges item revs =
     filter (\<lambda>c. itemCodeNorm c = codeNorm item) (concat (map changes revs))"

definition baseValues :: "budgetItem \<Rightarrow> jsnum \<times> jsnum" where
  "baseValues item =
     ((case qtyContract item of Some n \<Rightarrow> n | None \<Rightarrow> Fin 0),
      (case vuContract item of Some n \<Rightarrow> n | None \<Rightarrow> Fin 0))"

definition effectiveOf :: "jsnum \<times> jsnum \<Rightarrow> effective" where
  "effectiveOf st = \<lparr>qty = fst st, vu = snd st, vt = js_mul (fst st) (snd st)\<rparr>"

definition oneChangePerCode :: "revision \<Rightarrow> bool" where
  "oneChangePerCode r = distinct (map itemCodeNorm (changes r))"

text \<open>The running example: one item, base quantity 10 at unit price 100.\<close>

definition exampleItem :: budgetItem where
  "exampleItem =
     \<lparr>code = ''1.1.1'', codeNorm = ''1.1.1'', desc = ''Excavacion'', unit = ''m3'',
      qtyContract = Some (Fin 10), vuContract = Some (Fin 100), vtContract = Some (Fin 1000),
      parentCodeNorm = ''1.1'', type = ITEM\<rparr>"

definition revisionOf :: "string \<Rightarrow> jsnum option \<Rightarrow> jsnum option \<Rightarrow> revision" where
  "revisionOf nm q v =
     \<lparr>rev_name = nm, changes = [\<lparr>itemCodeNorm = ''1.1.1'', qtyNew = q, vuNew = v\<rparr>]\<rparr>"

definition exampleProject :: "budgetItem list \<Rightarrow> revision list \<Rightarrow> project" where
  "exampleProject its revs =
     \<lparr>proj_name = ''Proyecto'', contract = \<lparr>currency = ''COP''\<rparr>, suspensions = [],
      budget = \<lparr>items = its, revisions = revs\<rparr>, reports = [],
      finance = \<lparr>events = []\<rparr>, planned = \<lparr>curve = []\<rparr>\<rparr>"

definition withRevisions :: "project \<Rightarrow> revision list \<Rightarrow> project" where
  "withRevisions p revs = p\<lparr>budget := (budget p)\<lparr>revisions := revs\<rparr>\<rparr>"

subsection \<open>The contract sum as the specification words it\<close>

text \<open>
  The effective quantity and unit price of an item under the full revision list are the
  components of the overlay's fold. What one budget row adds to the contract value when
  no total row decides it: an \<open>ITEM\<close> its effective quantity times its effective unit
  price, an \<open>AIU\<close> or \<open>LUMP\<close> row its stored total (taken as 0 when it is absent or not
  finite, as the source does); the rows of the other types are not summed. \<open>sum64\<close> adds
  a list from 0, left to right, in double arithmetic.
\<close>

definition effectiveQuantity :: "project \<Rightarrow> budgetItem \<Rightarrow> jsnum" where
  "effectiveQuantity p it =
     fst (foldl (applyRevision it) (baseValues it) (revisions (budget p)))"

definition effectivePrice :: "project \<Rightarrow> budgetItem \<Rightarrow> jsnum" where
  "effectivePrice p it =
     snd (foldl (applyRevision it) (baseValues it) (revisions (budget p)))"

definition contributes :: "budgetItem \<Rightarrow> bool" where
  "contributes it = (type it = ITEM \<or> type it = AIU \<or> type it = LUMP)"

definition itemContribution :: "project \<Rightarrow> budgetItem \<Rightarrow> jsnum" where
  "itemContribution p it =
     (if type it = ITEM then js_mul (effectiveQuantity p it) (effectivePrice p it)
      else finiteOrZero (vtContract it))"

definition sum64 :: "jsnum list \<Rightarrow> jsnum" where
  "sum64 xs = foldl js_add64 (Fin 0) xs"

definition contractSum :: "project \<Rightarrow> jsnum" where
  "contractSum p = sum64 (map (itemContribution p) (filter contributes (items (budget p))))"

definition withItems :: "project \<Rightarrow> budgetItem list \<Rightarrow> project" where
  "withItems p its = p\<lparr>budget := (budget p)\<lparr>items := its\<rparr>\<rparr>"

definition budgetRow :: "itemType \<Rightarrow> string \<Rightarrow> string \<Rightarrow> jsnum option \<Rightarrow> jsnum option \<Rightarrow> jsnum option \<Rightarrow> budgetItem" where
  "budgetRow t c d q v tot =
     \<lparr>code = c, codeNorm = c, desc = d, unit = '''', qtyContract = q, vuContract = v,
      vtContract = tot, parentCodeNorm = '''', type = t\<rparr>"

definition exampleBudget :: "budgetItem list" where
  "exampleBudget =
     [budgetRow ITEM ''1.1.1'' ''Excavacion'' (Some (Fin 10)) (Some (Fin 100)) (Some (Fin 1000)),
      budgetRow AIU [] ''Administracion'' None None (Some (Fin 50)),
      budgetRow SUBTOTAL [] ''Subtotal'' None None (Some (Fin 1050))]"

definition exampleTotalRow :: budgetItem where
  "exampleTotalRow = budgetRow TOTAL [] ''VALOR TOTAL'' None None (Some (Fin 1000000))"

subsection \<open>Executed values\<close>

text \<open>
  \<^verbatim>\<open>
  function previousReport(project, report){
    const cutoff = report.cutoffDate || "";
    return [...(project.reports||[])]
      .filter(r => (r.cutoffDate||"") < cutoff)
      .sort((a,b)=> (a.cutoffDate||"").localeCompare(b.cutoffDate||""))
      .at(-1) || null;
  }
  \<close>
  The filter compares code units. \<open>localeCompare\<close> compares in the collation of the host's
  locale, which is a parameter: \<open>collate s\<close> is the collation key of the string \<open>s\<close>, and
  \<open>a.localeCompare(b)\<close> is negative, zero or positive as \<open>collate a\<close> is below, equal to
  or above \<open>collate b\<close>. \<open>Array.prototype.sort\<close> is stable, as is \<open>sort_key\<close>.
\<close>

definition previousReport :: "(string \<Rightarrow> string) \<Rightarrow> project \<Rightarrow> report \<Rightarrow> report option" where
  "previousReport collate p rep =
     (let cutoff = cutoffDate rep;
          earlier = sort_key (\<lambda>r. collate (cutoffDate r))
                      (filter (\<lambda>r. cutoffDate r < cutoff) (reports p))
      in if earlier = [] then None else Some (last earlier))"

text \<open>
  \<^verbatim>\<open>
  function computeExecutedValues(project, report){
    const prev = previousReport(project, report);
    const prevMap = prev?.qtyAccumByItem || {};
    const map = report.qtyAccumByItem || {};
    const cur = project.contract.currency || "COP";
    let accumVal = 0;
    let periodVal = 0;
    for(const it of (project.budget.items||[])){
      if(it.type !== "ITEM") continue;
      const eff = budgetEffectiveItem(it, project, report.cutoffDate);
      const qa = typeof map[it.codeNorm] === "number" ? map[it.codeNorm] : 0;
      const qp0 = typeof prevMap[it.codeNorm] === "number" ? prevMap[it.codeNorm] : 0;
      const qPeriod = qa - qp0;
      accumVal += qa * eff.vu;
      periodVal += qPeriod * eff.vu;
    }
    return {
      accumVal: roundByDecimals(accumVal, settings.moneyDecimals),
      periodVal: roundByDecimals(periodVal, settings.moneyDecimals),
      currency: cur
    };
  }
  \<close>
\<close>

record executedValues =
  accumVal :: "jsnum option"
  periodVal :: "jsnum option"
  ev_currency :: string

definition storedQty :: "(string \<rightharpoonup> jsnum) \<Rightarrow> string \<Rightarrow> jsnum" where
  "storedQty m k = (case m k of Some n \<Rightarrow> n | None \<Rightarrow> Fin 0)"

fun executedLoop ::
  "project \<Rightarrow> (string \<rightharpoonup> jsnum) \<Rightarrow> (string \<rightharpoonup> jsnum) \<Rightarrow> jsnum \<Rightarrow> jsnum \<Rightarrow> budgetItem list
   \<Rightarrow> jsnum \<times> jsnum" where
  "executedLoop p m prevMap av pv [] = (av, pv)"
| "executedLoop p m prevMap av pv (it # its) =
     (if type it \<noteq> ITEM then executedLoop p m prevMap av pv its
      else
        (let eff = budgetEffectiveItem it p;
             qa = storedQty m (codeNorm it);
             qp0 = storedQty prevMap (codeNorm it);
             qPeriod = js_sub64 qa qp0
         in executedLoop p m prevMap
              (js_add64 av (js_mul qa (vu eff))) (js_add64 pv (js_mul qPeriod (vu eff))) its))"

definition computeExecutedValues ::
  "(string \<Rightarrow> string) \<Rightarrow> project \<Rightarrow> report \<Rightarrow> settings \<Rightarrow> executedValues" where
  "computeExecutedValues collate p rep st =
     (let prevMap = (case previousReport collate p rep of
                       Some prev \<Rightarrow> qtyAccumByItem prev | None \<Rightarrow> Map.empty);
          (av, pv) = executedLoop p (qtyAccumByItem rep) prevMap (Fin 0) (Fin 0) (items (budget p))
      in \<lparr>accumVal = roundByDecimals (Some av) (moneyDecimals st),
          periodVal = roundByDecimals (Some pv) (moneyDecimals st),
          ev_currency = currencyOf p\<rparr>)"

text \<open>
  \<^verbatim>\<open>
  function computeExecutedPct(project, report){
    const cv = contractValue(project, settings).value || 0;
    if(cv <= 0) return null;
    const v = computeExecutedValues(project, report);
    return v.accumVal / cv;
  }
  \<close>
\<close>

definition computeExecutedPct ::
  "(string \<Rightarrow> string) \<Rightarrow> project \<Rightarrow> report \<Rightarrow> settings \<Rightarrow> jsnum option" where
  "computeExecutedPct collate p rep st =
     (let cv = or_zero (cv_value (contractValue p st))
      in if js_le cv (Fin 0) then None
         else Some (js_div (null_to_number (accumVal (computeExecutedValues collate p rep st))) cv))"

subsection \<open>Finance\<close>

text \<open>
  \<^verbatim>\<open>
  function financeAccumUpTo(project, cutoffDate){
    const date = cutoffDate || "9999-12-31";
    const sum = (project.finance.events||[])
      .filter(e => (e.date||"") <= date)
      .reduce((acc, e)=> acc + (Number(e.amount)||0), 0);
    return roundByDecimals(sum, settings.moneyDecimals);
  }
  function computeFinancePct(project, cutoffDate){
    const cv = contractValue(project, settings).value || 0;
    if(cv <= 0) return null;
    const acc = financeAccumUpTo(project, cutoffDate);
    return acc / cv;
  }
  \<close>
  The cutoff is \<open>None\<close> when the caller passes none.
\<close>

definition cutoffOrDefault :: "string option \<Rightarrow> string" where
  "cutoffOrDefault cutoff =
     (case cutoff of None \<Rightarrow> ''9999-12-31''
      | Some c \<Rightarrow> if c = [] then ''9999-12-31'' else c)"

definition dateOrEmpty :: "financeEvent \<Rightarrow> string" where
  "dateOrEmpty e = (case ev_date e of None \<Rightarrow> [] | Some d \<Rightarrow> d)"

definition financeAccumUpTo :: "project \<Rightarrow> string option \<Rightarrow> settings \<Rightarrow> jsnum option" where
  "financeAccumUpTo p cutoff st =
     (let date = cutoffOrDefault cutoff;
          total = foldl (\<lambda>acc e. js_add64 acc (or_zero (amount e))) (Fin 0)
                    (filter (\<lambda>e. dateOrEmpty e \<le> date) (events (finance p)))
      in roundByDecimals (Some total) (moneyDecimals st))"

definition computeFinancePct :: "project \<Rightarrow> string option \<Rightarrow> settings \<Rightarrow> jsnum option" where
  "computeFinancePct p cutoff st =
     (let cv = or_zero (cv_value (contractValue p st))
      in if js_le cv (Fin 0) then None
         else Some (js_div (null_to_number (financeAccumUpTo p cutoff st)) cv))"

subsection \<open>Executed values as the specification words them\<close>

text \<open>
  The sums of the specification, before any rounding: over the \<open>ITEM\<close> rows in budget
  order, the report's cumulative quantity (\<open>accumQty\<close>) times the effective unit price,
  and the same with the quantity of the period, \<open>accumQty - prevQty\<close>.
\<close>

definition accumQty :: "report \<Rightarrow> budgetItem \<Rightarrow> jsnum" where
  "accumQty rep it = storedQty (qtyAccumByItem rep) (codeNorm it)"

definition prevQty :: "(string \<Rightarrow> string) \<Rightarrow> project \<Rightarrow> report \<Rightarrow> budgetItem \<Rightarrow> jsnum" where
  "prevQty collate p rep it =
     (case previousReport collate p rep of None \<Rightarrow> Fin 0 | Some prev \<Rightarrow> accumQty prev it)"

definition itemRows :: "project \<Rightarrow> budgetItem list" where
  "itemRows p = filter (\<lambda>it. type it = ITEM) (items (budget p))"

definition specAccumulatedValue :: "project \<Rightarrow> report \<Rightarrow> jsnum" where
  "specAccumulatedValue p rep =
     sum64 (map (\<lambda>it. js_mul (accumQty rep it) (effectivePrice p it)) (itemRows p))"

definition specPeriodValue :: "(string \<Rightarrow> string) \<Rightarrow> project \<Rightarrow> report \<Rightarrow> jsnum" where
  "specPeriodValue collate p rep =
     sum64 (map (\<lambda>it. js_mul (js_sub64 (accumQty rep it) (prevQty collate p rep it))
                         (effectivePrice p it))
       (itemRows p))"

text \<open>
  The collation orders the cutoffs of the reports as their code units do: so it is for
  the dates that the application stores, \<open>YYYY-MM-DD\<close>.
\<close>

definition ordersCutoffs :: "(string \<Rightarrow> string) \<Rightarrow> report list \<Rightarrow> bool" where
  "ordersCutoffs collate rs =
     (\<forall>a\<in>set rs. \<forall>b\<in>set rs.
        (collate (cutoffDate a) \<le> collate (cutoffDate b)) = (cutoffDate a \<le> cutoffDate b))"

text \<open>
  A collation for the examples: letters compare without regard to their case, every other
  code unit by its value.
\<close>

definition exampleCollation :: "string \<Rightarrow> string" where
  "exampleCollation s = toLowerCase s"

text \<open>Projects and reports for the examples.\<close>

definition reportOf :: "string \<Rightarrow> string \<Rightarrow> jsnum \<Rightarrow> report" where
  "reportOf nm cutoff q =
     \<lparr>rep_id = nm, cutoffDate = cutoff, label = nm, qtyAccumByItem = [''1.1.1'' \<mapsto> q]\<rparr>"

definition progressProject :: "budgetItem list \<Rightarrow> report list \<Rightarrow> project" where
  "progressProject its reps = (exampleProject its [])\<lparr>reports := reps\<rparr>"

definition reportA :: report where
  "reportA = reportOf ''A'' ''2024-01-31'' (Fin 5)"

definition reportB :: report where
  "reportB = reportOf ''B'' ''2024-02-29'' (Fin 8)"

definition halfUnitItem :: budgetItem where
  "halfUnitItem =
     budgetRow ITEM ''1.1.1'' ''Excavacion'' (Some (Fin 10)) (Some (Fin 101)) (Some (Fin 1010))"

definition halfUnitReport :: report where
  "halfUnitReport = reportOf ''R'' ''2024-01-31'' (Fin (1 / 2))"

definition eventsUpTo :: "project \<Rightarrow> string option \<Rightarrow> financeEvent list" where
  "eventsUpTo p cutoff =
     filter (\<lambda>e. dateOrEmpty e \<le> cutoffOrDefault cutoff) (events (finance p))"

definition dateless :: "financeEvent \<Rightarrow> bool" where
  "dateless e = (ev_date e = None \<or> ev_date e = Some [])"

definition financeProject :: "financeEvent list \<Rightarrow> project" where
  "financeProject evs = (exampleProject [exampleItem] [])\<lparr>finance := \<lparr>events = evs\<rparr>\<rparr>"

definition datelessAdvance :: financeEvent where
  "datelessAdvance = \<lparr>ev_date = None, ev_type = ADVANCE, amount = Some (Fin 100)\<rparr>"

definition junePayment :: financeEvent where
  "junePayment = \<lparr>ev_date = Some ''2024-06-01'', ev_type = PAYMENT, amount = Some (Fin 50)\<rparr>"

subsection \<open>Cells and numeric parsing\<close>

text \<open>
  A decoded spreadsheet cell. \<open>XLSX.utils.sheet_to_json\<close> is called with \<open>raw: true\<close> and
  \<open>defval: null\<close> on a workbook read without \<open>cellDates\<close>, so a cell is \<open>null\<close>, a number,
  a string or a boolean; a read past the end of a row gives \<open>undefined\<close>, which every
  consumer treats as \<open>null\<close>.
\<close>

datatype cell = CNull | CNum jsnum | CStr string | CBool bool

text \<open>\<open>String.prototype.trim\<close>: the white space and line terminators below 256.\<close>

definition isWhite :: "char \<Rightarrow> bool" where
  "isWhite c = ((of_char c :: nat) \<in> {9, 10, 11, 12, 13, 32, 160})"

definition trim :: "string \<Rightarrow> string" where
  "trim s = rev (dropWhile isWhite (rev (dropWhile isWhite s)))"

text \<open>\<open>s.replace(a, b)\<close> for one-character strings: the first occurrence only.\<close>

fun replaceFirst :: "char \<Rightarrow> char \<Rightarrow> string \<Rightarrow> string" where
  "replaceFirst a b [] = []"
| "replaceFirst a b (c # cs) = (if c = a then b # cs else c # replaceFirst a b cs)"

text \<open>\<open>s.replaceAll(".", "")\<close>.\<close>

definition removeDots :: "string \<Rightarrow> string" where
  "removeDots s = filter (\<lambda>c. c \<noteq> CHR ''.'') s"

text \<open>
  \<open>Number(s)\<close> on a string, after the grammar \<open>StringNumericLiteral\<close> of ECMA-262: white
  space is trimmed, the empty string is 0, a literal is a signed decimal (digits, a
  fraction, an exponent, or \<open>Infinity\<close>) or an unsigned binary, octal or hexadecimal
  integer, and anything else is \<open>NaN\<close>. The value is exact.
\<close>

definition isDigit :: "char \<Rightarrow> bool" where
  "isDigit c = (CHR ''0'' \<le> c \<and> c \<le> CHR ''9'')"

definition digitVal :: "char \<Rightarrow> int" where
  "digitVal c = of_char c - 48"

definition digitsVal :: "string \<Rightarrow> int" where
  "digitsVal ds = foldl (\<lambda>n c. 10 * n + digitVal c) 0 ds"

definition radixDigit :: "char \<Rightarrow> int option" where
  "radixDigit c =
     (if isDigit c then Some (digitVal c)
      else if CHR ''a'' \<le> c \<and> c \<le> CHR ''f'' then Some (of_char c - 87)
      else if CHR ''A'' \<le> c \<and> c \<le> CHR ''F'' then Some (of_char c - 55)
      else None)"

definition radixLiteral :: "int \<Rightarrow> string \<Rightarrow> jsnum" where
  "radixLiteral b ds =
     (if ds \<noteq> [] \<and> list_all (\<lambda>c. case radixDigit c of Some d \<Rightarrow> d < b | None \<Rightarrow> False) ds
      then Fin (of_int (foldl (\<lambda>n c. b * n + the (radixDigit c)) 0 ds))
      else NaN)"

definition decimalDigits :: "string \<Rightarrow> int option" where
  "decimalDigits ds = (if ds \<noteq> [] \<and> list_all isDigit ds then Some (digitsVal ds) else None)"

definition exponentPart :: "string \<Rightarrow> int option" where
  "exponentPart r =
     (case r of
        [] \<Rightarrow> Some 0
      | c # r' \<Rightarrow>
          if c = CHR ''e'' \<or> c = CHR ''E'' then
            (case r' of
               [] \<Rightarrow> None
             | s # ds \<Rightarrow>
                 if s = CHR ''+'' then decimalDigits ds
                 else if s = CHR ''-'' then map_option uminus (decimalDigits ds)
                 else decimalDigits r')
          else None)"

definition unsignedDecimal :: "string \<Rightarrow> jsnum" where
  "unsignedDecimal s =
     (if s = ''Infinity'' then PInf
      else
        (let ip = takeWhile isDigit s;
             r1 = dropWhile isDigit s;
             dot = (r1 \<noteq> [] \<and> hd r1 = CHR ''.'');
             fp = (if dot then takeWhile isDigit (tl r1) else []);
             r2 = (if dot then dropWhile isDigit (tl r1) else r1)
         in if ip = [] \<and> fp = [] then NaN
            else
              (case exponentPart r2 of
                 None \<Rightarrow> NaN
               | Some e \<Rightarrow>
                   Fin ((of_int (digitsVal ip) + of_int (digitsVal fp) / of_int (10 ^ length fp))
                        * pow10 e))))"

definition stringToNumber :: "string \<Rightarrow> jsnum" where
  "stringToNumber str =
     (let s = trim str
      in if s = [] then Fin 0
         else if startsWith s ''0x'' \<or> startsWith s ''0X'' then radixLiteral 16 (drop 2 s)
         else if startsWith s ''0o'' \<or> startsWith s ''0O'' then radixLiteral 8 (drop 2 s)
         else if startsWith s ''0b'' \<or> startsWith s ''0B'' then radixLiteral 2 (drop 2 s)
         else if hd s = CHR ''+'' then unsignedDecimal (tl s)
         else if hd s = CHR ''-'' then js_neg (unsignedDecimal (tl s))
         else unsignedDecimal s)"

text \<open>
  \<^verbatim>\<open>
  function parseNumber(v){
    if(v === null || v === undefined) return null;
    if(typeof v === "number") return Number.isFinite(v) ? v : null;
    const s = String(v).trim();
    if(!s) return null;
    // handle Colombian formats "1.234,56" or "1234,56"
    const hasComma = s.includes(",");
    const hasDot = s.includes(".");
    let norm = s;
    if(hasComma && hasDot){
      // assume dot is thousand sep, comma is decimal
      norm = s.replaceAll(".", "").replace(",", ".");
    }else if(hasComma && !hasDot){
      norm = s.replace(",", ".");
    }
    const n = Number(norm);
    return Number.isFinite(n) ? n : null;
  }
  \<close>
  \<open>parseText\<close> is the function from \<open>String(v).trim()\<close> on.
\<close>

definition normalizeSeparators :: "string \<Rightarrow> string" where
  "normalizeSeparators s =
     (let hasComma = str_includes s '',''; hasDot = str_includes s ''.''
      in if hasComma \<and> hasDot then replaceFirst (CHR '','') (CHR ''.'') (removeDots s)
         else if hasComma \<and> \<not> hasDot then replaceFirst (CHR '','') (CHR ''.'') s
         else s)"

definition finiteOrNull :: "jsnum \<Rightarrow> jsnum option" where
  "finiteOrNull n = (if isFinite n then Some n else None)"

definition parseText :: "string \<Rightarrow> jsnum option" where
  "parseText str =
     (let s = trim str
      in if s = [] then None else finiteOrNull (stringToNumber (normalizeSeparators s)))"

fun parseNumber :: "cell \<Rightarrow> jsnum option" where
  "parseNumber CNull = None"
| "parseNumber (CNum n) = finiteOrNull n"
| "parseNumber (CStr s) = parseText s"
| "parseNumber (CBool b) = parseText (if b then ''true'' else ''false'')"

subsection \<open>The host platform\<close>

text \<open>
  Two functions of the platform are parameters of the importers: the conversion of a
  number to a string (\<open>String(n)\<close>, the shortest decimal that reads back as the same
  double, which exact rationals cannot reproduce) and SheetJS's
  \<open>XLSX.SSF.parse_date_code\<close>, which turns a spreadsheet date serial into year, month and
  day (\<open>None\<close> when it returns nothing or throws, which \<open>toISODate\<close> catches).
\<close>

record platform =
  numberToString :: "jsnum \<Rightarrow> string"
  parse_date_code :: "jsnum \<Rightarrow> (nat \<times> nat \<times> nat) option"

text \<open>\<open>String(c ?? "")\<close> on a cell.\<close>

fun cellText :: "platform \<Rightarrow> cell \<Rightarrow> string" where
  "cellText pf CNull = []"
| "cellText pf (CNum n) = numberToString pf n"
| "cellText pf (CStr s) = s"
| "cellText pf (CBool b) = (if b then ''true'' else ''false'')"

text \<open>\<open>row[i]\<close>: past the end of the row the read gives \<open>undefined\<close>, here \<open>CNull\<close>.\<close>

definition cellAt :: "cell list \<Rightarrow> nat \<Rightarrow> cell" where
  "cellAt row i = (if i < length row then row ! i else CNull)"

subsection \<open>Header detection\<close>

text \<open>
  \<^verbatim>\<open>
  function findHeaderRow(rows){
    const keywords = ["item","\u00edtem","codigo","c\u00f3digo","descripcion","descripci\u00f3n","unidad",
                      "und","cantidad","cant","valor","unit","total","vt","vu"];
    let best = {idx:-1, score:0};
    for(let i=0;i<Math.min(rows.length, 80);i++){
      const r = rows[i] || [];
      const text = r.map(c=> String(c??"").toLowerCase().trim()).filter(Boolean);
      const hits = text.reduce((acc, t)=>{
        const k = keywords.some(kw=> t.includes(kw));
        return acc + (k?1:0);
      },0);
      const nonEmpty = text.length;
      const score = hits*3 + Math.min(nonEmpty, 12);
      if(score > best.score){ best = {idx:i, score}; }
    }
    return best.idx;
  }
  \<close>
\<close>

definition headerKeywords :: "string list" where
  "headerKeywords =
     [''item'', CHR 0xED # ''tem'', ''codigo'', ''c'' @ CHR 0xF3 # ''digo'', ''descripcion'',
      ''descripci'' @ CHR 0xF3 # ''n'', ''unidad'', ''und'', ''cantidad'', ''cant'', ''valor'',
      ''unit'', ''total'', ''vt'', ''vu'']"

definition rowScore :: "platform \<Rightarrow> cell list \<Rightarrow> nat" where
  "rowScore pf r =
     (let text = filter (\<lambda>t. t \<noteq> []) (map (\<lambda>c. trim (toLowerCase (cellText pf c))) r);
          hits = foldl (\<lambda>acc t. acc + (if list_ex (str_includes t) headerKeywords then 1 else 0)) 0 text;
          nonEmpty = length text
      in hits * 3 + min nonEmpty 12)"

text \<open>The loop, with \<open>i\<close> the index of the first row of \<open>rs\<close> and \<open>best\<close> the record so far.\<close>

fun headerLoop :: "platform \<Rightarrow> nat \<Rightarrow> int \<times> nat \<Rightarrow> cell list list \<Rightarrow> int \<times> nat" where
  "headerLoop pf i best [] = best"
| "headerLoop pf i best (r # rs) =
     (let score = rowScore pf r
      in headerLoop pf (i + 1) (if score > snd best then (int i, score) else best) rs)"

definition findHeaderRow :: "platform \<Rightarrow> cell list list \<Rightarrow> int" where
  "findHeaderRow pf rows = fst (headerLoop pf 0 (- 1, 0) (take 80 rows))"

subsection \<open>Column mapping\<close>

text \<open>
  \<^verbatim>\<open>
  function mapColumns(headerRow){
    const header = headerRow.map(h => String(h ?? "").toLowerCase().trim());
    const find = (preds) => {
      for(let i=0;i<header.length;i++){
        const h = header[i];
        if(!h) continue;
        if(preds.some(p => h.includes(p))) return i;
      }
      return -1;
    };
    const col = {
      code: find(["item","\u00edtem","codigo","c\u00f3digo"]),
      desc: find(["descripcion","descripci\u00f3n","desc"]),
      unit: find(["unidad","und"]),
      qty: find(["cantidad","cant"]),
      vu: find(["valor unit","vr unit","v/u","vu"]),
      vt: find(["valor total","vr total","total","vt"])
    };
    return col;
  }
  \<close>
\<close>

record columns =
  col_code :: int
  col_desc :: int
  col_unit :: int
  col_qty :: int
  col_vu :: int
  col_vt :: int

fun findColumn :: "string list \<Rightarrow> nat \<Rightarrow> string list \<Rightarrow> int" where
  "findColumn preds i [] = - 1"
| "findColumn preds i (h # hs) =
     (if h \<noteq> [] \<and> list_ex (str_includes h) preds then int i else findColumn preds (i + 1) hs)"

definition mapColumns :: "platform \<Rightarrow> cell list \<Rightarrow> columns" where
  "mapColumns pf headerRow =
     (let header = map (\<lambda>h. trim (toLowerCase (cellText pf h))) headerRow;
          find = (\<lambda>preds. findColumn preds 0 header)
      in \<lparr>col_code = find [''item'', CHR 0xED # ''tem'', ''codigo'', ''c'' @ CHR 0xF3 # ''digo''],
          col_desc = find [''descripcion'', ''descripci'' @ CHR 0xF3 # ''n'', ''desc''],
          col_unit = find [''unidad'', ''und''],
          col_qty = find [''cantidad'', ''cant''],
          col_vu = find [''valor unit'', ''vr unit'', ''v/u'', ''vu''],
          col_vt = find [''valor total'', ''vr total'', ''total'', ''vt'']\<rparr>)"

subsection \<open>Codes and row classification\<close>

text \<open>\<open>s.split(c)\<close> and \<open>parts.join(sep)\<close>.\<close>

fun splitOn :: "char \<Rightarrow> string \<Rightarrow> string list" where
  "splitOn c [] = [[]]"
| "splitOn c (x # xs) =
     (if x = c then [] # splitOn c xs
      else (case splitOn c xs of p # ps \<Rightarrow> (x # p) # ps | [] \<Rightarrow> [[x]]))"

fun joinWith :: "string \<Rightarrow> string list \<Rightarrow> string" where
  "joinWith sep [] = []"
| "joinWith sep [p] = p"
| "joinWith sep (p # ps) = p @ sep @ joinWith sep ps"

text \<open>
  \<^verbatim>\<open>
  function normalizeCode(code){
    if(code === null || code === undefined) return "";
    const s = String(code).trim();
    return s.endsWith(".") ? s.slice(0, -1) : s;
  }
  function codeLevel(codeNorm){
    if(!codeNorm) return 0;
    if(/^\d+(\.\d+)*$/.test(codeNorm)){ return codeNorm.split(".").length; }
    return 99;
  }
  \<close>
  Both are applied to strings only.
\<close>

definition normalizeCode :: "string \<Rightarrow> string" where
  "normalizeCode c = (let s = trim c in if endsWith s ''.'' then butlast s else s)"

text \<open>The pattern \<open>/^\d+(\.\d+)*$/\<close>: non-empty groups of digits separated by dots.\<close>

definition isHierarchical :: "string \<Rightarrow> bool" where
  "isHierarchical s = list_all (\<lambda>p. p \<noteq> [] \<and> list_all isDigit p) (splitOn (CHR ''.'') s)"

definition codeLevel :: "string \<Rightarrow> nat" where
  "codeLevel cn =
     (if cn = [] then 0
      else if isHierarchical cn then length (splitOn (CHR ''.'') cn)
      else 99)"

text \<open>
  \<^verbatim>\<open>
  function classifyRow(code, desc, qty, unit, vu, vt){
    const cRaw = (code ?? "").toString().trim();
    const dRaw = (desc ?? "").toString().trim();
    const cLow = cRaw.toLowerCase();
    const dLow = dRaw.toLowerCase();
    if(!cRaw && !dRaw) return "OTHER";
    if(cLow.startsWith("subtotal") || dLow.startsWith("subtotal")) return "SUBTOTAL";
    if(
      dLow.startsWith("administr") || dLow.startsWith("imprev") || dLow.startsWith("utilidad") ||
      dLow.includes("a.i.u") || dLow === "aiu" ||
      cLow.startsWith("administr") || cLow.startsWith("imprev") || cLow.startsWith("utilidad") ||
      cLow.includes("a.i.u") || cLow === "aiu"
    ) return "AIU";
    if(
      dLow.includes("valor total") || cLow.includes("valor total") ||
      dLow.includes("incluye a.i.u") || dLow.includes("incluye aiu") ||
      cLow.includes("incluye a.i.u") || cLow.includes("incluye aiu")
    ) return "TOTAL";
    const hasVT = (typeof vt === "number") && Number.isFinite(vt);
    if(!cRaw && dRaw){ return hasVT ? "LUMP" : "TEXT"; }
    const cn = normalizeCode(cRaw);
    if(/^[0-9]+(\.[0-9]+)*$/.test(cn)){
      const lvl = codeLevel(cn);
      if(lvl === 1) return "CAP";
      if(lvl === 2) return "SUB";
      return "ITEM";
    }
    if(cn) return "ITEM";
    return "OTHER";
  }
  \<close>
  The arguments \<open>qty\<close>, \<open>unit\<close> and \<open>vu\<close> are not read.
\<close>

definition aiuText :: "string \<Rightarrow> bool" where
  "aiuText t =
     (startsWith t ''administr'' \<or> startsWith t ''imprev'' \<or> startsWith t ''utilidad'' \<or>
      str_includes t ''a.i.u'' \<or> t = ''aiu'')"

definition classifyRow :: "platform \<Rightarrow> cell \<Rightarrow> cell \<Rightarrow> jsnum option \<Rightarrow> itemType" where
  "classifyRow pf c d vtv =
     (let cRaw = trim (cellText pf c);
          dRaw = trim (cellText pf d);
          cLow = toLowerCase cRaw;
          dLow = toLowerCase dRaw
      in if cRaw = [] \<and> dRaw = [] then OTHER
         else if startsWith cLow ''subtotal'' \<or> startsWith dLow ''subtotal'' then SUBTOTAL
         else if aiuText dLow \<or> aiuText cLow then AIU
         else if str_includes dLow ''valor total'' \<or> str_includes cLow ''valor total'' \<or>
                 str_includes dLow ''incluye a.i.u'' \<or> str_includes dLow ''incluye aiu'' \<or>
                 str_includes cLow ''incluye a.i.u'' \<or> str_includes cLow ''incluye aiu''
           then TOTAL
         else if cRaw = [] \<and> dRaw \<noteq> [] then
           (if (case vtv of Some n \<Rightarrow> isFinite n | None \<Rightarrow> False) then LUMP else TEXT)
         else
           (let cn = normalizeCode cRaw
            in if isHierarchical cn then
                 (let lvl = codeLevel cn
                  in if lvl = 1 then CAP else if lvl = 2 then SUB else ITEM)
               else if cn \<noteq> [] then ITEM
               else OTHER))"

subsection \<open>Budget import\<close>

text \<open>
  \<^verbatim>\<open>
  function decimalsCount(n){
    if(n === null || n === undefined) return 0;
    const s = String(n);
    if(!s.includes(".")) return 0;
    return s.split(".")[1].length;
  }
  \<close>
\<close>

definition decimalsCount :: "platform \<Rightarrow> jsnum option \<Rightarrow> nat" where
  "decimalsCount pf v =
     (case v of
        None \<Rightarrow> 0
      | Some n \<Rightarrow>
          (let s = numberToString pf n
           in if \<not> str_includes s ''.'' then 0
              else (case splitOn (CHR ''.'') s of _ # p # _ \<Rightarrow> length p | _ \<Rightarrow> 0)))"

text \<open>
  The text of a whole number in a message (\<open>${extra.length}\<close>, \<open>${settings.qtyDecimals}\<close>,
  \<open>String(d.y)\<close>): the platform's conversion of the number.
\<close>

definition intText :: "platform \<Rightarrow> int \<Rightarrow> string" where
  "intText pf k = numberToString pf (Fin (of_int k))"

text \<open>
  \<^verbatim>\<open>
  function parseBudgetFromSheet(rows){
    const headerIdx = findHeaderRow(rows);
    if(headerIdx < 0) return {items:[], warnings:["No se encontr\u00f3 fila de encabezados."]};
    const headerRow = rows[headerIdx];
    const cols = mapColumns(headerRow);
    const missing = Object.entries(cols).filter(([k,v]) =>
      ["code","desc","unit","qty","vu"].includes(k) && v<0).map(([k])=>k);
    const warnings = [];
    if(missing.length){
      warnings.push("Faltan columnas m\u00ednimas detectables: " + missing.join(", ") +
        ". Puedes renombrarlas en Excel o ajustar manualmente (pr\u00f3xima versi\u00f3n).");
    }
    const items = [];
    for(let r = headerIdx+1; r<rows.length; r++){
      const row = rows[r];
      if(!row || row.every(c => c === null || c === "")) continue;
      const code = cols.code>=0 ? row[cols.code] : null;
      const desc = cols.desc>=0 ? row[cols.desc] : null;
      const unit = cols.unit>=0 ? row[cols.unit] : null;
      const qty = cols.qty>=0 ? parseNumber(row[cols.qty]) : null;
      const vu = cols.vu>=0 ? parseNumber(row[cols.vu]) : null;
      const vt = cols.vt>=0 ? parseNumber(row[cols.vt]) : null;
      const typ = classifyRow(code, desc, qty, unit, vu, vt);
      if(typ === "OTHER") continue;
      let codeStr = (code ?? "").toString().trim();
      let descStr = (desc ?? "").toString().trim();
      if(typ === "SUBTOTAL" && !descStr && codeStr.toLowerCase().startsWith("subtotal")){
        descStr = codeStr;
        codeStr = "";
      }
      const codeNorm = normalizeCode(codeStr);
      const lvl = codeLevel(codeNorm);
      const parent = (lvl >= 2 && /^\d+(\.\d+)*$/.test(codeNorm))
        ? codeNorm.split(".").slice(0,-1).join(".") : "";
      items.push({
        id: "itm_" + Math.random().toString(16).slice(2) + "_" + r,
        code: codeStr, codeNorm, desc: descStr,
        unit: (unit ?? "").toString().trim(),
        qtyContract: qty ?? 0, vuContract: vu ?? 0,
        vtContract: (vt ?? ((qty??0)*(vu??0))),
        parentCodeNorm: parent, type: typ
      });
    }
    const extra = items.filter(it => decimalsCount(it.qtyContract) > settings.qtyDecimals);
    if(extra.length){
      warnings.push(`Hay ${extra.length} cantidad(es) con m\u00e1s de ${settings.qtyDecimals}
        decimales en el presupuesto. Se resaltar\u00e1n.`);
    }
    return {items, warnings};
  }
  \<close>
  A fault of the run time is a value \<open>Inl\<close>: \<open>headerRow.map\<close> raises a \<open>TypeError\<close> if
  \<open>rows[headerIdx]\<close> is \<open>undefined\<close>.
\<close>

datatype jsError = TypeError | RangeError

record budgetParse =
  parsed_items :: "budgetItem list"
  parsed_warnings :: "string list"

definition noHeaderWarning :: string where
  "noHeaderWarning = ''No se encontr'' @ CHR 0xF3 # '' fila de encabezados.''"

definition missingColumnsWarning :: "string list \<Rightarrow> string" where
  "missingColumnsWarning missing =
     ''Faltan columnas m'' @ CHR 0xED # ''nimas detectables: '' @ joinWith '', '' missing @
     ''. Puedes renombrarlas en Excel o ajustar manualmente (pr'' @ CHR 0xF3 # ''xima versi'' @
     CHR 0xF3 # ''n).''"

definition extraDecimalsWarning :: "platform \<Rightarrow> nat \<Rightarrow> int \<Rightarrow> string" where
  "extraDecimalsWarning pf n d =
     ''Hay '' @ intText pf (int n) @ '' cantidad(es) con m'' @ CHR 0xE1 # ''s de '' @ intText pf d @
     '' decimales en el presupuesto. Se resaltar'' @ CHR 0xE1 # ''n.''"

definition columnCell :: "int \<Rightarrow> cell list \<Rightarrow> cell" where
  "columnCell col row = (if col \<ge> 0 then cellAt row (nat col) else CNull)"

definition columnNumber :: "int \<Rightarrow> cell list \<Rightarrow> jsnum option" where
  "columnNumber col row = (if col \<ge> 0 then parseNumber (cellAt row (nat col)) else None)"

text \<open>The body of the loop for one row that is not blank: \<open>None\<close> when the row is skipped.\<close>

definition rowItem :: "platform \<Rightarrow> columns \<Rightarrow> cell list \<Rightarrow> budgetItem option" where
  "rowItem pf cols row =
     (let c = columnCell (col_code cols) row;
          d = columnCell (col_desc cols) row;
          u = columnCell (col_unit cols) row;
          q = columnNumber (col_qty cols) row;
          v = columnNumber (col_vu cols) row;
          t = columnNumber (col_vt cols) row;
          typ = classifyRow pf c d t
      in if typ = OTHER then None
         else
           (let codeStr0 = trim (cellText pf c);
                descStr0 = trim (cellText pf d);
                moved = (typ = SUBTOTAL \<and> descStr0 = [] \<and>
                           startsWith (toLowerCase codeStr0) ''subtotal'');
                descStr = (if moved then codeStr0 else descStr0);
                codeStr = (if moved then [] else codeStr0);
                cn = normalizeCode codeStr;
                lvl = codeLevel cn;
                parent = (if lvl \<ge> 2 \<and> isHierarchical cn
                          then joinWith ''.'' (butlast (splitOn (CHR ''.'') cn)) else []);
                q0 = (case q of Some n \<Rightarrow> n | None \<Rightarrow> Fin 0);
                v0 = (case v of Some n \<Rightarrow> n | None \<Rightarrow> Fin 0)
            in Some \<lparr>code = codeStr, codeNorm = cn, desc = descStr, unit = trim (cellText pf u),
                      qtyContract = Some q0, vuContract = Some v0,
                      vtContract = Some (case t of Some n \<Rightarrow> n | None \<Rightarrow> js_mul q0 v0),
                      parentCodeNorm = parent, type = typ\<rparr>))"

definition blankRow :: "cell list \<Rightarrow> bool" where
  "blankRow row = list_all (\<lambda>c. c = CNull \<or> c = CStr []) row"

fun itemsLoop :: "platform \<Rightarrow> columns \<Rightarrow> cell list list \<Rightarrow> budgetItem list" where
  "itemsLoop pf cols [] = []"
| "itemsLoop pf cols (row # rs) =
     (if blankRow row then itemsLoop pf cols rs
      else (case rowItem pf cols row of
              None \<Rightarrow> itemsLoop pf cols rs
            | Some it \<Rightarrow> it # itemsLoop pf cols rs))"

definition parseBudgetFromSheet ::
  "platform \<Rightarrow> settings \<Rightarrow> cell list list \<Rightarrow> jsError + budgetParse" where
  "parseBudgetFromSheet pf st rows =
     (let headerIdx = findHeaderRow pf rows
      in if headerIdx < 0 then Inr \<lparr>parsed_items = [], parsed_warnings = [noHeaderWarning]\<rparr>
         else if \<not> nat headerIdx < length rows then Inl TypeError
         else
           (let headerRow = rows ! nat headerIdx;
                cols = mapColumns pf headerRow;
                missing = map fst (filter (\<lambda>kv. snd kv < 0)
                  [(''code'', col_code cols), (''desc'', col_desc cols), (''unit'', col_unit cols),
                   (''qty'', col_qty cols), (''vu'', col_vu cols)]);
                warnings1 = (if missing \<noteq> [] then [missingColumnsWarning missing] else []);
                its = itemsLoop pf cols (drop (nat headerIdx + 1) rows);
                extra = filter (\<lambda>it. int (decimalsCount pf (qtyContract it)) > qtyDecimals st) its;
                warnings2 = (if extra \<noteq> []
                             then [extraDecimalsWarning pf (length extra) (qtyDecimals st)] else [])
            in Inr \<lparr>parsed_items = its, parsed_warnings = warnings1 @ warnings2\<rparr>))"

subsection \<open>Planned curve import\<close>

text \<open>
  \<^verbatim>\<open>
  function toISODate(v){
    if(v === null || v === undefined) return null;
    if(v instanceof Date) return v.toISOString().slice(0,10);
    if(typeof v === "number"){
      try{
        const d = XLSX.SSF.parse_date_code(v);
        if(d && d.y && d.m && d.d){
          const mm = String(d.m).padStart(2,"0");
          const dd = String(d.d).padStart(2,"0");
          return `${d.y}-${mm}-${dd}`;
        }
      }catch{}
    }
    const s = String(v).trim();
    if(/^\d{4}-\d{2}-\d{2}$/.test(s)) return s;
    const m = s.match(/^(\d{1,2})[\/\-](\d{1,2})[\/\-](\d{4})$/);
    if(m){
      const dd = String(Number(m[1])).padStart(2,"0");
      const mm = String(Number(m[2])).padStart(2,"0");
      const yy = m[3];
      return `${yy}-${mm}-${dd}`;
    }
    return null;
  }
  \<close>
  No cell is a \<open>Date\<close> object, so the second line is never taken.
\<close>

definition pad2 :: "string \<Rightarrow> string" where
  "pad2 s = replicate (2 - length s) (CHR ''0'') @ s"

definition isoPattern :: "string \<Rightarrow> bool" where
  "isoPattern s =
     (length s = 10 \<and> list_all isDigit (take 4 s) \<and> s ! 4 = CHR ''-'' \<and>
      list_all isDigit (take 2 (drop 5 s)) \<and> s ! 7 = CHR ''-'' \<and> list_all isDigit (drop 8 s))"

definition isDateSeparator :: "char \<Rightarrow> bool" where
  "isDateSeparator c = (c = CHR ''/'' \<or> c = CHR ''-'')"

definition dmyPattern :: "string \<Rightarrow> (string \<times> string \<times> string) option" where
  "dmyPattern s =
     (let d = takeWhile isDigit s; r1 = dropWhile isDigit s
      in if (length d = 1 \<or> length d = 2) \<and> r1 \<noteq> [] \<and> isDateSeparator (hd r1) then
           (let m = takeWhile isDigit (tl r1); r2 = dropWhile isDigit (tl r1)
            in if (length m = 1 \<or> length m = 2) \<and> r2 \<noteq> [] \<and> isDateSeparator (hd r2) \<and>
                  length (tl r2) = 4 \<and> list_all isDigit (tl r2)
               then Some (d, m, tl r2) else None)
         else None)"

definition textDate :: "platform \<Rightarrow> string \<Rightarrow> string option" where
  "textDate pf s =
     (if isoPattern s then Some s
      else (case dmyPattern s of
              Some (d, m, y) \<Rightarrow>
                Some (y @ ''-'' @ pad2 (numberToString pf (stringToNumber m)) @ ''-'' @
                      pad2 (numberToString pf (stringToNumber d)))
            | None \<Rightarrow> None))"

fun toISODate :: "platform \<Rightarrow> cell \<Rightarrow> string option" where
  "toISODate pf CNull = None"
| "toISODate pf (CNum n) =
     (case parse_date_code pf n of
        Some (y, m, d) \<Rightarrow>
          if y \<noteq> 0 \<and> m \<noteq> 0 \<and> d \<noteq> 0
          then Some (intText pf (int y) @ ''-'' @ pad2 (intText pf (int m)) @ ''-'' @
                     pad2 (intText pf (int d)))
          else textDate pf (trim (numberToString pf n))
      | None \<Rightarrow> textDate pf (trim (numberToString pf n)))"
| "toISODate pf v = textDate pf (trim (cellText pf v))"

text \<open>
  \<^verbatim>\<open>
  function parsePlanned(rows){
    const warnings = [];
    if(!rows.length) return {curve:[], warnings:["Hoja vac\u00eda."]};
    const headerIdx = findHeaderRow(rows);
    const header = (rows[headerIdx] || []).map(h=> String(h??"").trim());
    const lower = header.map(h=>h.toLowerCase());
    let iFecha = lower.findIndex(h=>h.includes("fecha"));
    let iCosto = lower.findIndex(h=>h.includes("costo") || h.includes("cost"));
    const points = [];
    if(iFecha >= 0 && iCosto >= 0){
      for(let r=headerIdx+1; r<rows.length; r++){
        const row = rows[r];
        if(!row) continue;
        const dRaw = row[iFecha];
        const cRaw = row[iCosto];
        const cost = parseNumber(cRaw);
        if(cost === null) continue;
        const date = toISODate(dRaw);
        if(!date) continue;
        points.push({date, cost});
      }
    }else{
      const dateCols = [];
      for(let i=0;i<header.length;i++){
        const iso = toISODate(header[i]);
        if(iso) dateCols.push({i, date: iso});
      }
      if(dateCols.length < 3){
        warnings.push("No pude detectar columnas de fecha/costo. Intenta una hoja con columnas
          'Fecha' y 'Costo', o una exportaci\u00f3n con fechas como encabezados.");
        return {curve:[], warnings};
      }
      const sumByDate = new Map(dateCols.map(c => [c.date, 0]));
      for(let r=headerIdx+1; r<rows.length; r++){
        const row = rows[r];
        if(!row) continue;
        for(const c of dateCols){
          const v = parseNumber(row[c.i]);
          if(v === null) continue;
          sumByDate.set(c.date, (sumByDate.get(c.date)||0) + v);
        }
      }
      for(const [date, cost] of sumByDate.entries()){ points.push({date, cost}); }
    }
    const byDate = new Map();
    for(const p of points){ byDate.set(p.date, (byDate.get(p.date)||0) + p.cost); }
    const sorted = [...byDate.entries()].sort((a,b)=>a[0].localeCompare(b[0]));
    let accum = 0;
    const curve = sorted.map(([date, cost])=>{
      accum += cost;
      return {date, plannedCostAccum: accum};
    });
    if(curve.length) warnings.push(`Programado: ${curve.length} punto(s) de curva cargados.`);
    return {curve, warnings};
  }
  \<close>
  A \<open>Map\<close> is the list of its entries in insertion order: \<open>set\<close> on a key that is present
  replaces the value in place, on a new key appends the entry.
\<close>

type_synonym dateMap = "(string \<times> jsnum) list"

fun mapSet :: "dateMap \<Rightarrow> string \<Rightarrow> jsnum \<Rightarrow> dateMap" where
  "mapSet [] k v = [(k, v)]"
| "mapSet (e # es) k v = (if fst e = k then (k, v) # es else e # mapSet es k v)"

definition mapGet :: "dateMap \<Rightarrow> string \<Rightarrow> jsnum option" where
  "mapGet m k = map_of m k"

text \<open>\<open>m.set(k, (m.get(k)||0) + v)\<close>.\<close>

definition mapAdd :: "dateMap \<Rightarrow> string \<Rightarrow> jsnum \<Rightarrow> dateMap" where
  "mapAdd m k v = mapSet m k (js_add (or_zero (mapGet m k)) v)"

record plannedParse =
  parsed_curve :: "plannedPoint list"
  planned_warnings :: "string list"

definition emptySheetWarning :: string where
  "emptySheetWarning = ''Hoja vac'' @ CHR 0xED # ''a.''"

definition noDateColumnsWarning :: string where
  "noDateColumnsWarning =
     ''No pude detectar columnas de fecha/costo. Intenta una hoja con columnas '' @
     CHR 0x27 # ''Fecha'' @ CHR 0x27 # '' y '' @ CHR 0x27 # ''Costo'' @ CHR 0x27 #
     '', o una exportaci'' @ CHR 0xF3 # ''n con fechas como encabezados.''"

definition curveLoadedWarning :: "platform \<Rightarrow> nat \<Rightarrow> string" where
  "curveLoadedWarning pf n =
     ''Programado: '' @ intText pf (int n) @ '' punto(s) de curva cargados.''"

fun findIndex :: "(string \<Rightarrow> bool) \<Rightarrow> nat \<Rightarrow> string list \<Rightarrow> int" where
  "findIndex P i [] = - 1"
| "findIndex P i (h # hs) = (if P h then int i else findIndex P (i + 1) hs)"

text \<open>Shape A: the rows below the header, with the columns of date and cost.\<close>

fun longShapeLoop :: "platform \<Rightarrow> nat \<Rightarrow> nat \<Rightarrow> cell list list \<Rightarrow> (string \<times> jsnum) list" where
  "longShapeLoop pf iFecha iCosto [] = []"
| "longShapeLoop pf iFecha iCosto (row # rs) =
     (case parseNumber (cellAt row iCosto) of
        None \<Rightarrow> longShapeLoop pf iFecha iCosto rs
      | Some cost \<Rightarrow>
          (case toISODate pf (cellAt row iFecha) of
             None \<Rightarrow> longShapeLoop pf iFecha iCosto rs
           | Some date \<Rightarrow>
               if date = [] then longShapeLoop pf iFecha iCosto rs
               else (date, cost) # longShapeLoop pf iFecha iCosto rs))"

text \<open>Shape B: the columns whose header is a date, then the sums by date.\<close>

fun dateColumns :: "platform \<Rightarrow> nat \<Rightarrow> string list \<Rightarrow> (nat \<times> string) list" where
  "dateColumns pf i [] = []"
| "dateColumns pf i (h # hs) =
     (case toISODate pf (CStr h) of
        None \<Rightarrow> dateColumns pf (i + 1) hs
      | Some d \<Rightarrow>
          if d = [] then dateColumns pf (i + 1) hs else (i, d) # dateColumns pf (i + 1) hs)"

fun wideRowLoop :: "cell list \<Rightarrow> dateMap \<Rightarrow> (nat \<times> string) list \<Rightarrow> dateMap" where
  "wideRowLoop row m [] = m"
| "wideRowLoop row m (c # cs) =
     (case parseNumber (cellAt row (fst c)) of
        None \<Rightarrow> wideRowLoop row m cs
      | Some v \<Rightarrow> wideRowLoop row (mapAdd m (snd c) v) cs)"

fun wideShapeLoop :: "(nat \<times> string) list \<Rightarrow> dateMap \<Rightarrow> cell list list \<Rightarrow> dateMap" where
  "wideShapeLoop dateCols m [] = m"
| "wideShapeLoop dateCols m (row # rs) = wideShapeLoop dateCols (wideRowLoop row m dateCols) rs"

text \<open>\<open>new Map(pairs)\<close>: the pairs are set one after the other.\<close>

definition newMap :: "(string \<times> jsnum) list \<Rightarrow> dateMap" where
  "newMap pairs = foldl (\<lambda>m kv. mapSet m (fst kv) (snd kv)) [] pairs"

text \<open>The aggregation common to both shapes.\<close>

fun byDateLoop :: "dateMap \<Rightarrow> (string \<times> jsnum) list \<Rightarrow> dateMap" where
  "byDateLoop m [] = m"
| "byDateLoop m (p # ps) = byDateLoop (mapAdd m (fst p) (snd p)) ps"

fun accumLoop :: "jsnum \<Rightarrow> (string \<times> jsnum) list \<Rightarrow> plannedPoint list" where
  "accumLoop accum [] = []"
| "accumLoop accum (e # es) =
     (let accum' = js_add accum (snd e)
      in \<lparr>pt_date = fst e, plannedCostAccum = accum'\<rparr> # accumLoop accum' es)"

definition aggregateCurve :: "(string \<times> jsnum) list \<Rightarrow> plannedPoint list" where
  "aggregateCurve points = accumLoop (Fin 0) (sort_key fst (byDateLoop [] points))"

text \<open>
  The pairs pushed to \<open>points\<close>: \<open>None\<close> when neither shape is recognized. The header row
  is \<open>rows[headerIdx] || []\<close>, also when \<open>headerIdx\<close> is \<open>-1\<close>.
\<close>

definition plannedHeader :: "platform \<Rightarrow> cell list list \<Rightarrow> string list" where
  "plannedHeader pf rows =
     (let headerIdx = findHeaderRow pf rows
      in if 0 \<le> headerIdx \<and> nat headerIdx < length rows
         then map (\<lambda>h. trim (cellText pf h)) (rows ! nat headerIdx) else [])"

definition plannedPoints :: "platform \<Rightarrow> cell list list \<Rightarrow> (string \<times> jsnum) list option" where
  "plannedPoints pf rows =
     (let headerIdx = findHeaderRow pf rows;
          header = plannedHeader pf rows;
          lower = map toLowerCase header;
          iFecha = findIndex (\<lambda>h. str_includes h ''fecha'') 0 lower;
          iCosto = findIndex (\<lambda>h. str_includes h ''costo'' \<or> str_includes h ''cost'') 0 lower;
          dataRows = drop (nat (headerIdx + 1)) rows
      in if iFecha \<ge> 0 \<and> iCosto \<ge> 0
         then Some (longShapeLoop pf (nat iFecha) (nat iCosto) dataRows)
         else
           (let dateCols = dateColumns pf 0 header
            in if length dateCols < 3 then None
               else Some (wideShapeLoop dateCols
                            (newMap (map (\<lambda>c. (snd c, Fin 0)) dateCols)) dataRows)))"

definition parsePlanned :: "platform \<Rightarrow> cell list list \<Rightarrow> plannedParse" where
  "parsePlanned pf rows =
     (if rows = [] then \<lparr>parsed_curve = [], planned_warnings = [emptySheetWarning]\<rparr>
      else (case plannedPoints pf rows of
              None \<Rightarrow> \<lparr>parsed_curve = [], planned_warnings = [noDateColumnsWarning]\<rparr>
            | Some points \<Rightarrow>
                (let c = aggregateCurve points
                 in \<lparr>parsed_curve = c,
                     planned_warnings =
                       (if c \<noteq> [] then [curveLoadedWarning pf (length c)] else [])\<rparr>)))"

text \<open>
  A platform for the examples: whole numbers are written in decimal, as \<open>String\<close> does
  for every whole number below \<open>1e21\<close>, and no number is a date serial.
\<close>

fun natDigits :: "nat \<Rightarrow> nat \<Rightarrow> string" where
  "natDigits 0 n = []"
| "natDigits (Suc fuel) n =
     (if n < 10 then [char_of (48 + n)] else natDigits fuel (n div 10) @ [char_of (48 + n mod 10)])"

definition wholeNumberText :: "jsnum \<Rightarrow> string" where
  "wholeNumberText n =
     (case n of
        Fin q \<Rightarrow>
          (let k = \<lfloor>q\<rfloor>
           in (if k < 0 then ''-'' else []) @ natDigits 22 (nat \<bar>k\<bar>))
      | PInf \<Rightarrow> ''Infinity'' | NInf \<Rightarrow> ''-Infinity'' | NaN \<Rightarrow> ''NaN'')"

definition examplePlatform :: platform where
  "examplePlatform = \<lparr>numberToString = wholeNumberText, parse_date_code = (\<lambda>n. None)\<rparr>"


subsection \<open>The importers as the specification words them\<close>

text \<open>A header cell that \<open>toISODate\<close> reads as a date.\<close>

definition isDateHeader :: "platform \<Rightarrow> string \<Rightarrow> bool" where
  "isDateHeader pf h = (case toISODate pf (CStr h) of Some d \<Rightarrow> d \<noteq> [] | None \<Rightarrow> False)"

definition hasDateColumn :: "platform \<Rightarrow> cell list list \<Rightarrow> bool" where
  "hasDateColumn pf rows =
     (\<exists>h\<in>set (plannedHeader pf rows). str_includes (toLowerCase h) ''fecha'')"

definition hasCostColumn :: "platform \<Rightarrow> cell list list \<Rightarrow> bool" where
  "hasCostColumn pf rows =
     (\<exists>h\<in>set (plannedHeader pf rows).
        str_includes (toLowerCase h) ''costo'' \<or> str_includes (toLowerCase h) ''cost'')"

text \<open>
  The theorem at a sheet of blank rows, which has no header row, and at a planned sheet
  with two date headers only.
\<close>

definition blankSheet :: "cell list list" where
  "blankSheet = [[CNull, CStr []], [], [CStr '' '']]"

definition twoDatesSheet :: "cell list list" where
  "twoDatesSheet =
     [[CStr ''Tarea'', CStr ''2024-01-01'', CStr ''2024-02-01''],
      [CStr ''A'', CNum (Fin 10), CNum (Fin 20)]]"

subsection \<open>The planned curve as the specification words it\<close>










subsection \<open>Dates of the host\<close>

text \<open>
  A \<open>Date\<close> is its time value, the milliseconds since 1970-01-01T00:00:00Z, or \<open>None\<close>
  for an invalid date. The host's time zone is a parameter, \<open>tz\<close>: the minutes by which
  local time is ahead of UTC (\<open>-300\<close> in Bogota, \<open>60\<close> in Madrid in winter), taken as
  constant over the dates involved.
\<close>

definition msPerDay :: int where
  "msPerDay = 86400000"

definition isLeapYear :: "int \<Rightarrow> bool" where
  "isLeapYear y = (y mod 4 = 0 \<and> (y mod 100 \<noteq> 0 \<or> y mod 400 = 0))"

definition daysInMonth :: "int \<Rightarrow> int \<Rightarrow> int" where
  "daysInMonth y m =
     (if m = 2 then (if isLeapYear y then 29 else 28)
      else if m = 4 \<or> m = 6 \<or> m = 9 \<or> m = 11 then 30 else 31)"

text \<open>The day number of a date of the proleptic Gregorian calendar, and back.\<close>

definition daysFromCivil :: "int \<Rightarrow> int \<Rightarrow> int \<Rightarrow> int" where
  "daysFromCivil y m d =
     (let y' = (if m \<le> 2 then y - 1 else y);
          era = y' div 400;
          yoe = y' - era * 400;
          doy = (153 * (if m > 2 then m - 3 else m + 9) + 2) div 5 + d - 1;
          doe = yoe * 365 + yoe div 4 - yoe div 100 + doy
      in era * 146097 + doe - 719468)"

definition civilFromDays :: "int \<Rightarrow> int \<times> int \<times> int" where
  "civilFromDays z =
     (let z' = z + 719468;
          era = z' div 146097;
          doe = z' - era * 146097;
          yoe = (doe - doe div 1460 + doe div 36524 - doe div 146096) div 365;
          doy = doe - (365 * yoe + yoe div 4 - yoe div 100);
          mp = (5 * doy + 2) div 153;
          d = doy - (153 * mp + 2) div 5 + 1;
          m = (if mp < 10 then mp + 3 else mp - 9);
          y = yoe + era * 400
      in (if m \<le> 2 then y + 1 else y, m, d))"

text \<open>
  \<open>new Date(s + "T00:00:00").getTime()\<close>: a date-time string without offset is read as
  local time. The strings read are those of the form \<open>YYYY-MM-DD\<close> that name a day of
  the calendar, the form in which the application stores dates; any other string is
  taken as invalid. For a day beyond the length of its month (\<open>2024-02-30\<close>) the hosts
  differ: some reject it, as here, and V8 counts on into the next month.
\<close>

definition dateTimeValue :: "int \<Rightarrow> string \<Rightarrow> int option" where
  "dateTimeValue tz s =
     (if isoPattern s then
        (let y = digitsVal (take 4 s);
             m = digitsVal (take 2 (drop 5 s));
             d = digitsVal (drop 8 s)
         in if 1 \<le> m \<and> m \<le> 12 \<and> 1 \<le> d \<and> d \<le> daysInMonth y m
            then Some (daysFromCivil y m d * msPerDay - tz * 60000) else None)
      else None)"

text \<open>
  \<open>new Date(t).toISOString().slice(0,10)\<close>: the date in UTC. A time value beyond the
  range of \<open>Date\<close> gives an invalid date, on which \<open>toISOString\<close> raises a \<open>RangeError\<close>.
\<close>

definition padStart :: "nat \<Rightarrow> string \<Rightarrow> string" where
  "padStart n s = replicate (n - length s) (CHR ''0'') @ s"

definition yearText :: "int \<Rightarrow> string" where
  "yearText y =
     (if 0 \<le> y \<and> y \<le> 9999 then padStart 4 (natDigits 22 (nat y))
      else (if y < 0 then ''-'' else ''+'') @ padStart 6 (natDigits 22 (nat \<bar>y\<bar>)))"

definition isoDatePrefix :: "int \<Rightarrow> jsError + string" where
  "isoDatePrefix t =
     (if \<bar>t\<bar> > 8640000000000000 then Inl RangeError
      else
        (case civilFromDays (t div msPerDay) of
           (y, m, d) \<Rightarrow>
             Inr (take 10 (yearText y @ ''-'' @ padStart 2 (natDigits 22 (nat m)) @ ''-'' @
                           padStart 2 (natDigits 22 (nat d))))))"

subsection \<open>Suspension shift\<close>

text \<open>
  \<^verbatim>\<open>
  function shiftDateBySuspensions(dateISO, project){
    const d = new Date(dateISO + "T00:00:00");
    if(Number.isNaN(d.getTime())) return dateISO;
    let extraDays = 0;
    for(const s of (project.suspensions||[])){
      if(!s.from || !s.to) continue;
      const a = new Date(s.from + "T00:00:00");
      const b = new Date(s.to + "T00:00:00");
      if(Number.isNaN(a.getTime()) || Number.isNaN(b.getTime())) continue;
      // if suspension is entirely before date
      if(b <= d){
        extraDays += Math.round((b - a) / (1000*60*60*24)) + 1;
      }
    }
    const shifted = new Date(d.getTime() + extraDays*24*60*60*1000);
    return shifted.toISOString().slice(0,10);
  }
  \<close>
\<close>

fun suspensionLoop :: "int \<Rightarrow> int \<Rightarrow> int \<Rightarrow> suspension list \<Rightarrow> int" where
  "suspensionLoop tz d extraDays [] = extraDays"
| "suspensionLoop tz d extraDays (s # ss) =
     (if sus_from s = [] \<or> sus_to s = [] then suspensionLoop tz d extraDays ss
      else
        (case dateTimeValue tz (sus_from s) of
           None \<Rightarrow> suspensionLoop tz d extraDays ss
         | Some a \<Rightarrow>
             (case dateTimeValue tz (sus_to s) of
                None \<Rightarrow> suspensionLoop tz d extraDays ss
              | Some b \<Rightarrow>
                  if b \<le> d
                  then suspensionLoop tz d
                         (extraDays + \<lfloor>(of_int (b - a) :: rat) / 86400000 + 1 / 2\<rfloor> + 1) ss
                  else suspensionLoop tz d extraDays ss)))"

definition shiftDateBySuspensions :: "int \<Rightarrow> string \<Rightarrow> project \<Rightarrow> jsError + string" where
  "shiftDateBySuspensions tz dateISO p =
     (case dateTimeValue tz dateISO of
        None \<Rightarrow> Inr dateISO
      | Some d \<Rightarrow>
          (let extraDays = suspensionLoop tz d 0 (suspensions p)
           in isoDatePrefix (d + extraDays * 24 * 60 * 60 * 1000)))"

definition suspendedProject :: "suspension list \<Rightarrow> project" where
  "suspendedProject ss = (exampleProject [] [])\<lparr>suspensions := ss\<rparr>"

definition januarySuspension :: suspension where
  "januarySuspension = \<lparr>sus_from = ''2024-01-01'', sus_to = ''2024-01-05'', reason = ''Lluvias''\<rparr>"

definition marchSuspension :: suspension where
  "marchSuspension = \<lparr>sus_from = ''2024-03-01'', sus_to = ''2024-03-31'', reason = ''Paro''\<rparr>"

subsection \<open>The shift as the specification words it\<close>

text \<open>
  The day number of a date string, the date string of a day number, and the number of
  suspended days up to a day: the sum, over the suspensions with both dates given and
  valid that end on or before the day, of the inclusive length \<open>to - from + 1\<close>.
\<close>

definition dayOfDate :: "string \<Rightarrow> int option" where
  "dayOfDate s =
     (if isoPattern s \<and> 1 \<le> digitsVal (take 2 (drop 5 s)) \<and> digitsVal (take 2 (drop 5 s)) \<le> 12 \<and>
         1 \<le> digitsVal (drop 8 s) \<and>
         digitsVal (drop 8 s) \<le> daysInMonth (digitsVal (take 4 s)) (digitsVal (take 2 (drop 5 s)))
      then Some (daysFromCivil (digitsVal (take 4 s)) (digitsVal (take 2 (drop 5 s)))
                   (digitsVal (drop 8 s)))
      else None)"

definition isoDateOfDay :: "int \<Rightarrow> string" where
  "isoDateOfDay k =
     (case civilFromDays k of
        (y, m, d) \<Rightarrow>
          take 10 (yearText y @ ''-'' @ padStart 2 (natDigits 22 (nat m)) @ ''-'' @
                   padStart 2 (natDigits 22 (nat d))))"

definition suspensionLength :: "int \<Rightarrow> suspension \<Rightarrow> int" where
  "suspensionLength day s =
     (case dayOfDate (sus_from s) of
        None \<Rightarrow> 0
      | Some a \<Rightarrow>
          (case dayOfDate (sus_to s) of
             None \<Rightarrow> 0
           | Some b \<Rightarrow> if b \<le> day then b - a + 1 else 0))"

definition suspendedDays :: "suspension list \<Rightarrow> int \<Rightarrow> int" where
  "suspendedDays ss day = sum_list (map (suspensionLength day) ss)"

text \<open>
  Rows and a revision for the examples with fractions: a revision that sets the item's
  quantity to 0.57 and its unit price to 1250, an item that holds the two from the start,
  and a total row whose total is -50.5.
\<close>

definition fractionRevision :: revision where
  "fractionRevision = revisionOf ''R'' (Some (num (57 / 100))) (Some (Fin 1250))"

definition fractionItem :: budgetItem where
  "fractionItem =
     budgetRow ITEM ''1.1.1'' ''Excavacion'' (Some (num (57 / 100))) (Some (Fin 1250)) None"

definition negativeTotalRow :: budgetItem where
  "negativeTotalRow = budgetRow TOTAL [] ''Valor total'' None None (Some (Fin (- 101 / 2)))"

definition centSettings :: settings where
  "centSettings = defaultSettings\<lparr>moneyDecimals := 2\<rparr>"

text \<open>
  Reports and revisions for the examples of the executed values: a revision that sets
  the unit price of the item to 101 and one that sets it to 1250; a report at one unit,
  a later one at half a unit, and a still later one at 0.57 units.
\<close>

definition price101 :: revision where
  "price101 = revisionOf ''R101'' None (Some (Fin 101))"

definition price1250 :: revision where
  "price1250 = revisionOf ''R1250'' None (Some (Fin 1250))"

definition revisedProgress :: "revision list \<Rightarrow> report list \<Rightarrow> project" where
  "revisedProgress revs reps = (exampleProject [exampleItem] revs)\<lparr>reports := reps\<rparr>"

definition reportOne :: report where
  "reportOne = reportOf ''F'' ''2024-01-31'' (Fin 1)"

definition reportHalf :: report where
  "reportHalf = reportOf ''H'' ''2024-02-29'' (Fin (1 / 2))"

definition reportFraction :: report where
  "reportFraction = reportOf ''V'' ''2024-03-31'' (num (57 / 100))"

text \<open>Two reports whose cutoffs are not dates, which the example collation orders against
  their code units.\<close>

definition reportLower :: report where
  "reportLower = reportOf ''lower'' ''a'' (Fin 1)"

definition reportUpper :: report where
  "reportUpper = reportOf ''upper'' ''B'' (Fin 2)"

section \<open>Properties\<close>

subsection \<open>Rounding to binary64\<close>

lemma bitLength_nonneg: "0 \<le> bitLength n"
  by (induction n rule: bitLength.induct) (subst bitLength.simps, simp)

lemma bitLength_bounds:
  "0 < n \<Longrightarrow> 2 ^ nat (bitLength n - 1) \<le> n \<and> n < 2 ^ nat (bitLength n)"
proof (induction n rule: bitLength.induct)
  case (1 n)
  show ?case
  proof (cases "n = 1")
    case True
    then show ?thesis by (simp add: bitLength.simps)
  next
    case False
    with "1.prems" have h: "0 < n div 2" by simp
    with "1.prems" "1.IH" have ih:
      "2 ^ nat (bitLength (n div 2) - 1) \<le> n div 2" "n div 2 < 2 ^ nat (bitLength (n div 2))"
      by simp_all
    from h have pos: "0 < bitLength (n div 2)"
      using bitLength_nonneg [of "n div 2 div 2"] by (subst bitLength.simps) simp
    have b: "bitLength n = 1 + bitLength (n div 2)"
      using "1.prems" by (subst bitLength.simps) simp
    from pos have e1: "nat (bitLength n - 1) = Suc (nat (bitLength (n div 2) - 1))"
      unfolding b by simp
    from pos have e2: "nat (bitLength n) = Suc (nat (bitLength (n div 2)))"
      unfolding b by simp
    have "\<And>A B :: int. A \<le> n div 2 \<Longrightarrow> n div 2 < B \<Longrightarrow> 2 * A \<le> n \<and> n < 2 * B"
      by presburger
    from this [OF ih] show ?thesis
      unfolding e1 e2 by simp
  qed
qed

lemma pow2_power_int: "pow2 k = power_int 2 k"
  by (simp add: pow2_def power_int_def inverse_eq_divide power_one_over)

lemma pow2_pos: "0 < pow2 k"
  by (simp add: pow2_def)

lemma pow2_add: "pow2 (a + b) = pow2 a * pow2 b"
  by (simp add: pow2_power_int power_int_add)

lemma pow2_mono: "a \<le> b \<Longrightarrow> pow2 a \<le> pow2 b"
  unfolding pow2_power_int by (rule power_int_increasing) simp_all

lemma pow2_less: "pow2 a < pow2 b \<Longrightarrow> a < b"
  using pow2_mono [of b a] by (cases "a < b") simp_all

lemma pow2_diff: "pow2 (a - b) = pow2 a / pow2 b"
  using pow2_add [of "a - b" b] pow2_pos [of b] by (simp add: field_simps)

lemma quotient_of_abs:
  assumes "q \<noteq> 0" "quotient_of \<bar>q\<bar> = (n, d)"
  shows "0 < n" "0 < d" "\<bar>q\<bar> = of_int n / of_int d"
proof -
  from assms(2) show d: "0 < d" by (rule quotient_of_denom_pos)
  from assms(2) show e: "\<bar>q\<bar> = of_int n / of_int d" by (rule quotient_of_div)
  from assms(1) have "0 < \<bar>q\<bar>" by simp
  with e d show "0 < n" by (simp add: zero_less_divide_iff)
qed

lemma binaryExponent_bounds:
  assumes "q \<noteq> 0"
  shows "pow2 (binaryExponent q) \<le> \<bar>q\<bar>" "\<bar>q\<bar> < pow2 (binaryExponent q + 1)"
proof -
  obtain n d where nd: "quotient_of \<bar>q\<bar> = (n, d)" by (cases "quotient_of \<bar>q\<bar>")
  note qa = quotient_of_abs [OF assms nd]
  let ?k = "bitLength n - bitLength d"
  from bitLength_bounds [OF qa(1)] have n1: "2 ^ nat (bitLength n - 1) \<le> n" and n2: "n < 2 ^ nat (bitLength n)"
    by simp_all
  from bitLength_bounds [OF qa(2)] have d1: "2 ^ nat (bitLength d - 1) \<le> d" and d2: "d < 2 ^ nat (bitLength d)"
    by simp_all
  have bn: "0 < bitLength n" using qa(1) bitLength_nonneg [of "n div 2"] by (subst bitLength.simps) simp
  have bd: "0 < bitLength d" using qa(2) bitLength_nonneg [of "d div 2"] by (subst bitLength.simps) simp
  have ofp: "\<And>k. (of_int (2 ^ k) :: rat) = 2 ^ k" by simp
  have N1: "pow2 (bitLength n - 1) \<le> of_int n"
    using n1 [folded of_int_le_iff [where 'a = rat]] bn unfolding ofp by (simp add: pow2_def)
  have N2: "of_int n < pow2 (bitLength n)"
    using n2 [folded of_int_less_iff [where 'a = rat]] bn unfolding ofp by (simp add: pow2_def)
  have D1: "pow2 (bitLength d - 1) \<le> of_int d"
    using d1 [folded of_int_le_iff [where 'a = rat]] bd unfolding ofp by (simp add: pow2_def)
  have D2: "of_int d < pow2 (bitLength d)"
    using d2 [folded of_int_less_iff [where 'a = rat]] bd unfolding ofp by (simp add: pow2_def)
  have dpos: "(0::rat) < of_int d" using qa(2) by simp
  have lower: "pow2 (?k - 1) \<le> \<bar>q\<bar>"
  proof -
    have "pow2 (?k - 1) * of_int d \<le> pow2 (?k - 1) * pow2 (bitLength d)"
      using D2 pow2_pos [of "?k - 1"] by simp
    also have "\<dots> = pow2 (bitLength n - 1)"
      by (simp add: pow2_add [symmetric])
    also have "\<dots> \<le> of_int n" by (rule N1)
    finally show ?thesis
      using dpos by (simp add: qa(3) pos_le_divide_eq)
  qed
  have upper: "\<bar>q\<bar> < pow2 (?k + 1)"
  proof -
    have "of_int n < pow2 (bitLength n)" by (rule N2)
    also have "\<dots> = pow2 (?k + 1) * pow2 (bitLength d - 1)"
      by (simp add: pow2_add [symmetric])
    also have "\<dots> \<le> pow2 (?k + 1) * of_int d"
      using D1 pow2_pos [of "?k + 1"] by simp
    finally show ?thesis
      using dpos by (simp add: qa(3) pos_divide_less_eq)
  qed
  show "pow2 (binaryExponent q) \<le> \<bar>q\<bar>"
    using lower by (simp add: binaryExponent_def nd Let_def)
  show "\<bar>q\<bar> < pow2 (binaryExponent q + 1)"
    using upper by (auto simp: binaryExponent_def nd Let_def not_le)
qed


lemma roundHalfEven_int: "roundHalfEven (of_int z) = z"
  by (simp add: roundHalfEven_def)

lemma roundHalfEven_near: "\<bar>of_int (roundHalfEven m) - m\<bar> \<le> 1 / 2"
proof -
  have "of_int \<lfloor>m\<rfloor> \<le> m" "m < of_int \<lfloor>m\<rfloor> + 1" by linarith+
  then show ?thesis
    by (auto simp: roundHalfEven_def Let_def)
qed

lemma roundHalfEven_nonzero: "1 \<le> \<bar>m\<bar> \<Longrightarrow> roundHalfEven m \<noteq> 0"
  using roundHalfEven_near [of m] by auto

lemma binary64_near:
  "\<bar>binary64 q - q\<bar> \<le> pow2 (binaryExponent q - 53)"
proof (cases "q = 0")
  case True
  then show ?thesis using pow2_pos [of "binaryExponent 0 - 53"] by (simp add: binary64_def)
next
  case False
  let ?u = "pow2 (binaryExponent q - 52)"
  have u: "0 < ?u" by (rule pow2_pos)
  have "binary64 q - q = (of_int (roundHalfEven (q / ?u)) - q / ?u) * ?u"
    using False u by (simp add: binary64_def Let_def left_diff_distrib)
  then have "\<bar>binary64 q - q\<bar> = \<bar>of_int (roundHalfEven (q / ?u)) - q / ?u\<bar> * \<bar>?u\<bar>"
    by (simp only: abs_mult)
  also have "\<dots> = \<bar>of_int (roundHalfEven (q / ?u)) - q / ?u\<bar> * ?u"
    using u by simp
  also have "\<dots> \<le> 1 / 2 * ?u"
    using roundHalfEven_near [of "q / ?u"] u by (intro mult_right_mono) simp_all
  also have "\<dots> = pow2 (binaryExponent q - 53)"
    using pow2_add [of "binaryExponent q - 53" 1] by (simp add: pow2_def)
  finally show ?thesis .
qed

lemma binary64_relative: "\<bar>binary64 q - q\<bar> \<le> \<bar>q\<bar> / 2 ^ 53"
proof (cases "q = 0")
  case True
  then show ?thesis by (simp add: binary64_def)
next
  case False
  have "pow2 (binaryExponent q - 53) = pow2 (binaryExponent q) / 2 ^ 53"
    by (simp add: pow2_diff) (simp add: pow2_def)
  also have "\<dots> \<le> \<bar>q\<bar> / 2 ^ 53"
    using binaryExponent_bounds(1) [OF False] by (simp add: divide_right_mono)
  finally show ?thesis
    using binary64_near [of q] by simp
qed

lemma binary64_nonzero: "q \<noteq> 0 \<Longrightarrow> binary64 q \<noteq> 0"
proof -
  assume q: "q \<noteq> 0"
  let ?u = "pow2 (binaryExponent q - 52)"
  have u: "0 < ?u" by (rule pow2_pos)
  have "?u \<le> pow2 (binaryExponent q)" by (rule pow2_mono) simp
  also have "\<dots> \<le> \<bar>q\<bar>" by (rule binaryExponent_bounds(1) [OF q])
  finally have "1 \<le> \<bar>q / ?u\<bar>" using u by (simp add: pos_le_divide_eq)
  then have "roundHalfEven (q / ?u) \<noteq> 0" by (rule roundHalfEven_nonzero)
  with q u show ?thesis by (simp add: binary64_def Let_def)
qed

lemma binary64_int:
  assumes "\<bar>n\<bar> < 2 ^ 53"
  shows "binary64 (of_int n) = of_int n"
proof (cases "n = 0")
  case True
  then show ?thesis by (simp add: binary64_def)
next
  case False
  let ?q = "of_int n :: rat"
  let ?e = "binaryExponent ?q"
  from False have q: "?q \<noteq> 0" by simp
  have "pow2 ?e \<le> \<bar>?q\<bar>" by (rule binaryExponent_bounds(1) [OF q])
  also have "\<bar>?q\<bar> < pow2 53"
  proof -
    have "(of_int \<bar>n\<bar> :: rat) < of_int (2 ^ 53)" using assms by (simp only: of_int_less_iff)
    then show ?thesis by (simp add: pow2_def)
  qed
  finally have e: "?e < 53" by (rule pow2_less)
  then have u: "pow2 (?e - 52) = 1 / of_int (2 ^ nat (52 - ?e))"
    by (simp add: pow2_def)
  have "?q / pow2 (?e - 52) = of_int (n * 2 ^ nat (52 - ?e))"
    unfolding u by simp
  then have "roundHalfEven (?q / pow2 (?e - 52)) = n * 2 ^ nat (52 - ?e)"
    by (simp only: roundHalfEven_int)
  then show ?thesis
    using q unfolding binary64_def Let_def u by simp
qed

lemma binary64_numeral: "(numeral k :: int) < 2 ^ 53 \<Longrightarrow> binary64 (numeral k) = numeral k"
  using binary64_int [of "numeral k"] by simp

lemma binary64_zero: "binary64 0 = 0"
  by (simp add: binary64_def)

subsection \<open>Doubles\<close>

text \<open>
  The rounding at known doubles: 0.1, the sum 0.1 + 0.2 = 0.30000000000000004, the
  product 0.57 \<times> 1250 = 712.4999999999999 and 1.005 \<times> 100 = 100.49999999999999, so that
  1.005 rounds to 1 at two decimals.
\<close>

lemma binary64_examples:
  "binary64 (1 / 10) = 3602879701896397 / 36028797018963968
   \<and> js_add64 (num (1 / 10)) (num (2 / 10)) = Fin (1351079888211149 / 4503599627370496)
   \<and> js_mul (num (57 / 100)) (Fin 1250) = Fin (6267216278323199 / 8796093022208)
   \<and> js_mul (num (1005 / 1000)) (Fin 100) = Fin (7072058789855231 / 70368744177664)
   \<and> roundByDecimals (Some (num (1005 / 1000))) 2 = Some (Fin 1)"
  by code_simp

text \<open>A rounded value is a double: rounding it again changes nothing.\<close>

lemma binaryExponent_unique:
  assumes "pow2 e \<le> \<bar>q\<bar>" "\<bar>q\<bar> < pow2 (e + 1)"
  shows "binaryExponent q = e"
proof -
  from assms have q: "q \<noteq> 0" using pow2_pos [of e] by auto
  note b = binaryExponent_bounds [OF q]
  from b(1) assms(2) have "pow2 (binaryExponent q) < pow2 (e + 1)" by simp
  then have 1: "binaryExponent q < e + 1" by (rule pow2_less)
  from assms(1) b(2) have "pow2 e < pow2 (binaryExponent q + 1)" by simp
  then have 2: "e < binaryExponent q + 1" by (rule pow2_less)
  from 1 2 show ?thesis by simp
qed

lemma binary64_idem: "binary64 (binary64 q) = binary64 q"
proof (cases "q = 0")
  case True
  then show ?thesis by (simp add: binary64_def)
next
  case False
  let ?e = "binaryExponent q"
  let ?u = "pow2 (?e - 52)"
  let ?n = "roundHalfEven (q / ?u)"
  have u: "0 < ?u" by (rule pow2_pos)
  have b64: "binary64 q = of_int ?n * ?u"
    using False by (simp add: binary64_def Let_def)
  note be = binaryExponent_bounds [OF False]
  have c1: "pow2 1 = 2" and c52: "pow2 52 = 2 ^ 52" and c53: "pow2 53 = 2 ^ 53"
    by (simp_all add: pow2_def)
  have p52: "pow2 ?e = 2 ^ 52 * ?u"
    using pow2_add [of 52 "?e - 52"] by (simp add: c52)
  have p53: "pow2 (?e + 1) = 2 ^ 53 * ?u"
    using pow2_add [of 53 "?e - 52"] by (simp add: c53 add.commute)
  from be(1) u have lo: "2 ^ 52 \<le> \<bar>q / ?u\<bar>"
    unfolding p52 by (simp add: pos_le_divide_eq)
  from be(2) u have hi: "\<bar>q / ?u\<bar> < 2 ^ 53"
    unfolding p53 by (simp add: pos_divide_less_eq)
  have near: "\<bar>of_int ?n - q / ?u\<bar> \<le> 1 / 2" by (rule roundHalfEven_near)
  have nlo: "2 ^ 52 \<le> \<bar>?n\<bar>"
  proof -
    from lo near have "(2 ^ 52 :: rat) - 1 / 2 \<le> \<bar>of_int ?n\<bar>" by linarith
    then have "(2 ^ 52 :: rat) - 1 / 2 \<le> of_int \<bar>?n\<bar>" by simp
    then have "(of_int (2 ^ 52 - 1) :: rat) < of_int \<bar>?n\<bar>" by simp
    then have "2 ^ 52 - 1 < \<bar>?n\<bar>" by (simp only: of_int_less_iff)
    then show ?thesis by simp
  qed
  have nhi: "\<bar>?n\<bar> \<le> 2 ^ 53"
  proof -
    from hi near have "\<bar>of_int ?n :: rat\<bar> < 2 ^ 53 + 1 / 2" by linarith
    then have "(of_int \<bar>?n\<bar> :: rat) < of_int (2 ^ 53 + 1)" by simp
    then have "\<bar>?n\<bar> < 2 ^ 53 + 1" by (simp only: of_int_less_iff)
    then show ?thesis by simp
  qed
  have absb: "\<bar>binary64 q\<bar> = of_int \<bar>?n\<bar> * ?u"
    using u by (simp add: b64 abs_mult)
  show ?thesis
  proof (cases "\<bar>?n\<bar> = 2 ^ 53")
    case True
    have e': "binaryExponent (binary64 q) = ?e + 1"
    proof (rule binaryExponent_unique)
      show "pow2 (?e + 1) \<le> \<bar>binary64 q\<bar>"
        unfolding absb True p53 by simp
      have "pow2 (?e + 1 + 1) = 2 * pow2 (?e + 1)"
        using pow2_add [of 1 "?e + 1"] by (simp add: c1 add.commute)
      then show "\<bar>binary64 q\<bar> < pow2 (?e + 1 + 1)"
        unfolding absb True p53 using u by simp
    qed
    have u': "pow2 (?e + 1 - 52) = 2 * ?u"
      using pow2_add [of 1 "?e - 52"] by (simp add: c1 add.commute)
    from True have "even \<bar>?n\<bar>" by simp
    then have "even ?n" by (simp only: dvd_abs_iff)
    then obtain m where m: "?n = 2 * m" by (auto elim: evenE)
    have "binary64 q / (2 * ?u) = of_int m"
      using u by (simp add: b64 m)
    then have "roundHalfEven (binary64 q / (2 * ?u)) = m"
      by (simp only: roundHalfEven_int)
    moreover have "binary64 q \<noteq> 0" using False by (rule binary64_nonzero)
    ultimately show ?thesis
      unfolding binary64_def [of "binary64 q"] Let_def e' u'
      by (simp add: b64 m)
  next
    case False
    with nhi have lt: "\<bar>?n\<bar> < 2 ^ 53" by simp
    have e': "binaryExponent (binary64 q) = ?e"
    proof (rule binaryExponent_unique)
      from nlo have "(of_int (2 ^ 52) :: rat) \<le> of_int \<bar>?n\<bar>" by (simp only: of_int_le_iff)
      then show "pow2 ?e \<le> \<bar>binary64 q\<bar>"
        unfolding absb p52 using u by simp
      from lt have "(of_int \<bar>?n\<bar> :: rat) < of_int (2 ^ 53)" by (simp only: of_int_less_iff)
      then show "\<bar>binary64 q\<bar> < pow2 (?e + 1)"
        unfolding absb p53 using u by simp
    qed
    have "binary64 q / ?u = of_int ?n"
      using u by (simp add: b64)
    then have "roundHalfEven (binary64 q / ?u) = ?n"
      by (simp only: roundHalfEven_int)
    moreover have "binary64 q \<noteq> 0" using \<open>q \<noteq> 0\<close> by (rule binary64_nonzero)
    ultimately show ?thesis
      unfolding binary64_def [of "binary64 q"] Let_def e'
      by (simp add: b64)
  qed
qed


text \<open>
  So at the money precision 0 a double is rounded to the whole number nearest to it, a
  half going up, as long as that number is below \<open>2\<^sup>5\<^sup>3\<close>.
\<close>

lemma roundedMoney_whole:
  assumes "\<bar>nearestTiesUp (binary64 x)\<bar> < 2 ^ 53"
  shows "roundedMoney 0 (Fin (binary64 x)) = Some (Fin (of_int (nearestTiesUp (binary64 x))))"
proof -
  have one: "binary64 (pow10 0) = 1"
    using binary64_int [of 1] by (simp add: pow10_def)
  have s: "scaledMoney 0 (binary64 x) = binary64 x"
    by (simp add: scaledMoney_def one binary64_idem)
  show ?thesis
    using binary64_int [OF assms]
    by (simp add: roundedMoney_def unitsValue_def moneyUnits_def s one)
qed

subsection \<open>Rounding to thousands\<close>

text \<open>
  C4 (as the code has it). With the money precision \<open>-3\<close>, the sentinel for rounding to
  thousands, \<open>roundByDecimals\<close> sends 1,249,999 to the nearest thousand, 1,250,000.
\<close>

theorem roundByDecimals_thousands_nearest:
  "roundByDecimals (Some (Fin 1249999)) (- 3) = Some (Fin 1250000)"
  by code_simp

text \<open>C4 as stated fails: the result is not 1,249,000.\<close>

theorem roundByDecimals_thousands_not_truncating:
  "roundByDecimals (Some (Fin 1249999)) (- 3) \<noteq> Some (Fin 1249000)"
  by code_simp

subsection \<open>Revision overlay\<close>

lemma revisionLoop_foldl:
  "revisionLoop item q v revs = foldl (applyRevision item) (q, v) revs"
  by (induction revs arbitrary: q v)
     (simp_all add: applyRevision_def matchingChange_def applyChange_def split: option.splits)

lemma filter_distinct_find:
  "distinct (map f cs) \<Longrightarrow>
   filter (\<lambda>c. f c = k) cs = (case find (\<lambda>c. f c = k) cs of None \<Rightarrow> [] | Some c \<Rightarrow> [c])"
proof (induction cs)
  case Nil
  then show ?case by simp
next
  case (Cons c cs)
  show ?case
  proof (cases "f c = k")
    case True
    with Cons.prems have "k \<notin> set (map f cs)" by simp
    then have "\<forall>x\<in>set cs. f x \<noteq> k" by auto
    then have "filter (\<lambda>c. f c = k) cs = []" by (simp add: filter_empty_conv)
    with True show ?thesis by simp
  next
    case False
    with Cons show ?thesis by simp
  qed
qed

lemma foldl_revisions_changes:
  "\<forall>r\<in>set revs. oneChangePerCode r \<Longrightarrow>
   foldl (applyRevision item) st revs = foldl applyChange st (matchingChanges item revs)"
proof (induction revs arbitrary: st)
  case Nil
  then show ?case by (simp add: matchingChanges_def)
next
  case (Cons r revs)
  from Cons.prems have d: "distinct (map itemCodeNorm (changes r))"
    by (simp add: oneChangePerCode_def)
  have m: "matchingChanges item (r # revs) =
      (case matchingChange item r of None \<Rightarrow> [] | Some c \<Rightarrow> [c]) @ matchingChanges item revs"
    using filter_distinct_find [OF d, of "codeNorm item"]
    by (simp add: matchingChanges_def matchingChange_def)
  from Cons.prems have "\<forall>r\<in>set revs. oneChangePerCode r" by simp
  then have ih: "\<And>s. foldl (applyRevision item) s revs = foldl applyChange s (matchingChanges item revs)"
    by (rule Cons.IH)
  have step: "applyRevision item st r =
      foldl applyChange st (case matchingChange item r of None \<Rightarrow> [] | Some c \<Rightarrow> [c])"
    by (simp add: applyRevision_def split: option.splits)
  show ?case
    by (simp add: m ih step)
qed

lemma budgetEffectiveItem_foldl:
  "budgetEffectiveItem item p =
     effectiveOf (foldl (applyRevision item) (baseValues item) (revisions (budget p)))"
  by (simp add: budgetEffectiveItem_def revisionLoop_foldl baseValues_def effectiveOf_def
      split: prod.splits)

lemma applyChange_commute:
  "vuNew c1 = None \<Longrightarrow> qtyNew c2 = None \<Longrightarrow>
   applyChange (applyChange st c1) c2 = applyChange (applyChange st c2) c1"
  by (simp add: applyChange_def split: option.splits)

lemma qty_last_revision:
  "matchingChange item r = Some c \<Longrightarrow> qtyNew c = Some n \<Longrightarrow>
   fst (foldl (applyRevision item) st (revs @ [r])) = n"
  by (simp add: applyRevision_def applyChange_def)

text \<open>
  C3. \<open>budgetEffectiveItem\<close> is a left-to-right fold over the revision list from the
  item's base quantity and unit price; under the data model's invariant (one change per
  code in a revision) it is the fold of \<open>applyChange\<close> over every change that targets
  the item, each overwriting only the fields it sets; the total is the final quantity
  times the final unit price. Two revisions that set disjoint fields commute, a
  revision that sets the quantity overrides every earlier one, and on the base
  (10, 100) the revisions R1 (quantity 12) and R2 (price 110) give (12, 110, 1320) in
  either order.
\<close>

theorem budgetEffectiveItem_overlay:
  assumes inv: "\<forall>r\<in>set (revisions (budget p)). oneChangePerCode r"
  shows "budgetEffectiveItem item p =
           effectiveOf (foldl (applyRevision item) (baseValues item) (revisions (budget p)))
       \<and> budgetEffectiveItem item p =
           effectiveOf (foldl applyChange (baseValues item)
             (matchingChanges item (revisions (budget p))))
       \<and> vt (budgetEffectiveItem item p) =
           js_mul (qty (budgetEffectiveItem item p)) (vu (budgetEffectiveItem item p))
       \<and> (matchingChange item r1 = Some c1 \<and> vuNew c1 = None \<and>
          matchingChange item r2 = Some c2 \<and> qtyNew c2 = None \<longrightarrow>
          budgetEffectiveItem item (withRevisions p [r1, r2]) =
          budgetEffectiveItem item (withRevisions p [r2, r1]))
       \<and> (matchingChange item r = Some c \<and> qtyNew c = Some n \<longrightarrow>
          qty (budgetEffectiveItem item (withRevisions p (revs @ [r]))) = n)
       \<and> budgetEffectiveItem exampleItem
            (exampleProject [exampleItem]
               [revisionOf ''R1'' (Some (Fin 12)) None, revisionOf ''R2'' None (Some (Fin 110))]) =
          \<lparr>qty = Fin 12, vu = Fin 110, vt = Fin 1320\<rparr>
       \<and> budgetEffectiveItem exampleItem
            (exampleProject [exampleItem]
               [revisionOf ''R2'' None (Some (Fin 110)), revisionOf ''R1'' (Some (Fin 12)) None]) =
          \<lparr>qty = Fin 12, vu = Fin 110, vt = Fin 1320\<rparr>"
proof -
  have fold1: "budgetEffectiveItem item p =
      effectiveOf (foldl (applyRevision item) (baseValues item) (revisions (budget p)))"
    by (rule budgetEffectiveItem_foldl)
  have fold2: "budgetEffectiveItem item p =
      effectiveOf (foldl applyChange (baseValues item) (matchingChanges item (revisions (budget p))))"
    using foldl_revisions_changes [OF inv] by (simp add: fold1)
  have total: "vt (budgetEffectiveItem item p) =
      js_mul (qty (budgetEffectiveItem item p)) (vu (budgetEffectiveItem item p))"
    by (simp add: fold1 effectiveOf_def)
  have comm: "matchingChange item r1 = Some c1 \<and> vuNew c1 = None \<and>
      matchingChange item r2 = Some c2 \<and> qtyNew c2 = None \<longrightarrow>
      budgetEffectiveItem item (withRevisions p [r1, r2]) =
      budgetEffectiveItem item (withRevisions p [r2, r1])"
    using applyChange_commute [of c1 c2 "baseValues item"]
    by (auto simp: budgetEffectiveItem_foldl withRevisions_def applyRevision_def)
  have later: "matchingChange item r = Some c \<and> qtyNew c = Some n \<longrightarrow>
      qty (budgetEffectiveItem item (withRevisions p (revs @ [r]))) = n"
    using qty_last_revision [of item r c n "baseValues item" revs]
    by (auto simp: budgetEffectiveItem_foldl withRevisions_def effectiveOf_def)
  have ex1: "budgetEffectiveItem exampleItem
      (exampleProject [exampleItem]
         [revisionOf ''R1'' (Some (Fin 12)) None, revisionOf ''R2'' None (Some (Fin 110))]) =
      \<lparr>qty = Fin 12, vu = Fin 110, vt = Fin 1320\<rparr>"
    by (simp add: budgetEffectiveItem_def exampleItem_def exampleProject_def revisionOf_def
        binary64_numeral)
  have ex2: "budgetEffectiveItem exampleItem
      (exampleProject [exampleItem]
         [revisionOf ''R2'' None (Some (Fin 110)), revisionOf ''R1'' (Some (Fin 12)) None]) =
      \<lparr>qty = Fin 12, vu = Fin 110, vt = Fin 1320\<rparr>"
    by (simp add: budgetEffectiveItem_def exampleItem_def exampleProject_def revisionOf_def
        binary64_numeral)
  from fold1 fold2 total comm later ex1 ex2 show ?thesis by blast
qed

text \<open>
  The theorem at the example: with R1 (quantity 12) and R3 (quantity 15) the later one
  wins in either order, and R1 and R2 commute.
\<close>

theorem budgetEffectiveItem_overlay_witness:
  "oneChangePerCode (revisionOf ''R1'' (Some (Fin 12)) None)
   \<and> oneChangePerCode (revisionOf ''R3'' (Some (Fin 15)) None)
   \<and> budgetEffectiveItem exampleItem
        (exampleProject [exampleItem]
           [revisionOf ''R1'' (Some (Fin 12)) None, revisionOf ''R3'' (Some (Fin 15)) None]) =
      \<lparr>qty = Fin 15, vu = Fin 100, vt = Fin 1500\<rparr>
   \<and> qty (budgetEffectiveItem exampleItem
        (exampleProject [exampleItem]
           [revisionOf ''R3'' (Some (Fin 15)) None, revisionOf ''R1'' (Some (Fin 12)) None])) = Fin 12
   \<and> budgetEffectiveItem exampleItem
        (exampleProject [exampleItem]
           [revisionOf ''R1'' (Some (Fin 12)) None, revisionOf ''R2'' None (Some (Fin 110))]) =
      budgetEffectiveItem exampleItem
        (exampleProject [exampleItem]
           [revisionOf ''R2'' None (Some (Fin 110)), revisionOf ''R1'' (Some (Fin 12)) None])"
proof -
  let ?R1 = "revisionOf ''R1'' (Some (Fin 12)) None"
  let ?R2 = "revisionOf ''R2'' None (Some (Fin 110))"
  let ?R3 = "revisionOf ''R3'' (Some (Fin 15)) None"
  let ?p = "exampleProject [exampleItem] [?R1, ?R3]"
  have inv: "\<forall>r\<in>set (revisions (budget ?p)). oneChangePerCode r"
    by (simp add: exampleProject_def oneChangePerCode_def revisionOf_def)
  have m1: "matchingChange exampleItem ?R1 =
      Some \<lparr>itemCodeNorm = ''1.1.1'', qtyNew = Some (Fin 12), vuNew = None\<rparr>"
    by (simp add: matchingChange_def revisionOf_def exampleItem_def)
  have m2: "matchingChange exampleItem ?R2 =
      Some \<lparr>itemCodeNorm = ''1.1.1'', qtyNew = None, vuNew = Some (Fin 110)\<rparr>"
    by (simp add: matchingChange_def revisionOf_def exampleItem_def)
  have m3: "matchingChange exampleItem ?R3 =
      Some \<lparr>itemCodeNorm = ''1.1.1'', qtyNew = Some (Fin 15), vuNew = None\<rparr>"
    by (simp add: matchingChange_def revisionOf_def exampleItem_def)
  let ?c1 = "\<lparr>itemCodeNorm = ''1.1.1'', qtyNew = Some (Fin 12), vuNew = None\<rparr>"
  let ?c2 = "\<lparr>itemCodeNorm = ''1.1.1'', qtyNew = None, vuNew = Some (Fin 110)\<rparr>"
  note t = budgetEffectiveItem_overlay [OF inv, where item = exampleItem and ?r1.0 = ?R1
      and ?c1.0 = ?c1 and ?r2.0 = ?R2 and ?c2.0 = ?c2 and r = ?R1 and c = ?c1
      and n = "Fin 12" and revs = "[?R3]"]
  have a: "budgetEffectiveItem exampleItem ?p = \<lparr>qty = Fin 15, vu = Fin 100, vt = Fin 1500\<rparr>"
    using t
    by (simp add: matchingChanges_def exampleProject_def revisionOf_def exampleItem_def
        baseValues_def applyChange_def effectiveOf_def applyRevision_def matchingChange_def
        binary64_numeral)
  have b: "qty (budgetEffectiveItem exampleItem (withRevisions ?p ([?R3] @ [?R1]))) = Fin 12"
    using t m1 by simp
  have c: "budgetEffectiveItem exampleItem (withRevisions ?p [?R1, ?R2]) =
      budgetEffectiveItem exampleItem (withRevisions ?p [?R2, ?R1])"
    using t m1 m2 by simp
  have w: "\<And>revs. withRevisions ?p revs = exampleProject [exampleItem] revs"
    by (simp add: withRevisions_def exampleProject_def)
  have i1: "oneChangePerCode ?R1" and i3: "oneChangePerCode ?R3"
    by (simp_all add: oneChangePerCode_def revisionOf_def)
  from b have b': "qty (budgetEffectiveItem exampleItem
      (exampleProject [exampleItem] [?R3, ?R1])) = Fin 12"
    by (simp add: w)
  from c have c': "budgetEffectiveItem exampleItem (exampleProject [exampleItem] [?R1, ?R2]) =
      budgetEffectiveItem exampleItem (exampleProject [exampleItem] [?R2, ?R1])"
    by (simp add: w)
  from i1 i3 a b' c' show ?thesis by blast
qed

subsection \<open>Arithmetic of \<open>jsnum\<close>\<close>





subsection \<open>Percentages\<close>

lemma pow10_nonzero: "pow10 d \<noteq> 0"
  by (simp add: pow10_def)

lemma roundByDecimals_finite:
  assumes "roundByDecimals v d = Some x"
  shows "isFinite x"
proof (cases v)
  case None
  with assms show ?thesis by (simp add: roundByDecimals.simps)
next
  case (Some n)
  show ?thesis
  proof (cases n)
    case (Fin a)
    with Some assms binary64_nonzero [OF pow10_nonzero [of d]] show ?thesis
      by (auto simp: roundByDecimals.simps Let_def split: if_splits)
  qed (use Some assms in \<open>simp_all add: roundByDecimals.simps\<close>)
qed

lemma contractValue_finite:
  "cv_value (contractValue p st) = Some x \<Longrightarrow> isFinite x"
  by (auto simp: contractValue_def dest: roundByDecimals_finite split: option.splits)

lemma contractValue_null_or_finite:
  "cv_value (contractValue p st) = None \<or> (\<exists>v. cv_value (contractValue p st) = Some (Fin v))"
proof (cases "cv_value (contractValue p st)")
  case None
  then show ?thesis by simp
next
  case (Some x)
  then have "isFinite x" by (rule contractValue_finite)
  with Some show ?thesis by (cases x) simp_all
qed

lemma js_div_finite:
  "isFinite (null_to_number a) \<Longrightarrow> v \<noteq> 0 \<Longrightarrow> isFinite (js_div (null_to_number a) (Fin v))"
  by (cases "null_to_number a") simp_all

lemma null_to_number_round_finite:
  "isFinite (null_to_number (roundByDecimals v d))"
  by (cases "roundByDecimals v d") (auto dest: roundByDecimals_finite)

lemma accumVal_finite:
  "isFinite (null_to_number (accumVal (computeExecutedValues collate p rep st)))"
  by (simp add: computeExecutedValues_def Let_def null_to_number_round_finite
      split: prod.splits)

lemma financeAccumUpTo_finite:
  "isFinite (null_to_number (financeAccumUpTo p cutoff st))"
  by (simp add: financeAccumUpTo_def Let_def null_to_number_round_finite)

text \<open>
  C5. The contract value is \<open>null\<close> or a finite number. When it is \<open>null\<close> or at most 0,
  \<open>computeExecutedPct\<close> and \<open>computeFinancePct\<close> return \<open>null\<close>. When they return a
  number, the contract value is positive and the number is the finite quotient by it:
  no division by zero takes place.
\<close>

theorem percent_null_without_contract_value:
  "((cv_value (contractValue p st) = None \<or>
      (\<exists>v. cv_value (contractValue p st) = Some (Fin v) \<and> v \<le> 0)) \<longrightarrow>
      computeExecutedPct collate p rep st = None \<and> computeFinancePct p cutoff st = None)
   \<and> (cv_value (contractValue p st) = None \<or>
      (\<exists>v. cv_value (contractValue p st) = Some (Fin v)))
   \<and> (computeExecutedPct collate p rep st = Some x \<longrightarrow>
      isFinite x \<and>
      (\<exists>v. cv_value (contractValue p st) = Some (Fin v) \<and> 0 < v \<and>
           x = js_div (null_to_number (accumVal (computeExecutedValues collate p rep st))) (Fin v)))
   \<and> (computeFinancePct p cutoff st = Some y \<longrightarrow>
      isFinite y \<and>
      (\<exists>v. cv_value (contractValue p st) = Some (Fin v) \<and> 0 < v \<and>
           y = js_div (null_to_number (financeAccumUpTo p cutoff st)) (Fin v)))"
proof -
  note cases_cv = contractValue_null_or_finite [of p st]
  have a: "(cv_value (contractValue p st) = None \<or>
      (\<exists>v. cv_value (contractValue p st) = Some (Fin v) \<and> v \<le> 0)) \<longrightarrow>
      computeExecutedPct collate p rep st = None \<and> computeFinancePct p cutoff st = None"
    by (auto simp: computeExecutedPct_def computeFinancePct_def)
  have b: "computeExecutedPct collate p rep st = Some x \<longrightarrow>
      isFinite x \<and>
      (\<exists>v. cv_value (contractValue p st) = Some (Fin v) \<and> 0 < v \<and>
           x = js_div (null_to_number (accumVal (computeExecutedValues collate p rep st))) (Fin v))"
  proof
    assume h: "computeExecutedPct collate p rep st = Some x"
    from cases_cv h obtain v where v: "cv_value (contractValue p st) = Some (Fin v)"
      by (auto simp: computeExecutedPct_def)
    with h have pos: "0 < v"
      and x: "x = js_div (null_to_number (accumVal (computeExecutedValues collate p rep st))) (Fin v)"
      by (auto simp: computeExecutedPct_def Let_def split: if_splits)
    from pos have "isFinite x"
      unfolding x by (intro js_div_finite accumVal_finite) simp
    with v pos x show "isFinite x \<and>
      (\<exists>v. cv_value (contractValue p st) = Some (Fin v) \<and> 0 < v \<and>
           x = js_div (null_to_number (accumVal (computeExecutedValues collate p rep st))) (Fin v))"
      by blast
  qed
  have c: "computeFinancePct p cutoff st = Some y \<longrightarrow>
      isFinite y \<and>
      (\<exists>v. cv_value (contractValue p st) = Some (Fin v) \<and> 0 < v \<and>
           y = js_div (null_to_number (financeAccumUpTo p cutoff st)) (Fin v))"
  proof
    assume h: "computeFinancePct p cutoff st = Some y"
    from cases_cv h obtain v where v: "cv_value (contractValue p st) = Some (Fin v)"
      by (auto simp: computeFinancePct_def)
    with h have pos: "0 < v"
      and y: "y = js_div (null_to_number (financeAccumUpTo p cutoff st)) (Fin v)"
      by (auto simp: computeFinancePct_def Let_def split: if_splits)
    from pos have "isFinite y"
      unfolding y by (intro js_div_finite financeAccumUpTo_finite) simp
    with v pos y show "isFinite y \<and>
      (\<exists>v. cv_value (contractValue p st) = Some (Fin v) \<and> 0 < v \<and>
           y = js_div (null_to_number (financeAccumUpTo p cutoff st)) (Fin v))"
      by blast
  qed
  show ?thesis
    apply (intro conjI)
    subgoal by (fact a)
    subgoal by (fact cases_cv)
    subgoal by (fact b)
    subgoal by (fact c)
    done
qed

text \<open>
  The theorem at two projects: with an empty budget the contract value is 0 and both
  percentages are \<open>null\<close>; with the example item (contract value 1000) report B, at an
  accumulated value of 800, stands at 0.8, the double nearest to 4/5.
\<close>

theorem percent_null_without_contract_value_witness:
  "cv_value (contractValue (exampleProject [] []) defaultSettings) = Some (Fin 0)
   \<and> computeExecutedPct exampleCollation (exampleProject [] []) reportB defaultSettings = None
   \<and> computeFinancePct (exampleProject [] []) None defaultSettings = None
   \<and> computeExecutedPct exampleCollation (progressProject [exampleItem] [reportA, reportB]) reportB
        defaultSettings = Some (num (4 / 5))
   \<and> cv_value (contractValue (progressProject [exampleItem] [reportA, reportB])
        defaultSettings) = Some (Fin 1000)"
proof -
  let ?P0 = "exampleProject [] []"
  let ?P1 = "progressProject [exampleItem] [reportA, reportB]"
  have z: "cv_value (contractValue ?P0 defaultSettings) = Some (Fin 0)"
    by code_simp
  from percent_null_without_contract_value [where p = ?P0 and st = defaultSettings
      and rep = reportB and cutoff = None and collate = exampleCollation] z
  have n: "computeExecutedPct exampleCollation ?P0 reportB defaultSettings = None
      \<and> computeFinancePct ?P0 None defaultSettings = None"
    by simp
  have cv: "cv_value (contractValue ?P1 defaultSettings) = Some (Fin 1000)"
    by code_simp
  have av: "accumVal (computeExecutedValues exampleCollation ?P1 reportB defaultSettings) = Some (Fin 800)"
    by code_simp
  have pct: "computeExecutedPct exampleCollation ?P1 reportB defaultSettings = Some (num (4 / 5))"
    by (simp add: computeExecutedPct_def cv av num_def)
  from percent_null_without_contract_value [where p = ?P1 and st = defaultSettings
      and rep = reportB and x = "num (4 / 5)" and collate = exampleCollation] pct
  have "\<exists>v. cv_value (contractValue ?P1 defaultSettings) = Some (Fin v) \<and> 0 < v"
    by blast
  with cv have "cv_value (contractValue ?P1 defaultSettings) = Some (Fin 1000)"
    by simp
  with z n pct show ?thesis by blast
qed

subsection \<open>Finance\<close>

lemma empty_string_least: "[] \<le> (s :: string)"
  by (cases s) simp_all

lemma dateless_empty: "dateless e \<Longrightarrow> dateOrEmpty e = []"
  by (auto simp: dateless_def dateOrEmpty_def)

text \<open>
  C10. \<open>financeAccumUpTo\<close> rounds the sum of the amounts of the events it keeps, added
  in stored order in double arithmetic; it keeps an event exactly when the event's date
  string, taken as the empty string when the date is missing or empty, is at most the
  cutoff string (the cutoff being \<open>9999-12-31\<close> when none is given). The empty string is at most every cutoff, so an
  event without a date is kept, in place, for every cutoff, and its amount is part of
  the accumulated value and of \<open>computeFinancePct\<close>: an advance of 100 without a date
  counts at the cutoff \<open>2024-01-01\<close> although a payment of June 2024 does not.
\<close>

theorem financeAccumUpTo_counts_dateless:
  "financeAccumUpTo p cutoff st =
     roundByDecimals (Some (sum64 (map (\<lambda>e. or_zero (amount e)) (eventsUpTo p cutoff))))
       (moneyDecimals st)
   \<and> (e \<in> set (eventsUpTo p cutoff) \<longleftrightarrow>
        e \<in> set (events (finance p)) \<and> dateOrEmpty e \<le> cutoffOrDefault cutoff)
   \<and> (dateless e \<longrightarrow> dateOrEmpty e = [] \<and> dateOrEmpty e \<le> cutoffOrDefault cutoff)
   \<and> (dateless e \<and> events (finance p) = pre @ e # post \<longrightarrow>
        eventsUpTo p cutoff =
          filter (\<lambda>e. dateOrEmpty e \<le> cutoffOrDefault cutoff) pre @ e #
          filter (\<lambda>e. dateOrEmpty e \<le> cutoffOrDefault cutoff) post)
   \<and> financeAccumUpTo (financeProject [datelessAdvance, junePayment]) (Some ''2024-01-01'')
        defaultSettings = Some (Fin 100)
   \<and> computeFinancePct (financeProject [datelessAdvance, junePayment]) (Some ''2024-01-01'')
        defaultSettings = Some (num (1 / 10))"
proof -
  have a: "financeAccumUpTo p cutoff st =
     roundByDecimals (Some (sum64 (map (\<lambda>e. or_zero (amount e)) (eventsUpTo p cutoff))))
       (moneyDecimals st)"
    by (simp add: financeAccumUpTo_def eventsUpTo_def sum64_def foldl_map)
  have b: "e \<in> set (eventsUpTo p cutoff) \<longleftrightarrow>
        e \<in> set (events (finance p)) \<and> dateOrEmpty e \<le> cutoffOrDefault cutoff"
    by (simp add: eventsUpTo_def)
  have c: "dateless e \<longrightarrow> dateOrEmpty e = [] \<and> dateOrEmpty e \<le> cutoffOrDefault cutoff"
    by (simp add: dateless_empty empty_string_least)
  have d: "dateless e \<and> events (finance p) = pre @ e # post \<longrightarrow>
        eventsUpTo p cutoff =
          filter (\<lambda>e. dateOrEmpty e \<le> cutoffOrDefault cutoff) pre @ e #
          filter (\<lambda>e. dateOrEmpty e \<le> cutoffOrDefault cutoff) post"
    by (simp add: eventsUpTo_def dateless_empty empty_string_least)
  have x: "financeAccumUpTo (financeProject [datelessAdvance, junePayment]) (Some ''2024-01-01'')
        defaultSettings = Some (Fin 100)"
    by code_simp
  have y: "computeFinancePct (financeProject [datelessAdvance, junePayment]) (Some ''2024-01-01'')
        defaultSettings = Some (num (1 / 10))"
    by code_simp
  show ?thesis
    apply (intro conjI)
    subgoal by (fact a)
    subgoal by (fact b)
    subgoal by (fact c)
    subgoal by (fact d)
    subgoal by (fact x)
    subgoal by (fact y)
    done
qed

text \<open>
  The theorem at the example: the advance without a date is kept at the cutoff
  \<open>2024-01-01\<close>, the payment of June is not.
\<close>

theorem financeAccumUpTo_counts_dateless_witness:
  "dateless datelessAdvance
   \<and> eventsUpTo (financeProject [datelessAdvance, junePayment]) (Some ''2024-01-01'') =
       [datelessAdvance]
   \<and> eventsUpTo (financeProject [junePayment, datelessAdvance]) (Some ''0000-00-00'') =
       [datelessAdvance]"
proof -
  have dl: "dateless datelessAdvance"
    by (simp add: dateless_def datelessAdvance_def)
  have j: "\<And>c. dateOrEmpty junePayment \<le> c \<longleftrightarrow> ''2024-06-01'' \<le> c"
    by (simp add: dateOrEmpty_def junePayment_def)
  have e1: "events (finance (financeProject [datelessAdvance, junePayment])) =
      [] @ datelessAdvance # [junePayment]"
    by (simp add: financeProject_def)
  have e2: "events (finance (financeProject [junePayment, datelessAdvance])) =
      [junePayment] @ datelessAdvance # []"
    by (simp add: financeProject_def)
  from financeAccumUpTo_counts_dateless [where e = datelessAdvance and pre = "[]"
      and post = "[junePayment]" and cutoff = "Some ''2024-01-01''"
      and p = "financeProject [datelessAdvance, junePayment]"] dl e1
  have a: "eventsUpTo (financeProject [datelessAdvance, junePayment]) (Some ''2024-01-01'') =
      [datelessAdvance]"
    by (simp add: j cutoffOrDefault_def)
  from financeAccumUpTo_counts_dateless [where e = datelessAdvance and pre = "[junePayment]"
      and post = "[]" and cutoff = "Some ''0000-00-00''"
      and p = "financeProject [junePayment, datelessAdvance]"] dl e2
  have b: "eventsUpTo (financeProject [junePayment, datelessAdvance]) (Some ''0000-00-00'') =
      [datelessAdvance]"
    by (simp add: j cutoffOrDefault_def)
  from dl a b show ?thesis by blast
qed

subsection \<open>Numeric parsing\<close>














lemma all_digits_set: "list_all isDigit d \<Longrightarrow> x \<in> set d \<Longrightarrow> isDigit x"
  by (simp add: list_all_iff)












subsection \<open>Hard failures of the importers\<close>

lemma headerLoop_cases:
  "fst best < int i \<Longrightarrow>
   (headerLoop pf i best rs = best \<and> (\<forall>r\<in>set rs. rowScore pf r \<le> snd best)) \<or>
   (int i \<le> fst (headerLoop pf i best rs) \<and>
    fst (headerLoop pf i best rs) < int i + int (length rs) \<and>
    (\<exists>r\<in>set rs. snd best < rowScore pf r))"
proof (induction rs arbitrary: i best)
  case Nil
  show ?case by simp
next
  case (Cons r rs)
  let ?best' = "if rowScore pf r > snd best then (int i, rowScore pf r) else best"
  have lt: "fst ?best' < int (i + 1)"
    using Cons.prems by simp
  have step: "headerLoop pf i best (r # rs) = headerLoop pf (i + 1) ?best' rs"
    by (simp add: Let_def)
  from Cons.IH [OF lt]
  consider (same) "headerLoop pf (i + 1) ?best' rs = ?best'"
      "\<forall>x\<in>set rs. rowScore pf x \<le> snd ?best'"
    | (later) "int (i + 1) \<le> fst (headerLoop pf (i + 1) ?best' rs)"
      "fst (headerLoop pf (i + 1) ?best' rs) < int (i + 1) + int (length rs)"
      "\<exists>x\<in>set rs. snd ?best' < rowScore pf x"
    by blast
  then show ?case
  proof cases
    case same
    show ?thesis
    proof (cases "rowScore pf r > snd best")
      case True
      with same show ?thesis unfolding step by simp
    next
      case False
      with same show ?thesis unfolding step by auto
    qed
  next
    case later
    from later(3) obtain x where "x \<in> set rs" "snd ?best' < rowScore pf x" by blast
    then have "\<exists>x\<in>set (r # rs). snd best < rowScore pf x"
      by (auto split: if_splits intro: bexI [of _ x])
    with later(1,2) show ?thesis unfolding step by simp
  qed
qed

lemma findHeaderRow_cases:
  "(findHeaderRow pf rows = - 1 \<and> (\<forall>r\<in>set (take 80 rows). rowScore pf r = 0)) \<or>
   (0 \<le> findHeaderRow pf rows \<and> nat (findHeaderRow pf rows) < length rows \<and>
    (\<exists>r\<in>set (take 80 rows). 0 < rowScore pf r))"
proof -
  have "fst (- 1 :: int, 0 :: nat) < int 0" by simp
  from headerLoop_cases [OF this, of pf "take 80 rows"]
  show ?thesis
    unfolding findHeaderRow_def by (auto simp: min_def split: if_splits)
qed

lemma findHeaderRow_negative:
  "findHeaderRow pf rows < 0 \<longleftrightarrow> (\<forall>r\<in>set (take 80 rows). rowScore pf r = 0)"
  using findHeaderRow_cases [of pf rows] by auto

lemma parseBudgetFromSheet_no_fault: "parseBudgetFromSheet pf st rows \<noteq> Inl e"
  using findHeaderRow_cases [of pf rows]
  by (auto simp: parseBudgetFromSheet_def Let_def)

lemma findIndex_nonneg: "0 \<le> findIndex P i hs \<longleftrightarrow> (\<exists>h\<in>set hs. P h)"
  by (induction hs arbitrary: i) auto

lemma dateColumns_length:
  "length (dateColumns pf i hs) = length (filter (isDateHeader pf) hs)"
  by (induction hs arbitrary: i) (auto simp: isDateHeader_def split: option.splits)

lemma plannedPoints_None:
  "\<not> (hasDateColumn pf rows \<and> hasCostColumn pf rows) \<Longrightarrow>
   length (filter (isDateHeader pf) (plannedHeader pf rows)) < 3 \<Longrightarrow>
   plannedPoints pf rows = None"
  by (auto simp: plannedPoints_def Let_def findIndex_nonneg dateColumns_length
      hasDateColumn_def hasCostColumn_def)

text \<open>
  C6. \<open>findHeaderRow\<close> returns \<open>-1\<close> exactly when none of the first 80 rows scores above
  zero, and then \<open>parseBudgetFromSheet\<close> returns no item and the single warning that no
  header row was found; on no input does it end in a fault. When the header of the
  planned sheet has no pair of a date column and a cost column and fewer than three of
  its cells read as dates, \<open>parsePlanned\<close> returns the empty curve and one warning. The
  warnings are not empty.
\<close>

theorem importers_fail_with_warning:
  "(findHeaderRow pf rows < 0 \<longleftrightarrow> (\<forall>r\<in>set (take 80 rows). rowScore pf r = 0))
   \<and> ((\<forall>r\<in>set (take 80 rows). rowScore pf r = 0) \<longrightarrow>
        parseBudgetFromSheet pf st rows =
          Inr \<lparr>parsed_items = [], parsed_warnings = [noHeaderWarning]\<rparr>)
   \<and> parseBudgetFromSheet pf st rows \<noteq> Inl e
   \<and> (\<not> (hasDateColumn pf rows \<and> hasCostColumn pf rows) \<and>
      length (filter (isDateHeader pf) (plannedHeader pf rows)) < 3 \<longrightarrow>
        parsePlanned pf rows =
          \<lparr>parsed_curve = [],
           planned_warnings = [if rows = [] then emptySheetWarning else noDateColumnsWarning]\<rparr>)
   \<and> noHeaderWarning \<noteq> [] \<and> emptySheetWarning \<noteq> [] \<and> noDateColumnsWarning \<noteq> []"
proof -
  have budget: "(\<forall>r\<in>set (take 80 rows). rowScore pf r = 0) \<longrightarrow>
        parseBudgetFromSheet pf st rows =
          Inr \<lparr>parsed_items = [], parsed_warnings = [noHeaderWarning]\<rparr>"
    using findHeaderRow_negative [of pf rows] by (simp add: parseBudgetFromSheet_def)
  have planned: "\<not> (hasDateColumn pf rows \<and> hasCostColumn pf rows) \<and>
      length (filter (isDateHeader pf) (plannedHeader pf rows)) < 3 \<longrightarrow>
        parsePlanned pf rows =
          \<lparr>parsed_curve = [],
           planned_warnings = [if rows = [] then emptySheetWarning else noDateColumnsWarning]\<rparr>"
    using plannedPoints_None [of pf rows] by (auto simp: parsePlanned_def)
  show ?thesis
    apply (intro conjI)
    subgoal by (fact findHeaderRow_negative)
    subgoal by (fact budget)
    subgoal by (fact parseBudgetFromSheet_no_fault)
    subgoal by (fact planned)
    subgoal by (simp add: noHeaderWarning_def)
    subgoal by (simp add: emptySheetWarning_def)
    subgoal by (simp add: noDateColumnsWarning_def)
    done
qed

theorem importers_fail_with_warning_witness:
  "findHeaderRow examplePlatform blankSheet = - 1
   \<and> parseBudgetFromSheet examplePlatform defaultSettings blankSheet =
       Inr \<lparr>parsed_items = [], parsed_warnings = [noHeaderWarning]\<rparr>
   \<and> parsePlanned examplePlatform twoDatesSheet =
       \<lparr>parsed_curve = [], planned_warnings = [noDateColumnsWarning]\<rparr>
   \<and> parsePlanned examplePlatform blankSheet =
       \<lparr>parsed_curve = [], planned_warnings = [noDateColumnsWarning]\<rparr>"
proof -
  have f: "findHeaderRow examplePlatform blankSheet = - 1"
    by code_simp
  with importers_fail_with_warning [of examplePlatform blankSheet]
  have z: "\<forall>r\<in>set (take 80 blankSheet). rowScore examplePlatform r = 0"
    by simp
  with importers_fail_with_warning [of examplePlatform blankSheet defaultSettings]
  have b: "parseBudgetFromSheet examplePlatform defaultSettings blankSheet =
       Inr \<lparr>parsed_items = [], parsed_warnings = [noHeaderWarning]\<rparr>"
    by blast
  have h2: "\<not> hasDateColumn examplePlatform twoDatesSheet"
    "length (filter (isDateHeader examplePlatform) (plannedHeader examplePlatform twoDatesSheet)) < 3"
    by code_simp+
  have ne2: "twoDatesSheet \<noteq> []" by (simp add: twoDatesSheet_def)
  from importers_fail_with_warning [of examplePlatform twoDatesSheet] h2
  have "parsePlanned examplePlatform twoDatesSheet =
      \<lparr>parsed_curve = [],
       planned_warnings = [if twoDatesSheet = [] then emptySheetWarning else noDateColumnsWarning]\<rparr>"
    by blast
  with ne2 have p2: "parsePlanned examplePlatform twoDatesSheet =
      \<lparr>parsed_curve = [], planned_warnings = [noDateColumnsWarning]\<rparr>"
    by simp
  have h0: "\<not> hasDateColumn examplePlatform blankSheet"
    "length (filter (isDateHeader examplePlatform) (plannedHeader examplePlatform blankSheet)) < 3"
    by code_simp+
  have ne0: "blankSheet \<noteq> []" by (simp add: blankSheet_def)
  from importers_fail_with_warning [of examplePlatform blankSheet] h0
  have "parsePlanned examplePlatform blankSheet =
      \<lparr>parsed_curve = [],
       planned_warnings = [if blankSheet = [] then emptySheetWarning else noDateColumnsWarning]\<rparr>"
    by blast
  with ne0 have p0: "parsePlanned examplePlatform blankSheet =
      \<lparr>parsed_curve = [], planned_warnings = [noDateColumnsWarning]\<rparr>"
    by simp
  from f b p2 p0 show ?thesis by blast
qed

subsection \<open>Planned curve\<close>

lemma js_add_finite: "isFinite a \<Longrightarrow> isFinite b \<Longrightarrow> isFinite (js_add a b)"
  by (cases a; cases b) simp_all

lemma js_sum_finite: "list_all isFinite xs \<Longrightarrow> isFinite (js_sum xs)"
  by (induction xs) (simp_all add: js_add_finite)









































subsection \<open>Suspension shift\<close>

lemma dateTimeValue_dayOfDate:
  "dateTimeValue tz s = map_option (\<lambda>k. k * msPerDay - tz * 60000) (dayOfDate s)"
  by (simp add: dateTimeValue_def dayOfDate_def Let_def)

lemma dayOfDate_empty: "dayOfDate [] = None"
  by (simp add: dayOfDate_def isoPattern_def)

lemma round_whole_days: "\<lfloor>(of_int (k * msPerDay) :: rat) / 86400000 + 1 / 2\<rfloor> = k"
proof -
  have e: "(of_int (k * msPerDay) :: rat) / 86400000 = of_int k"
    by (simp add: msPerDay_def)
  show ?thesis unfolding e by (simp add: floor_eq_iff)
qed

lemma suspensionLoop_suspendedDays:
  "suspensionLoop tz (day * msPerDay - tz * 60000) extra ss = extra + suspendedDays ss day"
proof (induction ss arbitrary: extra)
  case Nil
  show ?case by (simp add: suspendedDays_def)
next
  case (Cons s ss)
  have le: "\<And>b. (b * msPerDay - tz * 60000 \<le> day * msPerDay - tz * 60000) = (b \<le> day)"
    by (simp add: msPerDay_def)
  have diff: "\<And>a b. (b * msPerDay - tz * 60000) - (a * msPerDay - tz * 60000) = (b - a) * msPerDay"
    by (simp add: algebra_simps)
  show ?case
  proof (cases "sus_from s = [] \<or> sus_to s = []")
    case True
    then have "suspensionLength day s = 0"
      by (auto simp: suspensionLength_def dayOfDate_empty split: option.splits)
    with True Cons.IH show ?thesis by (simp add: suspendedDays_def)
  next
    case False
    then show ?thesis
      using Cons.IH
      by (simp add: suspendedDays_def suspensionLength_def dateTimeValue_dayOfDate le diff
          split: option.splits) (simp add: msPerDay_def floor_eq_iff diff_divide_distrib)
  qed
qed

lemma isoDatePrefix_day:
  "isoDatePrefix t =
     (if \<bar>t\<bar> > 8640000000000000 then Inl RangeError else Inr (isoDateOfDay (t div msPerDay)))"
  by (simp add: isoDatePrefix_def isoDateOfDay_def split: prod.splits)

lemma shiftDateBySuspensions_time:
  assumes "dayOfDate dateISO = Some day"
  shows "shiftDateBySuspensions tz dateISO p =
         isoDatePrefix ((day + suspendedDays (suspensions p) day) * msPerDay - tz * 60000)"
  using assms
  by (simp add: shiftDateBySuspensions_def dateTimeValue_dayOfDate suspensionLoop_suspendedDays)
     (simp add: msPerDay_def algebra_simps)

text \<open>
  Where local time is not ahead of UTC, the date moves forward by the suspended days.
\<close>

lemma shift_behind_utc:
  assumes tz: "- 1440 < tz" "tz \<le> 0" and d: "dayOfDate dateISO = Some day"
  shows "shiftDateBySuspensions tz dateISO p =
         (let k = day + suspendedDays (suspensions p) day
          in if \<bar>k * msPerDay - tz * 60000\<bar> > 8640000000000000 then Inl RangeError
             else Inr (isoDateOfDay k))"
proof -
  let ?k = "day + suspendedDays (suspensions p) day"
  from tz have "(?k * msPerDay - tz * 60000) div msPerDay = ?k"
    unfolding msPerDay_def by (intro int_div_pos_eq [where r = "- tz * 60000"]) simp_all
  then show ?thesis
    by (simp add: shiftDateBySuspensions_time [OF d] isoDatePrefix_day Let_def)
qed

text \<open>
  Where local time is ahead of UTC, local midnight falls on the previous day in UTC, and
  the date returned is one day short.
\<close>

lemma shift_ahead_of_utc:
  assumes tz: "0 < tz" "tz \<le> 1440" and d: "dayOfDate dateISO = Some day"
  shows "shiftDateBySuspensions tz dateISO p =
         (let k = day + suspendedDays (suspensions p) day
          in if \<bar>k * msPerDay - tz * 60000\<bar> > 8640000000000000 then Inl RangeError
             else Inr (isoDateOfDay (k - 1)))"
proof -
  let ?k = "day + suspendedDays (suspensions p) day"
  from tz have "(?k * msPerDay - tz * 60000) div msPerDay = ?k - 1"
    unfolding msPerDay_def
    by (intro int_div_pos_eq [where r = "86400000 - tz * 60000"]) (simp_all add: algebra_simps)
  then show ?thesis
    by (simp add: shiftDateBySuspensions_time [OF d] isoDatePrefix_day Let_def)
qed

text \<open>
  C9 does not hold of the code on a host whose local time is ahead of UTC. The date is
  read as local midnight and written back in UTC, where that instant still belongs to
  the previous day. At \<open>tz = 60\<close> the date 2024-01-10 of a project without suspensions
  comes back as 2024-01-09, where the claim gives 2024-01-10 (no suspended day); with
  a suspension from 2024-01-01 to 2024-01-05 (5 days) and one in March it comes back as
  2024-01-14, where the claim gives 2024-01-15. At \<open>tz = -300\<close> the same call returns
  2024-01-15.
\<close>

theorem shiftDateBySuspensions_day_short_ahead_of_utc:
  "shiftDateBySuspensions 60 ''2024-01-10'' (suspendedProject []) = Inr ''2024-01-09''
   \<and> dayOfDate ''2024-01-10'' = Some 19732
   \<and> suspendedDays [] 19732 = 0
   \<and> isoDateOfDay (19732 + 0) = ''2024-01-10''
   \<and> shiftDateBySuspensions 60 ''2024-01-10''
        (suspendedProject [januarySuspension, marchSuspension]) = Inr ''2024-01-14''
   \<and> suspendedDays [januarySuspension, marchSuspension] 19732 = 5
   \<and> isoDateOfDay (19732 + 5) = ''2024-01-15''
   \<and> shiftDateBySuspensions (- 300) ''2024-01-10''
        (suspendedProject [januarySuspension, marchSuspension]) = Inr ''2024-01-15''"
proof -
  have a: "shiftDateBySuspensions 60 ''2024-01-10'' (suspendedProject []) = Inr ''2024-01-09''"
    by code_simp
  have b: "dayOfDate ''2024-01-10'' = Some 19732"
    by code_simp
  have c: "suspendedDays [] 19732 = 0"
    by (simp add: suspendedDays_def)
  have d: "isoDateOfDay (19732 + 0) = ''2024-01-10''"
    by code_simp
  have e: "shiftDateBySuspensions 60 ''2024-01-10''
        (suspendedProject [januarySuspension, marchSuspension]) = Inr ''2024-01-14''"
    by code_simp
  have f: "suspendedDays [januarySuspension, marchSuspension] 19732 = 5"
    by code_simp
  have g: "isoDateOfDay (19732 + 5) = ''2024-01-15''"
    by code_simp
  have h: "shiftDateBySuspensions (- 300) ''2024-01-10''
        (suspendedProject [januarySuspension, marchSuspension]) = Inr ''2024-01-15''"
    by code_simp
  show ?thesis
    apply (intro conjI)
    subgoal by (fact a)
    subgoal by (fact b)
    subgoal by (fact c)
    subgoal by (fact d)
    subgoal by (fact e)
    subgoal by (fact f)
    subgoal by (fact g)
    subgoal by (fact h)
    done
qed

subsection \<open>Money rounding\<close>

lemma nearestTiesUp_floor: "nearestTiesUp y = \<lfloor>y + 1 / 2\<rfloor>"
proof -
  define f where "f = \<lfloor>y\<rfloor>"
  have b: "of_int f \<le> y" "y < of_int f + 1" unfolding f_def by linarith+
  show ?thesis
  proof (cases "y - of_int f < 1 / 2")
    case True
    with b have "\<lfloor>y + 1 / 2\<rfloor> = f" by (intro floor_unique) simp_all
    with True show ?thesis by (simp add: nearestTiesUp_def f_def)
  next
    case False
    with b have "\<lfloor>y + 1 / 2\<rfloor> = f + 1" by (intro floor_unique) simp_all
    with False show ?thesis by (simp add: nearestTiesUp_def f_def)
  qed
qed

lemma nearestTiesUp_bounds:
  "of_int (nearestTiesUp y) - 1 / 2 \<le> y \<and> y < of_int (nearestTiesUp y) + 1 / 2"
proof -
  have "of_int \<lfloor>y + 1 / 2\<rfloor> \<le> y + 1 / 2" "y + 1 / 2 < of_int \<lfloor>y + 1 / 2\<rfloor> + 1"
    by linarith+
  then show ?thesis
    unfolding nearestTiesUp_floor by linarith
qed

lemma moneyUnits_bounds:
  "of_int (moneyUnits d q) - 1 / 2 \<le> scaledMoney d q \<and>
   scaledMoney d q < of_int (moneyUnits d q) + 1 / 2"
  unfolding moneyUnits_def by (rule nearestTiesUp_bounds)

lemma binary64_pow10:
  assumes "0 \<le> d" "d \<le> 15"
  shows "binary64 (pow10 d) = pow10 d"
proof -
  from assms have "nat d \<le> 15" by simp
  then have "(10 :: int) ^ nat d \<le> 10 ^ 15" by (intro power_increasing) simp_all
  then have "\<bar>(10 :: int) ^ nat d\<bar> < 2 ^ 53" by simp
  then have "binary64 (of_int (10 ^ nat d)) = of_int (10 ^ nat d)" by (rule binary64_int)
  with assms show ?thesis by (simp add: pow10_def)
qed

lemma scaledMoney_near:
  assumes "d = - 3 \<or> (0 \<le> d \<and> d \<le> 15)"
  shows "\<bar>scaledMoney d q - q * pow10 d\<bar> \<le> \<bar>q * pow10 d\<bar> / 2 ^ 53"
proof (cases "d = - 3")
  case True
  then show ?thesis
    using binary64_relative [of "q / 1000"] by (simp add: scaledMoney_def pow10_def)
next
  case False
  with assms have "binary64 (pow10 d) = pow10 d" by (simp add: binary64_pow10)
  with False show ?thesis
    using binary64_relative [of "q * pow10 d"] by (simp add: scaledMoney_def)
qed

lemma unitsValue_near:
  assumes "d = - 3 \<or> (0 \<le> d \<and> d \<le> 15)"
  shows "\<bar>unitsValue d k - of_int k / pow10 d\<bar> \<le> \<bar>of_int k / pow10 d\<bar> / 2 ^ 53"
proof (cases "d = - 3")
  case True
  then show ?thesis
    using binary64_relative [of "of_int k * 1000"] by (simp add: unitsValue_def pow10_def)
next
  case False
  with assms have "binary64 (pow10 d) = pow10 d" by (simp add: binary64_pow10)
  with False show ?thesis
    using binary64_relative [of "of_int k / pow10 d"] by (simp add: unitsValue_def)
qed

lemma roundByDecimals_roundedMoney:
  "roundByDecimals (Some x) d = roundedMoney d x"
proof (cases x)
  case (Fin q)
  have nz: "binary64 (pow10 d) \<noteq> 0"
    by (rule binary64_nonzero) (rule pow10_nonzero)
  show ?thesis
    using nz
    by (simp add: Fin roundByDecimals.simps roundedMoney_def unitsValue_def moneyUnits_def
        scaledMoney_def nearestTiesUp_floor Let_def)
qed (simp_all add: roundByDecimals.simps roundedMoney_def)


subsection \<open>Contract value\<close>

lemma budgetEffectiveItem_effective:
  "qty (budgetEffectiveItem it p) = effectiveQuantity p it"
  "vu (budgetEffectiveItem it p) = effectivePrice p it"
  by (simp_all add: budgetEffectiveItem_foldl effectiveOf_def effectiveQuantity_def
      effectivePrice_def)

lemma contractSumLoop_foldl:
  "contractSumLoop p acc its =
     foldl js_add64 acc (map (itemContribution p) (filter contributes its))"
proof (induction its arbitrary: acc)
  case Nil
  show ?case by simp
next
  case (Cons it its)
  consider "type it = ITEM" | "type it \<noteq> ITEM" "type it = AIU \<or> type it = LUMP"
    | "\<not> contributes it"
    by (auto simp: contributes_def)
  then show ?case
  proof cases
    case 1
    then show ?thesis
      by (simp add: Cons.IH itemContribution_def contributes_def Let_def
          budgetEffectiveItem_effective)
  next
    case 2
    then show ?thesis
      by (auto simp: Cons.IH itemContribution_def contributes_def)
  next
    case 3
    then have "type it \<noteq> ITEM" "type it \<noteq> AIU" "type it \<noteq> LUMP"
      by (simp_all add: contributes_def)
    with 3 show ?thesis
      by (simp add: Cons.IH)
  qed
qed

lemma contractValue_sum:
  "find isTotalRow (items (budget p)) = None \<Longrightarrow>
   cv_value (contractValue p st) = roundedMoney (moneyDecimals st) (contractSum p)"
  by (simp add: contractValue_def contractSumLoop_foldl contractSum_def sum64_def
      roundByDecimals_roundedMoney)

lemma contractValue_total:
  "find isTotalRow (items (budget p)) = Some t \<Longrightarrow>
   \<exists>x. vtContract t = Some x \<and> isFinite x \<and>
       cv_value (contractValue p st) = roundedMoney (moneyDecimals st) x"
proof -
  assume f: "find isTotalRow (items (budget p)) = Some t"
  then have "isTotalRow t" by (auto simp: find_Some_iff)
  then obtain x where x: "vtContract t = Some x" "isFinite x"
    by (auto simp: isTotalRow_def split: option.splits)
  have "cv_value (contractValue p st) = roundedMoney (moneyDecimals st) x"
    by (simp add: contractValue_def f x roundByDecimals_roundedMoney)
  with x show ?thesis by blast
qed

lemma find_first:
  "\<forall>x\<in>set pre. \<not> P x \<Longrightarrow> P t \<Longrightarrow> find P (pre @ t # post) = Some t"
  by (induction pre) simp_all

lemma find_without:
  "\<not> P x \<Longrightarrow> find P (xs @ x # ys) = find P (xs @ ys)"
  by (induction xs) simp_all

lemma itemContribution_withItems:
  "itemContribution (withItems p its) = itemContribution p"
  by (rule ext)
     (simp add: itemContribution_def effectiveQuantity_def effectivePrice_def withItems_def)

lemma contractValue_without_row:
  assumes "\<not> contributes it" "\<not> isTotalRow it"
  shows "cv_value (contractValue (withItems p (xs @ it # ys)) st) =
         cv_value (contractValue (withItems p (xs @ ys)) st)"
proof -
  have i: "\<And>its. items (budget (withItems p its)) = its"
    by (simp add: withItems_def)
  have f: "find isTotalRow (xs @ it # ys) = find isTotalRow (xs @ ys)"
    using assms(2) by (rule find_without)
  have c: "filter contributes (xs @ it # ys) = filter contributes (xs @ ys)"
    using assms(1) by simp
  have "currencyOf (withItems p (xs @ it # ys)) = currencyOf (withItems p (xs @ ys))"
    by (simp add: currencyOf_def withItems_def)
  then show ?thesis
    using assms(1)
    by (simp add: contractValue_def i f contractSumLoop_foldl itemContribution_withItems
        split: option.splits)
qed


text \<open>
  C1 (as the code has it). When some row is a total row (tagged \<open>TOTAL\<close>, description
  containing "valor total" in any letter case, finite stored total), \<open>contractValue\<close>
  returns the stored total of the first such row, rounded, whatever the other rows hold.
  When no row is, it returns the rounded contract sum: the sum in double arithmetic, in
  budget order from 0, of effective quantity times effective unit price under the full
  revision list for each \<open>ITEM\<close> and of the stored total for each \<open>AIU\<close> and \<open>LUMP\<close> row.
  Rows of the types \<open>SUBTOTAL\<close>, \<open>CAP\<close>, \<open>SUB\<close>, \<open>TEXT\<close> and \<open>TOTAL\<close> are not summed, and
  the value is the same with or without such a row. Rounding takes the whole number of
  money units nearest to the scaled value, a half going up, and scales it back: the
  scaled value and the result are within one rounding error (a relative \<open>2\<^sup>-\<^sup>5\<^sup>3\<close>) of
  the exact ones. An \<open>ITEM\<close> of 10 at 100, an \<open>AIU\<close> row of 50 and a \<open>SUBTOTAL\<close> row of 1050
  give 1050; once a revision sets the item to 0.57 at 1250 the sum is
  762.4999999999999, and the value 762 at the precision 0 and 762.5 at the precision 2.
\<close>

theorem contractValue_total_or_sum:
  "(items (budget p) = pre @ t # post \<and> (\<forall>x\<in>set pre. \<not> isTotalRow x) \<and> isTotalRow t \<longrightarrow>
      (\<exists>x. vtContract t = Some x \<and> isFinite x \<and>
           cv_value (contractValue p st) = roundedMoney (moneyDecimals st) x))
   \<and> ((\<exists>x\<in>set (items (budget p)). isTotalRow x) \<longrightarrow>
      (\<exists>t\<in>set (items (budget p)). \<exists>x. isTotalRow t \<and> vtContract t = Some x \<and>
         cv_value (contractValue p st) = roundedMoney (moneyDecimals st) x))
   \<and> ((\<forall>x\<in>set (items (budget p)). \<not> isTotalRow x) \<longrightarrow>
      cv_value (contractValue p st) = roundedMoney (moneyDecimals st) (contractSum p))
   \<and> (type it \<in> {SUBTOTAL, CAP, SUB, TEXT, TOTAL} \<longrightarrow> \<not> contributes it)
   \<and> (\<not> contributes it \<and> \<not> isTotalRow it \<longrightarrow>
      cv_value (contractValue (withItems p (xs @ it # ys)) st) =
      cv_value (contractValue (withItems p (xs @ ys)) st))
   \<and> roundedMoney d (Fin q) = Some (Fin (unitsValue d (moneyUnits d q)))
   \<and> of_int (moneyUnits d q) - 1 / 2 \<le> scaledMoney d q
   \<and> scaledMoney d q < of_int (moneyUnits d q) + 1 / 2
   \<and> (d = - 3 \<or> (0 \<le> d \<and> d \<le> 15) \<longrightarrow>
        \<bar>scaledMoney d q - q * pow10 d\<bar> \<le> \<bar>q * pow10 d\<bar> / 2 ^ 53 \<and>
        \<bar>unitsValue d k - of_int k / pow10 d\<bar> \<le> \<bar>of_int k / pow10 d\<bar> / 2 ^ 53)
   \<and> cv_value (contractValue (exampleProject exampleBudget []) defaultSettings) =
        Some (Fin 1050)
   \<and> contractSum (exampleProject exampleBudget [fractionRevision]) =
        Fin (6707020929433599 / 8796093022208)
   \<and> cv_value (contractValue (exampleProject exampleBudget [fractionRevision]) defaultSettings) =
        Some (Fin 762)
   \<and> cv_value (contractValue (exampleProject exampleBudget [fractionRevision]) centSettings) =
        Some (Fin (1525 / 2))"
proof -
  have first: "items (budget p) = pre @ t # post \<and> (\<forall>x\<in>set pre. \<not> isTotalRow x) \<and> isTotalRow t \<longrightarrow>
      (\<exists>x. vtContract t = Some x \<and> isFinite x \<and>
           cv_value (contractValue p st) = roundedMoney (moneyDecimals st) x)"
  proof
    assume h: "items (budget p) = pre @ t # post \<and> (\<forall>x\<in>set pre. \<not> isTotalRow x) \<and> isTotalRow t"
    then have "find isTotalRow (items (budget p)) = Some t"
      by (simp add: find_first)
    then show "\<exists>x. vtContract t = Some x \<and> isFinite x \<and>
           cv_value (contractValue p st) = roundedMoney (moneyDecimals st) x"
      by (rule contractValue_total)
  qed
  have some: "(\<exists>x\<in>set (items (budget p)). isTotalRow x) \<longrightarrow>
      (\<exists>t\<in>set (items (budget p)). \<exists>x. isTotalRow t \<and> vtContract t = Some x \<and>
         cv_value (contractValue p st) = roundedMoney (moneyDecimals st) x)"
  proof
    assume "\<exists>x\<in>set (items (budget p)). isTotalRow x"
    then obtain t where f: "find isTotalRow (items (budget p)) = Some t"
      by (cases "find isTotalRow (items (budget p))") (auto simp: find_None_iff)
    then have m: "t \<in> set (items (budget p))" "isTotalRow t"
      by (auto simp: find_Some_iff)
    from contractValue_total [OF f, of st] obtain x where
      "vtContract t = Some x" "cv_value (contractValue p st) = roundedMoney (moneyDecimals st) x"
      by blast
    with m show "\<exists>t\<in>set (items (budget p)). \<exists>x. isTotalRow t \<and> vtContract t = Some x \<and>
         cv_value (contractValue p st) = roundedMoney (moneyDecimals st) x"
      by blast
  qed
  have none: "(\<forall>x\<in>set (items (budget p)). \<not> isTotalRow x) \<longrightarrow>
      cv_value (contractValue p st) = roundedMoney (moneyDecimals st) (contractSum p)"
    by (simp add: contractValue_sum find_None_iff)
  have nothing: "type it \<in> {SUBTOTAL, CAP, SUB, TEXT, TOTAL} \<longrightarrow> \<not> contributes it"
    by (auto simp: contributes_def)
  have without: "\<not> contributes it \<and> \<not> isTotalRow it \<longrightarrow>
      cv_value (contractValue (withItems p (xs @ it # ys)) st) =
      cv_value (contractValue (withItems p (xs @ ys)) st)"
    by (simp add: contractValue_without_row)
  have rounded: "roundedMoney d (Fin q) = Some (Fin (unitsValue d (moneyUnits d q)))"
    by (simp add: roundedMoney_def)
  note b = moneyUnits_bounds [of d q]
  have lower: "of_int (moneyUnits d q) - 1 / 2 \<le> scaledMoney d q"
    using b by (rule conjunct1)
  have upper: "scaledMoney d q < of_int (moneyUnits d q) + 1 / 2"
    using b by (rule conjunct2)
  have near: "d = - 3 \<or> (0 \<le> d \<and> d \<le> 15) \<longrightarrow>
        \<bar>scaledMoney d q - q * pow10 d\<bar> \<le> \<bar>q * pow10 d\<bar> / 2 ^ 53 \<and>
        \<bar>unitsValue d k - of_int k / pow10 d\<bar> \<le> \<bar>of_int k / pow10 d\<bar> / 2 ^ 53"
    using scaledMoney_near [of d q] unitsValue_near [of d k] by blast
  have ex1: "cv_value (contractValue (exampleProject exampleBudget []) defaultSettings) =
        Some (Fin 1050)"
    by code_simp
  have ex2: "contractSum (exampleProject exampleBudget [fractionRevision]) =
        Fin (6707020929433599 / 8796093022208)"
    by code_simp
  have ex3: "cv_value (contractValue (exampleProject exampleBudget [fractionRevision])
        defaultSettings) = Some (Fin 762)"
    by code_simp
  have ex4: "cv_value (contractValue (exampleProject exampleBudget [fractionRevision])
        centSettings) = Some (Fin (1525 / 2))"
    by code_simp
  show ?thesis
    apply (intro conjI)
    subgoal by (fact first)
    subgoal by (fact some)
    subgoal by (fact none)
    subgoal by (fact nothing)
    subgoal by (fact without)
    subgoal by (fact rounded)
    subgoal by (fact lower)
    subgoal by (fact upper)
    subgoal by (fact near)
    subgoal by (fact ex1)
    subgoal by (fact ex2)
    subgoal by (fact ex3)
    subgoal by (fact ex4)
    done
qed

text \<open>
  C1 as stated fails. The specification rounds a half away from zero, in exact
  arithmetic. A total row of -50.5 gives the contract value -50 where the policy gives
  -51; an item of quantity 0.57 at 1250 gives 712 where 0.57 \<times> 1250 = 712.5 rounds
  to 713, the product of the doubles being 712.4999999999999.
\<close>

theorem contractValue_not_half_away_from_zero:
  "cv_value (contractValue (exampleProject [negativeTotalRow] []) defaultSettings) =
     Some (Fin (- 50))
   \<and> roundHalfAway (moneyDecimals defaultSettings) (- 101 / 2) = - 51
   \<and> cv_value (contractValue (exampleProject [negativeTotalRow] []) defaultSettings) \<noteq>
     Some (Fin (roundHalfAway (moneyDecimals defaultSettings) (- 101 / 2)))
   \<and> cv_value (contractValue (exampleProject [fractionItem] []) defaultSettings) =
     Some (Fin 712)
   \<and> roundHalfAway (moneyDecimals defaultSettings) (57 / 100 * 1250) = 713
   \<and> cv_value (contractValue (exampleProject [fractionItem] []) defaultSettings) \<noteq>
     Some (Fin (roundHalfAway (moneyDecimals defaultSettings) (57 / 100 * 1250)))"
proof -
  have a: "cv_value (contractValue (exampleProject [negativeTotalRow] []) defaultSettings) =
     Some (Fin (- 50))"
    by code_simp
  have b: "roundHalfAway (moneyDecimals defaultSettings) (- 101 / 2) = - 51"
    by code_simp
  have c: "cv_value (contractValue (exampleProject [fractionItem] []) defaultSettings) =
     Some (Fin 712)"
    by code_simp
  have d: "roundHalfAway (moneyDecimals defaultSettings) (57 / 100 * 1250) = 713"
    by code_simp
  show ?thesis
    unfolding a b c d by simp
qed

text \<open>
  The theorem at the example budget under the revision to 0.57 at 1250: with the row
  "VALOR TOTAL" of 1,000,000 appended the contract value is 1,000,000 whatever the other
  rows sum to; without it the value is the rounded contract sum, 762, and dropping the
  \<open>SUBTOTAL\<close> row changes nothing. The sum lies within half a unit of 762.
\<close>

theorem contractValue_total_or_sum_witness:
  "isTotalRow exampleTotalRow
   \<and> find isTotalRow exampleBudget = None
   \<and> cv_value (contractValue (exampleProject (exampleBudget @ [exampleTotalRow])
        [fractionRevision]) defaultSettings) = Some (Fin 1000000)
   \<and> cv_value (contractValue (exampleProject exampleBudget [fractionRevision])
        defaultSettings) = Some (Fin 762)
   \<and> \<not> contributes (exampleBudget ! 2)
   \<and> cv_value (contractValue (exampleProject exampleBudget [fractionRevision])
        defaultSettings) =
      cv_value (contractValue (exampleProject (take 2 exampleBudget) [fractionRevision])
        defaultSettings)
   \<and> moneyUnits 0 (6707020929433599 / 8796093022208) = 762
   \<and> (762 :: rat) - 1 / 2 \<le> scaledMoney 0 (6707020929433599 / 8796093022208)
   \<and> scaledMoney 0 (6707020929433599 / 8796093022208) < 762 + 1 / 2
   \<and> \<bar>unitsValue 0 762 - 762\<bar> \<le> 762 / 2 ^ 53"
proof -
  let ?s = "6707020929433599 / 8796093022208 :: rat"
  let ?p = "exampleProject (exampleBudget @ [exampleTotalRow]) [fractionRevision]"
  let ?q = "exampleProject exampleBudget [fractionRevision]"
  have t: "isTotalRow exampleTotalRow"
    by code_simp
  have n: "find isTotalRow exampleBudget = None"
    by code_simp
  then have b: "\<forall>x\<in>set exampleBudget. \<not> isTotalRow x"
    by (simp add: find_None_iff)
  have ip: "items (budget ?p) = exampleBudget @ exampleTotalRow # []"
    by (simp add: exampleProject_def)
  have iq: "items (budget ?q) = exampleBudget"
    by (simp add: exampleProject_def)
  have vt: "vtContract exampleTotalRow = Some (Fin 1000000)"
    by (simp add: exampleTotalRow_def budgetRow_def)
  have r: "roundedMoney (moneyDecimals defaultSettings) (Fin 1000000) = Some (Fin 1000000)"
    by code_simp
  have v: "cv_value (contractValue ?p defaultSettings) = Some (Fin 1000000)"
  proof -
    from contractValue_total_or_sum [where p = ?p and pre = exampleBudget
        and t = exampleTotalRow and post = "[]" and st = defaultSettings] ip b t
    have "\<exists>x. vtContract exampleTotalRow = Some x \<and> isFinite x \<and>
        cv_value (contractValue ?p defaultSettings) =
        roundedMoney (moneyDecimals defaultSettings) x"
      by blast
    with vt r show ?thesis by auto
  qed
  have s3: "type (exampleBudget ! 2) \<in> {SUBTOTAL, CAP, SUB, TEXT, TOTAL}"
    by (simp add: exampleBudget_def budgetRow_def)
  have nt: "\<not> isTotalRow (exampleBudget ! 2)"
    using b by (simp add: exampleBudget_def)
  have b': "\<forall>x\<in>set (items (budget ?q)). \<not> isTotalRow x"
    using b by (simp add: iq)
  have split: "exampleBudget = take 2 exampleBudget @ exampleBudget ! 2 # []"
    by (simp add: exampleBudget_def)
  have w: "\<And>its. withItems ?q its = exampleProject its [fractionRevision]"
    by (simp add: withItems_def exampleProject_def)
  note th = contractValue_total_or_sum [where p = ?q and st = defaultSettings
      and it = "exampleBudget ! 2" and xs = "take 2 exampleBudget" and ys = "[]"
      and d = 0 and q = ?s and k = 762]
  from th b' have sum: "cv_value (contractValue ?q defaultSettings) =
      roundedMoney (moneyDecimals defaultSettings) (contractSum ?q)"
    by blast
  from th have cs: "contractSum ?q = Fin ?s"
    by blast
  have rs: "roundedMoney (moneyDecimals defaultSettings) (Fin ?s) = Some (Fin 762)"
    by code_simp
  from sum cs rs have val: "cv_value (contractValue ?q defaultSettings) = Some (Fin 762)"
    by simp
  from th s3 have nc: "\<not> contributes (exampleBudget ! 2)"
    by blast
  from th nc nt have "cv_value (contractValue (withItems ?q
        (take 2 exampleBudget @ exampleBudget ! 2 # [])) defaultSettings) =
      cv_value (contractValue (withItems ?q (take 2 exampleBudget @ [])) defaultSettings)"
    by blast
  then have same: "cv_value (contractValue ?q defaultSettings) =
      cv_value (contractValue (exampleProject (take 2 exampleBudget) [fractionRevision])
        defaultSettings)"
    unfolding split [symmetric] w by simp
  have mu: "moneyUnits 0 ?s = 762"
    by code_simp
  from th have "of_int (moneyUnits 0 ?s) - 1 / 2 \<le> scaledMoney 0 ?s"
    "scaledMoney 0 ?s < of_int (moneyUnits 0 ?s) + 1 / 2"
    by blast+
  then have lo: "(762 :: rat) - 1 / 2 \<le> scaledMoney 0 ?s"
    and hi: "scaledMoney 0 ?s < 762 + 1 / 2"
    unfolding mu by simp_all
  from th have "\<bar>unitsValue 0 762 - of_int 762 / pow10 0\<bar> \<le> \<bar>of_int 762 / pow10 0\<bar> / 2 ^ 53"
    by simp
  then have uv: "\<bar>unitsValue 0 762 - 762\<bar> \<le> 762 / 2 ^ 53"
    by (simp add: pow10_def)
  show ?thesis
    apply (intro conjI)
    subgoal by (fact t)
    subgoal by (fact n)
    subgoal by (fact v)
    subgoal by (fact val)
    subgoal by (fact nc)
    subgoal by (fact same)
    subgoal by (fact mu)
    subgoal by (fact lo)
    subgoal by (fact hi)
    subgoal by (fact uv)
    done
qed

subsection \<open>Executed values\<close>

lemma executedLoop_foldl:
  "executedLoop p m pm av pv its =
     (foldl js_add64 av
        (map (\<lambda>it. js_mul (storedQty m (codeNorm it)) (effectivePrice p it))
           (filter (\<lambda>it. type it = ITEM) its)),
      foldl js_add64 pv
        (map (\<lambda>it. js_mul (js_sub64 (storedQty m (codeNorm it)) (storedQty pm (codeNorm it)))
                       (effectivePrice p it))
           (filter (\<lambda>it. type it = ITEM) its)))"
  by (induction its arbitrary: av pv)
     (simp_all add: Let_def budgetEffectiveItem_effective)

lemma prevQty_storedQty:
  "prevQty collate p rep it =
   storedQty (case previousReport collate p rep of
                Some prev \<Rightarrow> qtyAccumByItem prev | None \<Rightarrow> Map.empty)
     (codeNorm it)"
  by (simp add: prevQty_def accumQty_def storedQty_def split: option.splits)

lemma computeExecutedValues_spec:
  "accumVal (computeExecutedValues collate p rep st) =
     roundedMoney (moneyDecimals st) (specAccumulatedValue p rep)"
  "periodVal (computeExecutedValues collate p rep st) =
     roundedMoney (moneyDecimals st) (specPeriodValue collate p rep)"
  by (simp_all add: computeExecutedValues_def executedLoop_foldl sum64_def
      specAccumulatedValue_def specPeriodValue_def accumQty_def itemRows_def prevQty_storedQty
      roundByDecimals_roundedMoney)

lemma sorted_le_last:
  "sorted xs \<Longrightarrow> x \<in> set xs \<Longrightarrow> x \<le> last xs"
  by (induction xs) auto

lemma previousReport_None:
  "previousReport collate p rep = None \<longleftrightarrow>
   (\<forall>r\<in>set (reports p). \<not> cutoffDate r < cutoffDate rep)"
proof -
  let ?k = "\<lambda>r. collate (cutoffDate r)"
  have "sort_key ?k (filter (\<lambda>r. cutoffDate r < cutoffDate rep) (reports p)) = [] \<longleftrightarrow>
      filter (\<lambda>r. cutoffDate r < cutoffDate rep) (reports p) = []"
    by (metis length_0_conv length_sort)
  then show ?thesis
    by (simp add: previousReport_def Let_def filter_empty_conv)
qed

lemma previousReport_Some:
  assumes "previousReport collate p rep = Some prev"
  shows "prev \<in> set (reports p)" "cutoffDate prev < cutoffDate rep"
    "\<forall>r\<in>set (reports p). cutoffDate r < cutoffDate rep \<longrightarrow>
       collate (cutoffDate r) \<le> collate (cutoffDate prev)"
proof -
  let ?k = "\<lambda>r. collate (cutoffDate r)"
  let ?e = "sort_key ?k (filter (\<lambda>r. cutoffDate r < cutoffDate rep) (reports p))"
  from assms have ne: "?e \<noteq> []" and l: "prev = last ?e"
    by (auto simp: previousReport_def Let_def split: if_splits)
  from ne have "last ?e \<in> set ?e" by (rule last_in_set)
  with l have m: "prev \<in> set ?e" by simp
  from m show "prev \<in> set (reports p)" by simp
  from m show "cutoffDate prev < cutoffDate rep" by simp
  have s: "sorted (map ?k ?e)" by simp
  show "\<forall>r\<in>set (reports p). cutoffDate r < cutoffDate rep \<longrightarrow>
      collate (cutoffDate r) \<le> collate (cutoffDate prev)"
  proof (intro ballI impI)
    fix r assume "r \<in> set (reports p)" "cutoffDate r < cutoffDate rep"
    then have "r \<in> set ?e" by simp
    then have "?k r \<in> set (map ?k ?e)" by (simp only: set_map image_eqI)
    with s have "?k r \<le> last (map ?k ?e)"
      by (rule sorted_le_last)
    with ne l show "collate (cutoffDate r) \<le> collate (cutoffDate prev)"
      by (simp add: last_map)
  qed
qed

lemma previousReport_latest:
  assumes o: "ordersCutoffs collate (reports p)"
    and s: "previousReport collate p rep = Some prev"
  shows "\<forall>r\<in>set (reports p). cutoffDate r < cutoffDate rep \<longrightarrow> cutoffDate r \<le> cutoffDate prev"
proof (intro ballI impI)
  fix r assume r: "r \<in> set (reports p)" "cutoffDate r < cutoffDate rep"
  with previousReport_Some(3) [OF s] have "collate (cutoffDate r) \<le> collate (cutoffDate prev)"
    by blast
  with o r(1) previousReport_Some(1) [OF s] show "cutoffDate r \<le> cutoffDate prev"
    by (simp add: ordersCutoffs_def)
qed

text \<open>
  C2 (as the code has it). \<open>previousReport\<close> returns a report of the project whose cutoff
  is strictly before the given report's and which the collation of the host places last
  among such reports, and none exactly when no report has an earlier cutoff; where the
  collation orders the cutoffs as their code units do, as it does dates, no earlier
  report has a later cutoff. The accumulated value is the sum over the \<open>ITEM\<close> rows, in
  double arithmetic, of cumulative quantity times effective unit price, and the period
  value the sum of (cumulative quantity minus previous quantity) times effective unit
  price, each rounded: to the whole number of money units nearest to the scaled sum, a
  half going up, scaled back. With an item priced at 100, report A at quantity 5 and
  report B at quantity 8, report B has accumulated value 800 and period value 300. Once
  a revision sets the price to 101, a report at half a unit that follows one at a whole
  unit has the sums 50.5 and -50.5 and the values 51 and -50; at the price 1250 a report
  at 0.57 units has the sum 712.4999999999999 and the accumulated value 712.
\<close>

theorem computeExecutedValues_rounded_sums:
  "(previousReport collate p rep = None \<longleftrightarrow>
      (\<forall>r\<in>set (reports p). \<not> cutoffDate r < cutoffDate rep))
   \<and> (previousReport collate p rep = Some prev \<longrightarrow>
        prev \<in> set (reports p) \<and> cutoffDate prev < cutoffDate rep \<and>
        (\<forall>r\<in>set (reports p). cutoffDate r < cutoffDate rep \<longrightarrow>
           collate (cutoffDate r) \<le> collate (cutoffDate prev)))
   \<and> (ordersCutoffs collate (reports p) \<and> previousReport collate p rep = Some prev \<longrightarrow>
        (\<forall>r\<in>set (reports p). cutoffDate r < cutoffDate rep \<longrightarrow>
           cutoffDate r \<le> cutoffDate prev))
   \<and> accumVal (computeExecutedValues collate p rep st) =
        roundedMoney (moneyDecimals st) (specAccumulatedValue p rep)
   \<and> periodVal (computeExecutedValues collate p rep st) =
        roundedMoney (moneyDecimals st) (specPeriodValue collate p rep)
   \<and> roundedMoney d (Fin q) = Some (Fin (unitsValue d (moneyUnits d q)))
   \<and> of_int (moneyUnits d q) - 1 / 2 \<le> scaledMoney d q
   \<and> scaledMoney d q < of_int (moneyUnits d q) + 1 / 2
   \<and> (d = - 3 \<or> (0 \<le> d \<and> d \<le> 15) \<longrightarrow>
        \<bar>scaledMoney d q - q * pow10 d\<bar> \<le> \<bar>q * pow10 d\<bar> / 2 ^ 53 \<and>
        \<bar>unitsValue d k - of_int k / pow10 d\<bar> \<le> \<bar>of_int k / pow10 d\<bar> / 2 ^ 53)
   \<and> specAccumulatedValue (progressProject [exampleItem] [reportA, reportB]) reportB = Fin 800
   \<and> specPeriodValue exampleCollation (progressProject [exampleItem] [reportA, reportB]) reportB =
        Fin 300
   \<and> accumVal (computeExecutedValues exampleCollation
        (progressProject [exampleItem] [reportA, reportB]) reportB defaultSettings) = Some (Fin 800)
   \<and> periodVal (computeExecutedValues exampleCollation
        (progressProject [exampleItem] [reportA, reportB]) reportB defaultSettings) = Some (Fin 300)
   \<and> specAccumulatedValue (revisedProgress [price101] [reportOne, reportHalf]) reportHalf =
        Fin (101 / 2)
   \<and> specPeriodValue exampleCollation (revisedProgress [price101] [reportOne, reportHalf])
        reportHalf = Fin (- 101 / 2)
   \<and> accumVal (computeExecutedValues exampleCollation
        (revisedProgress [price101] [reportOne, reportHalf]) reportHalf defaultSettings) =
        Some (Fin 51)
   \<and> periodVal (computeExecutedValues exampleCollation
        (revisedProgress [price101] [reportOne, reportHalf]) reportHalf defaultSettings) =
        Some (Fin (- 50))
   \<and> specAccumulatedValue (revisedProgress [price1250] [reportOne, reportHalf, reportFraction])
        reportFraction = Fin (6267216278323199 / 8796093022208)
   \<and> accumVal (computeExecutedValues exampleCollation
        (revisedProgress [price1250] [reportOne, reportHalf, reportFraction]) reportFraction
        defaultSettings) = Some (Fin 712)"
proof -
  have some: "previousReport collate p rep = Some prev \<longrightarrow>
        prev \<in> set (reports p) \<and> cutoffDate prev < cutoffDate rep \<and>
        (\<forall>r\<in>set (reports p). cutoffDate r < cutoffDate rep \<longrightarrow>
           collate (cutoffDate r) \<le> collate (cutoffDate prev))"
    using previousReport_Some [of collate p rep prev] by blast
  have latest: "ordersCutoffs collate (reports p) \<and> previousReport collate p rep = Some prev \<longrightarrow>
        (\<forall>r\<in>set (reports p). cutoffDate r < cutoffDate rep \<longrightarrow>
           cutoffDate r \<le> cutoffDate prev)"
    using previousReport_latest [of collate p rep prev] by blast
  have rounded: "roundedMoney d (Fin q) = Some (Fin (unitsValue d (moneyUnits d q)))"
    by (simp add: roundedMoney_def)
  note b = moneyUnits_bounds [of d q]
  have lower: "of_int (moneyUnits d q) - 1 / 2 \<le> scaledMoney d q"
    using b by (rule conjunct1)
  have upper: "scaledMoney d q < of_int (moneyUnits d q) + 1 / 2"
    using b by (rule conjunct2)
  have near: "d = - 3 \<or> (0 \<le> d \<and> d \<le> 15) \<longrightarrow>
        \<bar>scaledMoney d q - q * pow10 d\<bar> \<le> \<bar>q * pow10 d\<bar> / 2 ^ 53 \<and>
        \<bar>unitsValue d k - of_int k / pow10 d\<bar> \<le> \<bar>of_int k / pow10 d\<bar> / 2 ^ 53"
    using scaledMoney_near [of d q] unitsValue_near [of d k] by blast
  have ea: "specAccumulatedValue (progressProject [exampleItem] [reportA, reportB]) reportB =
      Fin 800"
    by code_simp
  have ep: "specPeriodValue exampleCollation (progressProject [exampleItem] [reportA, reportB])
      reportB = Fin 300"
    by code_simp
  have xa: "accumVal (computeExecutedValues exampleCollation
        (progressProject [exampleItem] [reportA, reportB]) reportB defaultSettings) = Some (Fin 800)"
    by code_simp
  have xp: "periodVal (computeExecutedValues exampleCollation
        (progressProject [exampleItem] [reportA, reportB]) reportB defaultSettings) = Some (Fin 300)"
    by code_simp
  have ha: "specAccumulatedValue (revisedProgress [price101] [reportOne, reportHalf]) reportHalf =
        Fin (101 / 2)"
    by code_simp
  have hp: "specPeriodValue exampleCollation (revisedProgress [price101] [reportOne, reportHalf])
        reportHalf = Fin (- 101 / 2)"
    by code_simp
  have hxa: "accumVal (computeExecutedValues exampleCollation
        (revisedProgress [price101] [reportOne, reportHalf]) reportHalf defaultSettings) =
        Some (Fin 51)"
    by code_simp
  have hxp: "periodVal (computeExecutedValues exampleCollation
        (revisedProgress [price101] [reportOne, reportHalf]) reportHalf defaultSettings) =
        Some (Fin (- 50))"
    by code_simp
  have fa: "specAccumulatedValue (revisedProgress [price1250] [reportOne, reportHalf, reportFraction])
        reportFraction = Fin (6267216278323199 / 8796093022208)"
    by code_simp
  have fxa: "accumVal (computeExecutedValues exampleCollation
        (revisedProgress [price1250] [reportOne, reportHalf, reportFraction]) reportFraction
        defaultSettings) = Some (Fin 712)"
    by code_simp
  show ?thesis
    apply (intro conjI)
    subgoal by (fact previousReport_None)
    subgoal by (fact some)
    subgoal by (fact latest)
    subgoal by (fact computeExecutedValues_spec(1))
    subgoal by (fact computeExecutedValues_spec(2))
    subgoal by (fact rounded)
    subgoal by (fact lower)
    subgoal by (fact upper)
    subgoal by (fact near)
    subgoal by (fact ea)
    subgoal by (fact ep)
    subgoal by (fact xa)
    subgoal by (fact xp)
    subgoal by (fact ha)
    subgoal by (fact hp)
    subgoal by (fact hxa)
    subgoal by (fact hxp)
    subgoal by (fact fa)
    subgoal by (fact fxa)
    done
qed

text \<open>
  C2 as stated fails: the values are rounded. Half a unit of an item priced at 101 is
  worth 50.5, and the accumulated value reported at the default precision is 51.
\<close>

theorem computeExecutedValues_not_plain_sum:
  "specAccumulatedValue (progressProject [halfUnitItem] [halfUnitReport]) halfUnitReport =
     Fin (101 / 2)
   \<and> accumVal (computeExecutedValues exampleCollation
        (progressProject [halfUnitItem] [halfUnitReport]) halfUnitReport defaultSettings) =
     Some (Fin 51)
   \<and> accumVal (computeExecutedValues exampleCollation
        (progressProject [halfUnitItem] [halfUnitReport]) halfUnitReport defaultSettings)
     \<noteq> Some (specAccumulatedValue (progressProject [halfUnitItem] [halfUnitReport])
          halfUnitReport)"
proof -
  have s: "specAccumulatedValue (progressProject [halfUnitItem] [halfUnitReport]) halfUnitReport =
     Fin (101 / 2)"
    by code_simp
  have v: "accumVal (computeExecutedValues exampleCollation
        (progressProject [halfUnitItem] [halfUnitReport]) halfUnitReport defaultSettings) =
     Some (Fin 51)"
    by code_simp
  show ?thesis
    unfolding s v by simp
qed

text \<open>
  The theorem at the example with the price revised to 101: the report at one unit
  precedes the report at half a unit and nothing precedes it; the example collation
  orders the three dates as their code units do; the values of the later report are the
  rounded sums, 51 and -50, and -50.5 lies within half a unit of -50.
\<close>

theorem computeExecutedValues_rounded_sums_witness:
  "map_option rep_id (previousReport exampleCollation
      (revisedProgress [price101] [reportOne, reportHalf]) reportHalf) = Some ''F''
   \<and> cutoffDate reportOne < cutoffDate reportHalf
   \<and> ordersCutoffs exampleCollation [reportOne, reportHalf]
   \<and> previousReport exampleCollation (revisedProgress [price101] [reportOne, reportHalf])
        reportOne = None
   \<and> accumVal (computeExecutedValues exampleCollation
        (revisedProgress [price101] [reportOne, reportHalf]) reportHalf defaultSettings) =
      roundedMoney 0 (Fin (101 / 2))
   \<and> roundedMoney 0 (Fin (101 / 2)) = Some (Fin 51)
   \<and> periodVal (computeExecutedValues exampleCollation
        (revisedProgress [price101] [reportOne, reportHalf]) reportHalf defaultSettings) =
      roundedMoney 0 (Fin (- 101 / 2))
   \<and> roundedMoney 0 (Fin (- 101 / 2)) = Some (Fin (- 50))
   \<and> moneyUnits 0 (- 101 / 2) = - 50
   \<and> (- 50 :: rat) - 1 / 2 \<le> scaledMoney 0 (- 101 / 2)
   \<and> scaledMoney 0 (- 101 / 2) < - 50 + 1 / 2
   \<and> \<bar>scaledMoney 0 (- 101 / 2) - (- 101 / 2)\<bar> \<le> (101 / 2) / 2 ^ 53"
proof -
  let ?P = "revisedProgress [price101] [reportOne, reportHalf]"
  have reps: "reports ?P = [reportOne, reportHalf]"
    by (simp add: revisedProgress_def)
  have cut: "cutoffDate reportOne = ''2024-01-31''" "cutoffDate reportHalf = ''2024-02-29''"
    by (simp_all add: reportOne_def reportHalf_def reportOf_def)
  have prevH: "previousReport exampleCollation ?P reportHalf = Some reportOne"
    by (simp add: previousReport_def reps cut exampleCollation_def toLowerCase_def lowerChar_def)
  have noneF: "\<forall>r\<in>set (reports ?P). \<not> cutoffDate r < cutoffDate reportOne"
    by (simp add: reps cut)
  have oc: "ordersCutoffs exampleCollation (reports ?P)"
    unfolding reps by code_simp
  note t = computeExecutedValues_rounded_sums [where p = ?P and rep = reportHalf
      and prev = reportOne and st = defaultSettings and collate = exampleCollation
      and d = 0 and q = "- 101 / 2" and k = "- 50"]
  note u = computeExecutedValues_rounded_sums [where p = ?P and rep = reportOne
      and prev = reportOne and st = defaultSettings and collate = exampleCollation]
  from t prevH have lt: "cutoffDate reportOne < cutoffDate reportHalf" by blast
  from t oc prevH have "\<forall>r\<in>set (reports ?P). cutoffDate r < cutoffDate reportHalf \<longrightarrow>
      cutoffDate r \<le> cutoffDate reportOne"
    by blast
  from u noneF have n: "previousReport exampleCollation ?P reportOne = None" by blast
  have md: "moneyDecimals defaultSettings = 0"
    by (simp add: defaultSettings_def)
  from t have sa: "specAccumulatedValue ?P reportHalf = Fin (101 / 2)"
    and sp: "specPeriodValue exampleCollation ?P reportHalf = Fin (- 101 / 2)"
    by blast+
  from t have "accumVal (computeExecutedValues exampleCollation ?P reportHalf defaultSettings) =
      roundedMoney (moneyDecimals defaultSettings) (specAccumulatedValue ?P reportHalf)"
    by blast
  then have av: "accumVal (computeExecutedValues exampleCollation ?P reportHalf defaultSettings) =
      roundedMoney 0 (Fin (101 / 2))"
    by (simp only: sa md)
  from t have "periodVal (computeExecutedValues exampleCollation ?P reportHalf defaultSettings) =
      roundedMoney (moneyDecimals defaultSettings)
        (specPeriodValue exampleCollation ?P reportHalf)"
    by blast
  then have pv: "periodVal (computeExecutedValues exampleCollation ?P reportHalf defaultSettings) =
      roundedMoney 0 (Fin (- 101 / 2))"
    by (simp only: sp md)
  have ra: "roundedMoney 0 (Fin (101 / 2)) = Some (Fin 51)"
    by code_simp
  have rp: "roundedMoney 0 (Fin (- 101 / 2)) = Some (Fin (- 50))"
    by code_simp
  have mu: "moneyUnits 0 (- 101 / 2) = - 50"
    by code_simp
  from t have "of_int (moneyUnits 0 (- 101 / 2)) - 1 / 2 \<le> scaledMoney 0 (- 101 / 2)"
    "scaledMoney 0 (- 101 / 2) < of_int (moneyUnits 0 (- 101 / 2)) + 1 / 2"
    by blast+
  then have lo: "(- 50 :: rat) - 1 / 2 \<le> scaledMoney 0 (- 101 / 2)"
    and hi: "scaledMoney 0 (- 101 / 2) < - 50 + 1 / 2"
    unfolding mu by simp_all
  from t have "\<bar>scaledMoney 0 (- 101 / 2) - (- 101 / 2) * pow10 0\<bar> \<le>
      \<bar>(- 101 / 2) * pow10 0\<bar> / 2 ^ 53"
    by simp
  then have ne: "\<bar>scaledMoney 0 (- 101 / 2) - (- 101 / 2)\<bar> \<le> (101 / 2) / 2 ^ 53"
    by (simp add: pow10_def)
  have "rep_id reportOne = ''F''"
    by (simp add: reportOne_def reportOf_def)
  then have i: "map_option rep_id (previousReport exampleCollation ?P reportHalf) = Some ''F''"
    by (simp only: prevH option.map)
  have oc': "ordersCutoffs exampleCollation [reportOne, reportHalf]"
    using oc by (simp only: reps)
  show ?thesis
    apply (intro conjI)
    subgoal by (fact i)
    subgoal by (fact lt)
    subgoal by (fact oc')
    subgoal by (fact n)
    subgoal by (fact av)
    subgoal by (fact ra)
    subgoal by (fact pv)
    subgoal by (fact rp)
    subgoal by (fact mu)
    subgoal by (fact lo)
    subgoal by (fact hi)
    subgoal by (fact ne)
    done
qed

text \<open>
  The collation decides between reports whose cutoffs are not dates: before the cutoff
  \<open>z\<close>, the example collation places the cutoff \<open>B\<close> after \<open>a\<close>, their code units the
  other way round.
\<close>

lemma previousReport_collation_example:
  "map_option rep_id (previousReport exampleCollation
      (revisedProgress [] [reportLower, reportUpper]) (reportOf ''z'' ''z'' (Fin 0))) =
     Some ''upper''
   \<and> map_option rep_id (previousReport (\<lambda>s. s)
      (revisedProgress [] [reportLower, reportUpper]) (reportOf ''z'' ''z'' (Fin 0))) =
     Some ''lower''"
  by code_simp

end
